theory Spec2Isabelle
  imports Main
begin

section \<open>Errors (src/core/errors.ts) and JavaScript values\<close>

text \<open>
  Whatever a \<^verbatim>\<open>throw\<close> can carry in this code base: the three error classes of
  \<^verbatim>\<open>errors.ts\<close> with their fields, the two error classes of the Stripe client that the
  code tests with \<^verbatim>\<open>instanceof\<close>, a plain \<^verbatim>\<open>Error\<close> with its message, and a thrown
  value that is no \<^verbatim>\<open>Error\<close> at all. A fallible operation returns
  \<open>error + 'a\<close>, \<open>Inl\<close> being the throw.
\<close>

datatype error =
    PaymentError string string nat      \<comment> \<open>message, code, statusCode\<close>
  | WebhookError string string          \<comment> \<open>message, code\<close>
  | ConfigError string
  | StripeError string "nat option"     \<comment> \<open>message, statusCode\<close>
  | StripeSignatureVerificationError string
  | Error string
  | NonError

text \<open>\<^verbatim>\<open>error instanceof Error ? error.message : 'Unknown error'\<close>\<close>

fun message_or_unknown :: "error \<Rightarrow> string" where
  "message_or_unknown (PaymentError m _ _) = m"
| "message_or_unknown (WebhookError m _) = m"
| "message_or_unknown (ConfigError m) = m"
| "message_or_unknown (StripeError m _) = m"
| "message_or_unknown (StripeSignatureVerificationError m) = m"
| "message_or_unknown (Error m) = m"
| "message_or_unknown NonError = ''Unknown error''"

text \<open>
  \<^verbatim>\<open>error instanceof Stripe.errors.StripeError\<close>: the signature error is a subclass.
\<close>

fun stripe_error_status :: "error \<Rightarrow> nat option option" where
  "stripe_error_status (StripeError _ st) = Some st"
| "stripe_error_status (StripeSignatureVerificationError _) = Some None"
| "stripe_error_status _ = None"

fun is_WebhookError :: "error \<Rightarrow> bool" where
  "is_WebhookError (WebhookError _ _) = True"
| "is_WebhookError _ = False"

fun is_PaymentError :: "error \<Rightarrow> bool" where
  "is_PaymentError (PaymentError _ _ _) = True"
| "is_PaymentError _ = False"

text \<open>The members of \<^verbatim>\<open>ErrorCodes\<close> that the modelled code uses.\<close>

definition INVALID_REQUEST :: string where "INVALID_REQUEST = ''INVALID_REQUEST''"
definition WEBHOOK_SIGNATURE_INVALID :: string where
  "WEBHOOK_SIGNATURE_INVALID = ''WEBHOOK_SIGNATURE_INVALID''"
definition PAYMENT_FAILED :: string where "PAYMENT_FAILED = ''PAYMENT_FAILED''"
definition CUSTOMER_NOT_FOUND :: string where "CUSTOMER_NOT_FOUND = ''CUSTOMER_NOT_FOUND''"

text \<open>
  JSON-shaped JavaScript values: what the remote adapter serialises and what a response
  body is. Numbers are the integers; an object is the list of its members in order.
\<close>

datatype jsval =
    JNull
  | JBool bool
  | JNum int
  | JStr string
  | JArr "jsval list"
  | JObj "(string \<times> jsval) list"

text \<open>
  Sequencing of fallible, state-changing steps, as \<^verbatim>\<open>await\<close> in a \<^verbatim>\<open>try\<close> block does
  it: the first throw ends the sequence and keeps the state reached so far.
\<close>

type_synonym ('s, 'a) prog = "'s \<Rightarrow> (error + 'a) \<times> 's"

definition bind :: "('s, 'a) prog \<Rightarrow> ('a \<Rightarrow> ('s, 'b) prog) \<Rightarrow> ('s, 'b) prog" where
  "bind m f s = (case m s of (Inl e, s') \<Rightarrow> (Inl e, s') | (Inr a, s') \<Rightarrow> f a s')"

definition ret :: "'a \<Rightarrow> ('s, 'a) prog" where
  "ret a s = (Inr a, s)"

definition throw :: "error \<Rightarrow> ('s, 'a) prog" where
  "throw e s = (Inl e, s)"

text \<open>\<^verbatim>\<open>if (c) { await m }\<close> as a step.\<close>

definition when_do :: "bool \<Rightarrow> ('s, unit) prog \<Rightarrow> ('s, unit) prog" where
  "when_do c m = (if c then m else ret ())"

section \<open>Entities (src/core/types.ts) and the Stripe client\<close>

text \<open>
  \<^verbatim>\<open>Record<string, string>\<close> is a map; a \<^verbatim>\<open>Date\<close> is its instant in milliseconds
  (\<^verbatim>\<open>new Date(seconds * 1000)\<close>); an optional field is an option. The \<^verbatim>\<open>url\<close> of a
  session and the \<^verbatim>\<open>email\<close> of a customer are options because the wrappers of
  \<^verbatim>\<open>api.ts\<close> fill them with \<^verbatim>\<open>session.url!\<close> and \<^verbatim>\<open>customer.email!\<close>, which are
  \<^verbatim>\<open>null\<close> at run time when Stripe sends none.
\<close>

type_synonym metadata = "string \<rightharpoonup> string"

record CheckoutSession =
  cs_id :: string
  cs_url :: "string option"
  cs_status :: string
  cs_customerId :: "string option"
  cs_metadata :: "metadata option"
  cs_createdAt :: "int option"

record SubscriptionItem =
  item_id :: string
  item_priceId :: string
  item_quantity :: int

record Subscription =
  sub_id :: string
  sub_customerId :: string
  sub_status :: string
  sub_currentPeriodEnd :: int
  sub_currentPeriodStart :: int
  sub_cancelAtPeriodEnd :: bool
  sub_items :: "SubscriptionItem list"
  sub_metadata :: "metadata option"
  sub_createdAt :: "int option"

record Customer =
  cus_id :: string
  cus_email :: "string option"
  cus_name :: "string option"
  cus_metadata :: "metadata option"
  cus_createdAt :: "int option"

record CustomerData =
  cd_email :: string
  cd_name :: "string option"
  cd_metadata :: "metadata option"

record CheckoutOptions =
  co_priceId :: string
  co_successUrl :: string
  co_cancelUrl :: string
  co_customerEmail :: "string option"
  co_customerId :: "string option"
  co_metadata :: "metadata option"
  co_mode :: "string option"
  co_quantity :: "int option"
  co_trialDays :: "int option"

text \<open>
  The object embedded in a webhook event (\<^verbatim>\<open>event.data.object\<close>, typed
  \<^verbatim>\<open>unknown\<close> and cast to \<^verbatim>\<open>{ id: string }\<close> by the handler): its id, the status
  it claims, and its other members.
\<close>

record EventObject =
  obj_id :: string
  obj_status :: "string option"
  obj_members :: "(string \<times> jsval) list"

record WebhookEvent =
  ev_id :: string
  ev_type :: string
  ev_data :: EventObject
  ev_created :: int

subsection \<open>What the Stripe client returns\<close>

text \<open>
  The fields that the code reads of the objects of the Stripe client. An expandable
  reference is either an id or the expanded object, of which only the id is read.
\<close>

datatype customer_ref = CustomerId string | CustomerObject string

record StripeSession =
  ss_id :: string
  ss_url :: "string option"
  ss_status :: "string option"
  ss_customer :: "customer_ref option"
  ss_metadata :: "metadata option"
  ss_created :: int

record StripeItem =
  si_id :: string
  si_price_id :: string
  si_quantity :: "int option"

record StripeSubscription =
  ssub_id :: string
  ssub_customer :: "customer_ref option"
  ssub_status :: string
  ssub_current_period_end :: int
  ssub_current_period_start :: int
  ssub_cancel_at_period_end :: bool
  ssub_items :: "StripeItem list"
  ssub_metadata :: "metadata option"
  ssub_created :: int

record StripeCustomer =
  sc_id :: string
  sc_deleted :: bool
  sc_email :: "string option"
  sc_name :: "string option"
  sc_metadata :: "metadata option"
  sc_created :: int

record StripeEvent =
  se_id :: string
  se_type :: string
  se_object :: EventObject
  se_created :: int

record SubscriptionData =
  sd_trial_period_days :: int
  sd_metadata :: "metadata option"

record SessionCreateParams =
  scp_price :: string
  scp_quantity :: int
  scp_mode :: string
  scp_success_url :: string
  scp_cancel_url :: string
  scp_metadata :: "metadata option"
  scp_customer :: "string option"
  scp_customer_email :: "string option"
  scp_subscription_data :: "SubscriptionData option"

record CustomerCreateParams =
  ccp_email :: string
  ccp_name :: "string option"
  ccp_metadata :: "metadata option"

text \<open>
  The Stripe client is an external collaborator: each of its asynchronous methods is a
  fallible step over the state \<open>'u\<close> of the upstream provider, and
  \<^verbatim>\<open>webhooks.constructEvent(payload, signature, secret)\<close> is a fallible function.
\<close>

record 'u stripe_client =
  checkout_sessions_create :: "SessionCreateParams \<Rightarrow> ('u, StripeSession) prog"
  checkout_sessions_retrieve :: "string \<Rightarrow> ('u, StripeSession) prog"
  subscriptions_retrieve :: "string \<Rightarrow> ('u, StripeSubscription) prog"
  customers_create :: "CustomerCreateParams \<Rightarrow> ('u, StripeCustomer) prog"
  customers_retrieve :: "string \<Rightarrow> ('u, StripeCustomer) prog"
  webhooks_constructEvent :: "string \<Rightarrow> string \<Rightarrow> string \<Rightarrow> error + StripeEvent"

subsection \<open>The key-value interface, the world and its trace\<close>

text \<open>
  \<^verbatim>\<open>KVAdapter\<close>: \<^verbatim>\<open>get\<close>, \<^verbatim>\<open>set\<close> and \<^verbatim>\<open>delete\<close> over the state \<open>'c\<close> of the
  cache, each of which may throw.
\<close>

record ('c, 'v) KVAdapter =
  kv_get :: "string \<Rightarrow> ('c, 'v option) prog"
  kv_set :: "string \<Rightarrow> 'v \<Rightarrow> int option \<Rightarrow> ('c, unit) prog"
  kv_delete :: "string \<Rightarrow> ('c, unit) prog"

text \<open>What the pipeline caches and hands to callbacks: an entity, or an id.\<close>

datatype entity =
    SessionEntity CheckoutSession
  | SubscriptionEntity Subscription
  | CustomerEntity Customer
  | IdString string

datatype stripe_call =
    SessionsCreate SessionCreateParams
  | SessionsRetrieve string
  | SubscriptionsRetrieve string
  | CustomersCreate CustomerCreateParams
  | CustomersRetrieve string

text \<open>
  Every call that leaves the pipeline is recorded, in order: a call of the provider's
  \<^verbatim>\<open>verifyWebhook\<close>, of the Stripe client, of the cache, of a callback of the sync
  adapter or of a user handler, and of the console.
\<close>

datatype effect =
    VerifyWebhook string string
  | Upstream stripe_call
  | CacheGet string
  | CacheSet string entity "int option"
  | CacheDelete string
  | SyncCalled string entity
  | HandlerCalled string entity
  | ConsoleError string "error option"
  | ConsoleLog string

record ('c, 'u) world =
  w_cache :: 'c
  w_stripe :: 'u
  w_trace :: "effect list"

definition record_effect :: "effect \<Rightarrow> ('c, 'u) world \<Rightarrow> ('c, 'u) world" where
  "record_effect eff w = w\<lparr> w_trace := w_trace w @ [eff] \<rparr>"

text \<open>A call of the Stripe client, recorded, then run on the upstream state.\<close>

definition upstream :: "stripe_call \<Rightarrow> ('u, 'a) prog \<Rightarrow> (('c, 'u) world, 'a) prog" where
  "upstream call m w =
     (case m (w_stripe w) of
        (r, u') \<Rightarrow> (r, (record_effect (Upstream call) w)\<lparr> w_stripe := u' \<rparr>))"

definition cache_get ::
  "('c, entity) KVAdapter \<Rightarrow> string \<Rightarrow> (('c, 'u) world, entity option) prog" where
  "cache_get cache key w =
     (case kv_get cache key (w_cache w) of
        (r, c') \<Rightarrow> (r, (record_effect (CacheGet key) w)\<lparr> w_cache := c' \<rparr>))"

definition cache_set ::
  "('c, entity) KVAdapter \<Rightarrow> string \<Rightarrow> entity \<Rightarrow> int option \<Rightarrow> (('c, 'u) world, unit) prog" where
  "cache_set cache key v ttlSeconds w =
     (case kv_set cache key v ttlSeconds (w_cache w) of
        (r, c') \<Rightarrow> (r, (record_effect (CacheSet key v ttlSeconds) w)\<lparr> w_cache := c' \<rparr>))"

text \<open>
  A callback is user code: the model keeps that it was called, with what, and whether
  its promise resolved (\<open>None\<close>) or rejected.
\<close>

definition call_back :: "effect \<Rightarrow> error option \<Rightarrow> (('c, 'u) world, unit) prog" where
  "call_back eff outcome w =
     (case outcome of
        None \<Rightarrow> (Inr (), record_effect eff w)
      | Some e \<Rightarrow> (Inl e, record_effect eff w))"

text \<open>Truthiness of a string and of an optional string.\<close>

definition truthy :: "string option \<Rightarrow> string option" where
  "truthy s = (case s of None \<Rightarrow> None | Some x \<Rightarrow> if x = [] then None else Some x)"

section \<open>In-memory key-value adapter (src/adapters/memory.ts)\<close>

text \<open>
  \<^verbatim>\<open>interface StorageEntry<T> { value: T; expiresAt?: number }\<close>.
  Instants are milliseconds since the epoch, as \<^verbatim>\<open>Date.now()\<close> returns them
  (a natural number); \<^verbatim>\<open>ttlSeconds\<close> is an optional integer number of seconds.
  A JavaScript value that the adapter stores or returns is \<^verbatim>\<open>null\<close>, which is
  \<open>None\<close>, or a value \<open>v\<close> other than \<^verbatim>\<open>null\<close>, which is \<open>Some v\<close>: the
  type \<^verbatim>\<open>T\<close> of \<^verbatim>\<open>set\<close> and the type \<^verbatim>\<open>T | null\<close> of \<^verbatim>\<open>get\<close> are both
  \<open>'v option\<close>, and \<^verbatim>\<open>get\<close> returns \<^verbatim>\<open>entry.value\<close> as it is.
\<close>

record 'v StorageEntry =
  se_value :: "'v option"
  se_expiresAt :: "int option"

type_synonym 'v storage = "string \<rightharpoonup> 'v StorageEntry"

text \<open>
  The test \<^verbatim>\<open>entry.expiresAt && entry.expiresAt < Date.now()\<close> of \<^verbatim>\<open>get\<close> and
  of the sweep: an absent \<^verbatim>\<open>expiresAt\<close> and the number 0 are falsy.
\<close>

definition entry_expired :: "'v StorageEntry \<Rightarrow> nat \<Rightarrow> bool" where
  "entry_expired entry now =
     (case se_expiresAt entry of
        None \<Rightarrow> False
      | Some t \<Rightarrow> t \<noteq> 0 \<and> t < int now)"

text \<open>\<^verbatim>\<open>get\<close>: the value read, and the storage after the read.\<close>

definition memory_get :: "'v storage \<Rightarrow> string \<Rightarrow> nat \<Rightarrow> 'v option \<times> 'v storage" where
  "memory_get storage key now =
     (case storage key of
        None \<Rightarrow> (None, storage)
      | Some entry \<Rightarrow>
          if entry_expired entry now then (None, storage(key := None))
          else (se_value entry, storage))"

text \<open>
  \<^verbatim>\<open>set\<close>: \<^verbatim>\<open>if (ttlSeconds && ttlSeconds > 0) entry.expiresAt = Date.now() + ttlSeconds * 1000\<close>.
\<close>

definition memory_set ::
  "'v storage \<Rightarrow> string \<Rightarrow> 'v option \<Rightarrow> int option \<Rightarrow> nat \<Rightarrow> 'v storage" where
  "memory_set storage key v ttlSeconds now =
     storage(key \<mapsto>
       \<lparr> se_value = v,
         se_expiresAt =
           (case ttlSeconds of
              None \<Rightarrow> None
            | Some ttl \<Rightarrow> if ttl \<noteq> 0 \<and> ttl > 0 then Some (int now + ttl * 1000) else None) \<rparr>)"

definition memory_delete :: "'v storage \<Rightarrow> string \<Rightarrow> 'v storage" where
  "memory_delete storage key = storage(key := None)"

text \<open>The body of the 60-second cleanup interval: every expired entry is dropped.\<close>

definition memory_sweep :: "'v storage \<Rightarrow> nat \<Rightarrow> 'v storage" where
  "memory_sweep storage now =
     (\<lambda>key. case storage key of
        None \<Rightarrow> None
      | Some entry \<Rightarrow> if entry_expired entry now then None else Some entry)"

text \<open>
  Every expiry instant that \<^verbatim>\<open>set\<close> writes is positive, the clock being
  non-negative and the offset positive. The storages the adapter can reach satisfy it.
\<close>

definition storage_ok :: "'v storage \<Rightarrow> bool" where
  "storage_ok storage =
     (\<forall>key entry t. storage key = Some entry \<and> se_expiresAt entry = Some t \<longrightarrow> 0 < t)"

text \<open>The expiry instant of an entry has passed.\<close>

definition expiry_passed :: "'v StorageEntry \<Rightarrow> nat \<Rightarrow> bool" where
  "expiry_passed entry now = (\<exists>t. se_expiresAt entry = Some t \<and> t < int now)"

text \<open>A time-to-live that is omitted, zero or negative.\<close>

definition no_ttl :: "int option \<Rightarrow> bool" where
  "no_ttl ttlSeconds = (case ttlSeconds of None \<Rightarrow> True | Some ttl \<Rightarrow> ttl \<le> 0)"

text \<open>
  The adapter as a \<^verbatim>\<open>KVAdapter\<close>. Its state holds the storage and the clock: the
  reading of \<^verbatim>\<open>Date.now()\<close> during the n-th \<^verbatim>\<open>get\<close> or \<^verbatim>\<open>set\<close> is
  \<open>m_clock n\<close>, whatever function that is. No operation of this adapter throws.
  Through the interface the pipeline stores values other than \<^verbatim>\<open>null\<close>.
\<close>

record 'v memory =
  m_storage :: "'v storage"
  m_clock :: "nat \<Rightarrow> nat"
  m_ops :: nat

definition Date_now :: "'v memory \<Rightarrow> nat" where
  "Date_now m = m_clock m (m_ops m)"

definition createMemoryAdapter :: "('v memory, 'v) KVAdapter" where
  "createMemoryAdapter =
     \<lparr> kv_get = (\<lambda>key m.
         (Inr (fst (memory_get (m_storage m) key (Date_now m))),
          m\<lparr> m_storage := snd (memory_get (m_storage m) key (Date_now m)),
             m_ops := Suc (m_ops m) \<rparr>)),
       kv_set = (\<lambda>key v ttlSeconds m.
         (Inr (),
          m\<lparr> m_storage := memory_set (m_storage m) key (Some v) ttlSeconds (Date_now m),
             m_ops := Suc (m_ops m) \<rparr>)),
       kv_delete = (\<lambda>key m.
         (Inr (), m\<lparr> m_storage := memory_delete (m_storage m) key \<rparr>)) \<rparr>"

section \<open>Remote key-value adapter (src/adapters/upstash.ts)\<close>

text \<open>
  The runtime's \<^verbatim>\<open>JSON.parse\<close> (\<open>None\<close> when it throws) and \<^verbatim>\<open>JSON.stringify\<close>
  are parameters of the adapter, and so is the Redis client, an external service:
  \<^verbatim>\<open>get(key): Promise<unknown>\<close> (\<open>None\<close> for \<^verbatim>\<open>null\<close> or \<^verbatim>\<open>undefined\<close>),
  \<^verbatim>\<open>set(key, value: string, {ex?})\<close> and \<^verbatim>\<open>del(key)\<close>, each of which may throw,
  over a state \<open>'r\<close> of the remote store.
\<close>

record json_runtime =
  JSON_parse :: "string \<Rightarrow> jsval option"
  JSON_stringify :: "jsval \<Rightarrow> string"

record 'r redis_client =
  redis_get :: "string \<Rightarrow> ('r, jsval option) prog"
  redis_set :: "string \<Rightarrow> string \<Rightarrow> int option \<Rightarrow> ('r, unit) prog"
  redis_del :: "string \<Rightarrow> ('r, unit) prog"

definition quoted :: "string \<Rightarrow> string" where
  "quoted s = [CHR 0x22] @ s @ [CHR 0x22]"

text \<open>
  What \<^verbatim>\<open>get\<close> makes of a value the store returned: a string is parsed, and kept as it
  is when parsing throws; any other value is returned as it is.
\<close>

definition upstash_decode :: "json_runtime \<Rightarrow> jsval \<Rightarrow> jsval" where
  "upstash_decode rt result =
     (case result of
        JStr s \<Rightarrow> (case JSON_parse rt s of Some v \<Rightarrow> v | None \<Rightarrow> JStr s)
      | _ \<Rightarrow> result)"

definition upstash_get ::
  "json_runtime \<Rightarrow> 'r redis_client \<Rightarrow> string \<Rightarrow> ('r, jsval option) prog" where
  "upstash_get rt redis key r =
     (case redis_get redis key r of
        (Inl e, r') \<Rightarrow>
          (Inl (Error (''Failed to get key '' @ quoted key @ '' from Upstash: ''
                        @ message_or_unknown e)), r')
      | (Inr None, r') \<Rightarrow> (Inr None, r')
      | (Inr (Some result), r') \<Rightarrow> (Inr (Some (upstash_decode rt result)), r'))"

text \<open>\<^verbatim>\<open>typeof value === 'string' ? value : JSON.stringify(value)\<close>\<close>

definition upstash_serialize :: "json_runtime \<Rightarrow> jsval \<Rightarrow> string" where
  "upstash_serialize rt v = (case v of JStr s \<Rightarrow> s | _ \<Rightarrow> JSON_stringify rt v)"

text \<open>The \<^verbatim>\<open>ex\<close> option of the write: present when \<^verbatim>\<open>ttlSeconds && ttlSeconds > 0\<close>.\<close>

definition upstash_ex :: "int option \<Rightarrow> int option" where
  "upstash_ex ttlSeconds =
     (case ttlSeconds of
        None \<Rightarrow> None
      | Some ttl \<Rightarrow> if ttl \<noteq> 0 \<and> ttl > 0 then Some ttl else None)"

definition upstash_set ::
  "json_runtime \<Rightarrow> 'r redis_client \<Rightarrow> string \<Rightarrow> jsval \<Rightarrow> int option \<Rightarrow> ('r, unit) prog" where
  "upstash_set rt redis key v ttlSeconds r =
     (case redis_set redis key (upstash_serialize rt v) (upstash_ex ttlSeconds) r of
        (Inl e, r') \<Rightarrow>
          (Inl (Error (''Failed to set key '' @ quoted key @ '' in Upstash: ''
                        @ message_or_unknown e)), r')
      | (Inr u, r') \<Rightarrow> (Inr (), r'))"

definition upstash_delete :: "'r redis_client \<Rightarrow> string \<Rightarrow> ('r, unit) prog" where
  "upstash_delete redis key r =
     (case redis_del redis key r of
        (Inl e, r') \<Rightarrow>
          (Inl (Error (''Failed to delete key '' @ quoted key @ '' from Upstash: ''
                        @ message_or_unknown e)), r')
      | (Inr u, r') \<Rightarrow> (Inr (), r'))"

text \<open>The adapter as a \<^verbatim>\<open>KVAdapter\<close>.\<close>

definition createUpstashAdapter :: "json_runtime \<Rightarrow> 'r redis_client \<Rightarrow> ('r, jsval) KVAdapter" where
  "createUpstashAdapter rt redis =
     \<lparr> kv_get = upstash_get rt redis,
       kv_set = upstash_set rt redis,
       kv_delete = upstash_delete redis \<rparr>"

subsection \<open>A reference runtime and a reference store, to run the adapter\<close>

text \<open>
  A store that keeps the strings written to it, with the \<^verbatim>\<open>ex\<close> they were written
  with, and returns them as they are; it never throws. A second client stands for an
  unreachable store: its every call throws.
\<close>

type_synonym plain_store = "string \<rightharpoonup> string \<times> int option"

definition plain_redis :: "plain_store redis_client" where
  "plain_redis =
     \<lparr> redis_get = (\<lambda>key r. (Inr (map_option (\<lambda>(s, ex). JStr s) (r key)), r)),
       redis_set = (\<lambda>key s ex r. (Inr (), r(key \<mapsto> (s, ex)))),
       redis_del = (\<lambda>key r. (Inr (), r(key := None))) \<rparr>"

definition failing_redis :: "plain_store redis_client" where
  "failing_redis =
     \<lparr> redis_get = (\<lambda>key. throw (Error ''Redis connection failed'')),
       redis_set = (\<lambda>key s ex. throw (Error ''Redis connection failed'')),
       redis_del = (\<lambda>key. throw (Error ''Redis connection failed'')) \<rparr>"

text \<open>
  \<^verbatim>\<open>JSON.stringify\<close> on \<open>jsval\<close>: no white space, strings quoted with the quote, the
  backslash and the control characters escaped.
\<close>

definition digit_char :: "nat \<Rightarrow> char" where
  "digit_char d = ''0123456789abcdef'' ! (d mod 16)"

function string_of_nat :: "nat \<Rightarrow> string" where
  "string_of_nat n =
     (if n < 10 then [digit_char n] else string_of_nat (n div 10) @ [digit_char (n mod 10)])"
  by pat_completeness auto
termination
  by (relation "measure id") auto

definition string_of_int :: "int \<Rightarrow> string" where
  "string_of_int i = (if i < 0 then CHR ''-'' # string_of_nat (nat (- i)) else string_of_nat (nat i))"

definition escape_char :: "char \<Rightarrow> string" where
  "escape_char c =
     (if c = CHR 0x22 then [CHR 0x5C, CHR 0x22]
      else if c = CHR 0x5C then [CHR 0x5C, CHR 0x5C]
      else if c = CHR 0x08 then [CHR 0x5C, CHR ''b'']
      else if c = CHR 0x0C then [CHR 0x5C, CHR ''f'']
      else if c = CHR 0x0A then [CHR 0x5C, CHR ''n'']
      else if c = CHR 0x0D then [CHR 0x5C, CHR ''r'']
      else if c = CHR 0x09 then [CHR 0x5C, CHR ''t'']
      else if (of_char c :: nat) < 32
        then [CHR 0x5C, CHR ''u'', CHR ''0'', CHR ''0'',
              digit_char (of_char c div 16), digit_char (of_char c mod 16)]
      else [c])"

definition quote_string :: "string \<Rightarrow> string" where
  "quote_string s = quoted (concat (map escape_char s))"

fun join :: "string \<Rightarrow> string list \<Rightarrow> string" where
  "join sep [] = []"
| "join sep [x] = x"
| "join sep (x # y # ys) = x @ sep @ join sep (y # ys)"

fun stringify :: "jsval \<Rightarrow> string" where
  "stringify JNull = ''null''"
| "stringify (JBool b) = (if b then ''true'' else ''false'')"
| "stringify (JNum i) = string_of_int i"
| "stringify (JStr s) = quote_string s"
| "stringify (JArr vs) = ''['' @ join '','' (map stringify vs) @ '']''"
| "stringify (JObj ms) =
     ''{'' @ join '','' (map (\<lambda>m. quote_string (fst m) @ '':'' @ stringify (snd m)) ms) @ ''}''"

text \<open>
  \<^verbatim>\<open>JSON.parse\<close> on the texts that denote a \<open>jsval\<close>, by recursive descent with a
  bound on the number of nested calls. A number with a fraction or an exponent and a
  \<^verbatim>\<open>\u\<close> escape are outside \<open>jsval\<close> and are refused.
\<close>

definition is_ws :: "char \<Rightarrow> bool" where
  "is_ws c = (c = CHR '' '' \<or> c = CHR 0x09 \<or> c = CHR 0x0A \<or> c = CHR 0x0D)"

definition skip_ws :: "string \<Rightarrow> string" where
  "skip_ws cs = dropWhile is_ws cs"

definition is_digit :: "char \<Rightarrow> bool" where
  "is_digit c = (48 \<le> (of_char c :: nat) \<and> (of_char c :: nat) \<le> 57)"

definition unescape :: "char \<Rightarrow> char option" where
  "unescape e =
     (if e = CHR 0x22 \<or> e = CHR 0x5C \<or> e = CHR ''/'' then Some e
      else if e = CHR ''b'' then Some (CHR 0x08)
      else if e = CHR ''f'' then Some (CHR 0x0C)
      else if e = CHR ''n'' then Some (CHR 0x0A)
      else if e = CHR ''r'' then Some (CHR 0x0D)
      else if e = CHR ''t'' then Some (CHR 0x09)
      else None)"

text \<open>The characters of a string literal after its opening quote, and what follows it.\<close>

fun parse_chars :: "string \<Rightarrow> (string \<times> string) option" where
  "parse_chars [] = None"
| "parse_chars [c] = (if c = CHR 0x22 then Some ([], []) else None)"
| "parse_chars (c # e # cs) =
     (if c = CHR 0x22 then Some ([], e # cs)
      else if c = CHR 0x5C then
        (case unescape e of
           None \<Rightarrow> None
         | Some ch \<Rightarrow> map_option (\<lambda>(s, r). (ch # s, r)) (parse_chars cs))
      else if (of_char c :: nat) < 32 then None
      else map_option (\<lambda>(s, r). (c # s, r)) (parse_chars (e # cs)))"

definition nat_of_digits :: "string \<Rightarrow> nat" where
  "nat_of_digits ds = foldl (\<lambda>n c. 10 * n + (of_char c - 48)) 0 ds"

definition parse_nat :: "string \<Rightarrow> (nat \<times> string) option" where
  "parse_nat cs =
     (let ds = takeWhile is_digit cs in
      if ds = [] \<or> (hd ds = CHR ''0'' \<and> length ds > 1) then None
      else Some (nat_of_digits ds, dropWhile is_digit cs))"

definition parse_number :: "string \<Rightarrow> (jsval \<times> string) option" where
  "parse_number cs =
     (case (case cs of
              [] \<Rightarrow> None
            | c # r \<Rightarrow>
                if c = CHR ''-'' then map_option (\<lambda>(n, r'). (- int n, r')) (parse_nat r)
                else map_option (\<lambda>(n, r'). (int n, r')) (parse_nat cs)) of
        None \<Rightarrow> None
      | Some (i, r) \<Rightarrow>
          (case r of
             [] \<Rightarrow> Some (JNum i, r)
           | c # _ \<Rightarrow> if c = CHR ''.'' \<or> c = CHR ''e'' \<or> c = CHR ''E'' then None
                      else Some (JNum i, r)))"

fun parse_value :: "nat \<Rightarrow> string \<Rightarrow> (jsval \<times> string) option"
and parse_elems :: "nat \<Rightarrow> string \<Rightarrow> (jsval list \<times> string) option"
and parse_members :: "nat \<Rightarrow> string \<Rightarrow> ((string \<times> jsval) list \<times> string) option"
where
  "parse_value 0 cs = None"
| "parse_value (Suc n) cs =
     (let cs = skip_ws cs in
      if take 4 cs = ''null'' then Some (JNull, drop 4 cs)
      else if take 4 cs = ''true'' then Some (JBool True, drop 4 cs)
      else if take 5 cs = ''false'' then Some (JBool False, drop 5 cs)
      else
        (case cs of
           [] \<Rightarrow> None
         | c # r \<Rightarrow>
             if c = CHR 0x22 then map_option (\<lambda>(s, r'). (JStr s, r')) (parse_chars r)
             else if c = CHR ''['' then
               (if take 1 (skip_ws r) = '']'' then Some (JArr [], drop 1 (skip_ws r))
                else map_option (\<lambda>(vs, r'). (JArr vs, r')) (parse_elems n r))
             else if c = CHR ''{'' then
               (if take 1 (skip_ws r) = ''}'' then Some (JObj [], drop 1 (skip_ws r))
                else map_option (\<lambda>(ms, r'). (JObj ms, r')) (parse_members n r))
             else parse_number cs))"
| "parse_elems 0 cs = None"
| "parse_elems (Suc n) cs =
     (case parse_value n cs of
        None \<Rightarrow> None
      | Some (v, r) \<Rightarrow>
          (case skip_ws r of
             [] \<Rightarrow> None
           | c # r' \<Rightarrow>
               if c = CHR '','' then map_option (\<lambda>(vs, r''). (v # vs, r'')) (parse_elems n r')
               else if c = CHR '']'' then Some ([v], r')
               else None))"
| "parse_members 0 cs = None"
| "parse_members (Suc n) cs =
     (case skip_ws cs of
        [] \<Rightarrow> None
      | q # r \<Rightarrow>
          if q \<noteq> CHR 0x22 then None
          else
            (case parse_chars r of
               None \<Rightarrow> None
             | Some (k, r1) \<Rightarrow>
                 (case skip_ws r1 of
                    [] \<Rightarrow> None
                  | c # r2 \<Rightarrow>
                      if c \<noteq> CHR '':'' then None
                      else
                        (case parse_value n r2 of
                           None \<Rightarrow> None
                         | Some (v, r3) \<Rightarrow>
                             (case skip_ws r3 of
                                [] \<Rightarrow> None
                              | d # r4 \<Rightarrow>
                                  if d = CHR '','' then
                                    map_option (\<lambda>(ms, r5). ((k, v) # ms, r5)) (parse_members n r4)
                                  else if d = CHR ''}'' then Some ([(k, v)], r4)
                                  else None)))))"

definition parse :: "string \<Rightarrow> jsval option" where
  "parse s =
     (case parse_value (Suc (length s)) s of
        None \<Rightarrow> None
      | Some (v, r) \<Rightarrow> if skip_ws r = [] then Some v else None)"

definition reference_runtime :: json_runtime where
  "reference_runtime = \<lparr> JSON_parse = parse, JSON_stringify = stringify \<rparr>"

section \<open>Configuration (src/core/config.ts)\<close>

text \<open>
  \<^verbatim>\<open>process.env\<close>, restricted to the two variables the SDK reads, and the optional
  overrides \<^verbatim>\<open>Partial<StripeConfig>\<close>.
\<close>

record process_env =
  STRIPE_SECRET_KEY :: "string option"
  STRIPE_WEBHOOK_SECRET :: "string option"

record StripeConfig =
  secretKey :: string
  webhookSecret :: "string option"

record ConfigOverrides =
  ov_secretKey :: "string option"
  ov_webhookSecret :: "string option"

text \<open>
  \<^verbatim>\<open>String.prototype.trim\<close> and \<^verbatim>\<open>startsWith\<close>, on strings of one-byte
  characters: the white space of \<^verbatim>\<open>trim\<close> is then the six characters below.
\<close>

definition is_space :: "char \<Rightarrow> bool" where
  "is_space c = ((of_char c :: nat) \<in> {9, 10, 11, 12, 13, 32})"

definition trim :: "string \<Rightarrow> string" where
  "trim s = rev (dropWhile is_space (rev (dropWhile is_space s)))"

definition startsWith :: "string \<Rightarrow> string \<Rightarrow> bool" where
  "startsWith s p = (take (length p) s = p)"

text \<open>\<^verbatim>\<open>a ?? b\<close> on optional values.\<close>

definition nullish :: "'a option \<Rightarrow> 'a option \<Rightarrow> 'a option" where
  "nullish a b = (case a of Some x \<Rightarrow> Some x | None \<Rightarrow> b)"

definition loadStripeConfig :: "process_env \<Rightarrow> ConfigOverrides option \<Rightarrow> error + StripeConfig" where
  "loadStripeConfig env overrides =
     (let secretKey = nullish (case overrides of None \<Rightarrow> None | Some ov \<Rightarrow> ov_secretKey ov)
                              (STRIPE_SECRET_KEY env);
          webhookSecret = nullish (case overrides of None \<Rightarrow> None | Some ov \<Rightarrow> ov_webhookSecret ov)
                                  (STRIPE_WEBHOOK_SECRET env)
      in case truthy secretKey of
           None \<Rightarrow>
             Inl (ConfigError
               (''Missing required environment variable: STRIPE_SECRET_KEY. '' @
                ''Please set STRIPE_SECRET_KEY in your environment or provide it in the config.''))
         | Some key \<Rightarrow>
             if length (trim key) = 0 then
               Inl (ConfigError ''Invalid STRIPE_SECRET_KEY: must be a non-empty string.'')
             else if \<not> startsWith key ''sk_test_'' \<and> \<not> startsWith key ''sk_live_'' then
               Inl (ConfigError
                 (''Invalid STRIPE_SECRET_KEY format. '' @
                  ''Stripe secret keys must start with '' @ quoted ''sk_test_'' @
                  '' (test mode) or '' @ quoted ''sk_live_'' @ '' (live mode).''))
             else
               Inr \<lparr> secretKey = trim key,
                     webhookSecret = truthy (map_option trim webhookSecret) \<rparr>)"

definition validateWebhookSecret :: "StripeConfig \<Rightarrow> bool \<Rightarrow> error + unit" where
  "validateWebhookSecret config required =
     (if required \<and> truthy (webhookSecret config) = None then
        Inl (ConfigError
          (''Missing required environment variable: STRIPE_WEBHOOK_SECRET. '' @
           ''Webhook secret is required for webhook signature verification. '' @
           ''Get your webhook secret from the Stripe Dashboard > Webhooks > Your endpoint > Signing secret.''))
      else
        (case truthy (webhookSecret config) of
           Some secret \<Rightarrow>
             if \<not> startsWith secret ''whsec_'' then
               Inl (ConfigError
                 (''Invalid STRIPE_WEBHOOK_SECRET format. '' @
                  ''Stripe webhook secrets must start with '' @ quoted ''whsec_'' @ ''.''))
             else Inr ()
         | None \<Rightarrow> Inr ()))"

section \<open>Stripe API wrappers (src/providers/stripe/api.ts, webhooks.ts)\<close>

text \<open>
  \<^verbatim>\<open>createStripeClient(apiKey)\<close> is \<^verbatim>\<open>new Stripe(apiKey, ...)\<close>: the constructor of the
  client is a parameter, a function from the key to the client.
\<close>

type_synonym 'u Stripe = "string \<Rightarrow> 'u stripe_client"

definition createStripeClient :: "'u Stripe \<Rightarrow> string \<Rightarrow> 'u stripe_client" where
  "createStripeClient Stripe_new apiKey = Stripe_new apiKey"

text \<open>
  \<^verbatim>\<open>typeof x.customer === 'string' ? x.customer : x.customer?.id\<close>
\<close>

definition customer_id_of :: "customer_ref option \<Rightarrow> string option" where
  "customer_id_of c =
     (case c of
        None \<Rightarrow> None
      | Some (CustomerId s) \<Rightarrow> Some s
      | Some (CustomerObject i) \<Rightarrow> Some i)"

text \<open>The catch clause shared by the wrappers of \<^verbatim>\<open>api.ts\<close>.\<close>

definition wrap_error :: "string \<Rightarrow> error \<Rightarrow> error" where
  "wrap_error what e =
     (case stripe_error_status e of
        Some st \<Rightarrow>
          PaymentError (what @ '' failed: '' @ message_or_unknown e) PAYMENT_FAILED
            (case st of Some n \<Rightarrow> n | None \<Rightarrow> 500)
      | None \<Rightarrow>
          PaymentError (what @ '' failed: '' @ message_or_unknown e) PAYMENT_FAILED 500)"

definition catching :: "('s, 'a) prog \<Rightarrow> (error \<Rightarrow> error) \<Rightarrow> ('s, 'a) prog" where
  "catching m h s = (case m s of (Inl e, s') \<Rightarrow> (Inl (h e), s') | (Inr a, s') \<Rightarrow> (Inr a, s'))"

definition sessionParams :: "CheckoutOptions \<Rightarrow> SessionCreateParams" where
  "sessionParams options =
     \<lparr> scp_price = co_priceId options,
       scp_quantity = (case co_quantity options of Some q \<Rightarrow> q | None \<Rightarrow> 1),
       scp_mode = (case co_mode options of Some m \<Rightarrow> m | None \<Rightarrow> ''subscription''),
       scp_success_url = co_successUrl options,
       scp_cancel_url = co_cancelUrl options,
       scp_metadata = co_metadata options,
       scp_customer = truthy (co_customerId options),
       scp_customer_email =
         (if truthy (co_customerId options) \<noteq> None then None
          else truthy (co_customerEmail options)),
       scp_subscription_data =
         (case co_trialDays options of
            None \<Rightarrow> None
          | Some d \<Rightarrow>
              if co_mode options = Some ''subscription'' \<and> d \<noteq> 0
              then Some \<lparr> sd_trial_period_days = d, sd_metadata = co_metadata options \<rparr>
              else None) \<rparr>"

definition created_session :: "StripeSession \<Rightarrow> CheckoutSession" where
  "created_session session =
     \<lparr> cs_id = ss_id session,
       cs_url = ss_url session,
       cs_status = (case ss_status session of Some s \<Rightarrow> s | None \<Rightarrow> ''open''),
       cs_customerId = customer_id_of (ss_customer session),
       cs_metadata = ss_metadata session,
       cs_createdAt = Some (ss_created session * 1000) \<rparr>"

definition createCheckoutSession ::
  "'u stripe_client \<Rightarrow> CheckoutOptions \<Rightarrow> (('c, 'u) world, CheckoutSession) prog" where
  "createCheckoutSession stripe options =
     catching
       (bind (upstream (SessionsCreate (sessionParams options))
                (checkout_sessions_create stripe (sessionParams options)))
             (\<lambda>session. ret (created_session session)))
       (wrap_error ''Checkout session creation'')"

definition created_customer :: "StripeCustomer \<Rightarrow> Customer" where
  "created_customer customer =
     \<lparr> cus_id = sc_id customer,
       cus_email = sc_email customer,
       cus_name = sc_name customer,
       cus_metadata = sc_metadata customer,
       cus_createdAt = Some (sc_created customer * 1000) \<rparr>"

definition customerParams :: "CustomerData \<Rightarrow> CustomerCreateParams" where
  "customerParams data =
     \<lparr> ccp_email = cd_email data, ccp_name = cd_name data, ccp_metadata = cd_metadata data \<rparr>"

definition createCustomer ::
  "'u stripe_client \<Rightarrow> CustomerData \<Rightarrow> (('c, 'u) world, Customer) prog" where
  "createCustomer stripe data =
     catching
       (bind (upstream (CustomersCreate (customerParams data))
                (customers_create stripe (customerParams data)))
             (\<lambda>customer. ret (created_customer customer)))
       (wrap_error ''Customer creation'')"

text \<open>\<^verbatim>\<open>verifyWebhookSignature\<close> of \<^verbatim>\<open>webhooks.ts\<close>.\<close>

definition to_WebhookEvent :: "StripeEvent \<Rightarrow> WebhookEvent" where
  "to_WebhookEvent event =
     \<lparr> ev_id = se_id event, ev_type = se_type event, ev_data = se_object event,
       ev_created = se_created event * 1000 \<rparr>"

definition verifyWebhookSignature ::
  "'u stripe_client \<Rightarrow> string \<Rightarrow> string \<Rightarrow> string \<Rightarrow> error + WebhookEvent" where
  "verifyWebhookSignature stripe payload signature secret =
     (if secret = [] then
        Inl (WebhookError ''Webhook secret is required for signature verification''
               WEBHOOK_SIGNATURE_INVALID)
      else if signature = [] then
        Inl (WebhookError ''Missing webhook signature in request headers''
               WEBHOOK_SIGNATURE_INVALID)
      else
        (case webhooks_constructEvent stripe payload signature secret of
           Inr event \<Rightarrow> Inr (to_WebhookEvent event)
         | Inl (StripeSignatureVerificationError m) \<Rightarrow>
             Inl (WebhookError (''Webhook signature verification failed: '' @ m)
                    WEBHOOK_SIGNATURE_INVALID)
         | Inl e \<Rightarrow>
             Inl (WebhookError (''Webhook verification failed: '' @ message_or_unknown e)
                    WEBHOOK_SIGNATURE_INVALID)))"

section \<open>The Stripe provider (src/providers/stripe/index.ts)\<close>

record ('c, 'u) StripeProvider =
  sp_stripe :: "'u stripe_client"
  sp_cache :: "('c, entity) KVAdapter"
  sp_config :: StripeConfig

text \<open>The constructor: it throws what \<^verbatim>\<open>loadStripeConfig\<close> throws, and nothing else.\<close>

definition new_StripeProvider ::
  "process_env \<Rightarrow> 'u Stripe \<Rightarrow> ('c, entity) KVAdapter \<Rightarrow> ConfigOverrides option
     \<Rightarrow> error + ('c, 'u) StripeProvider" where
  "new_StripeProvider env Stripe_new cache config =
     (case loadStripeConfig env config of
        Inl e \<Rightarrow> Inl e
      | Inr cfg \<Rightarrow>
          Inr \<lparr> sp_stripe = createStripeClient Stripe_new (secretKey cfg),
                sp_cache = cache,
                sp_config = cfg \<rparr>)"

definition verifyWebhook ::
  "('c, 'u) StripeProvider \<Rightarrow> string \<Rightarrow> string \<Rightarrow> error + WebhookEvent" where
  "verifyWebhook this payload signature =
     (case truthy (webhookSecret (sp_config this)) of
        None \<Rightarrow>
          Inl (WebhookError
                 ''Webhook secret is not configured. Set STRIPE_WEBHOOK_SECRET environment variable.''
                 WEBHOOK_SIGNATURE_INVALID)
      | Some secret \<Rightarrow> verifyWebhookSignature (sp_stripe this) payload signature secret)"

text \<open>
  \<^verbatim>\<open>createCheckout\<close>, the customer-first flow. \<^verbatim>\<open>{ userId, ...options.metadata }\<close> is
  the map of the metadata over the single entry for \<^verbatim>\<open>userId\<close>. The cache is read
  with \<^verbatim>\<open>get<string>\<close>: a cached entity that is not a string is outside that cast, and
  the model stops there with an error of its own.
\<close>

definition spread_userId :: "string \<Rightarrow> metadata option \<Rightarrow> metadata" where
  "spread_userId userId md =
     [''userId'' \<mapsto> userId] ++ (case md of None \<Rightarrow> Map.empty | Some m \<Rightarrow> m)"

definition metadata_userId :: "metadata option \<Rightarrow> string option" where
  "metadata_userId md = truthy (case md of None \<Rightarrow> None | Some m \<Rightarrow> m ''userId'')"

text \<open>Steps 2 and 3: the customer is created upstream and its id cached, with no TTL.\<close>

definition createCheckout_newCustomer ::
  "('c, 'u) StripeProvider \<Rightarrow> string \<Rightarrow> string \<Rightarrow> CheckoutOptions
     \<Rightarrow> (('c, 'u) world, string) prog" where
  "createCheckout_newCustomer this userId customerEmail options =
     bind (createCustomer (sp_stripe this)
             \<lparr> cd_email = customerEmail, cd_name = None,
               cd_metadata = Some (spread_userId userId (co_metadata options)) \<rparr>)
       (\<lambda>customer.
     bind (cache_set (sp_cache this) (''customer:userId:'' @ userId)
             (IdString (cus_id customer)) None) (\<lambda>_.
     bind (cache_set (sp_cache this) (''customer:email:'' @ customerEmail)
             (IdString (cus_id customer)) None) (\<lambda>_.
     ret (cus_id customer))))"

definition createCheckout_body ::
  "('c, 'u) StripeProvider \<Rightarrow> CheckoutOptions \<Rightarrow> (('c, 'u) world, CheckoutSession) prog" where
  "createCheckout_body this options =
     (case metadata_userId (co_metadata options) of
        None \<Rightarrow> throw (PaymentError ''userId is required in metadata for checkout'' INVALID_REQUEST 400)
      | Some userId \<Rightarrow>
     (case truthy (co_customerEmail options) of
        None \<Rightarrow> throw (PaymentError ''customerEmail is required for checkout'' INVALID_REQUEST 400)
      | Some customerEmail \<Rightarrow>
          bind (cache_get (sp_cache this) (''customer:userId:'' @ userId)) (\<lambda>cached.
          bind
            (case cached of
               None \<Rightarrow> createCheckout_newCustomer this userId customerEmail options
             | Some (IdString customerId) \<Rightarrow>
                 if customerId \<noteq> [] then ret customerId
                 else createCheckout_newCustomer this userId customerEmail options
             | Some other \<Rightarrow> throw (Error ''cached customer id is not a string''))
            (\<lambda>customerId.
          bind (createCheckoutSession (sp_stripe this)
                  (options\<lparr> co_customerId := Some customerId,
                            co_metadata := Some (spread_userId userId (co_metadata options)) \<rparr>))
            (\<lambda>session.
          bind (cache_set (sp_cache this) (''checkout:'' @ cs_id session)
                  (SessionEntity session) (Some 3600)) (\<lambda>_.
          ret session))))))"

definition createCheckout ::
  "('c, 'u) StripeProvider \<Rightarrow> CheckoutOptions \<Rightarrow> (('c, 'u) world, CheckoutSession) prog" where
  "createCheckout this options =
     catching (createCheckout_body this options)
       (\<lambda>e. if is_PaymentError e then e
            else PaymentError (''Checkout creation failed: '' @ message_or_unknown e)
                   PAYMENT_FAILED 500)"

section \<open>The core provider factory (src/core/provider.ts): \<^verbatim>\<open>verifyWebhook\<close>\<close>

text \<open>
  \<^verbatim>\<open>createStripeProvider\<close> loads the configuration as the class does; its
  \<^verbatim>\<open>verifyWebhook\<close> validates the webhook secret when it is called.
\<close>

definition createStripeProvider_config ::
  "process_env \<Rightarrow> ConfigOverrides option \<Rightarrow> error + StripeConfig" where
  "createStripeProvider_config env config = loadStripeConfig env config"

definition core_verifyWebhook ::
  "'u stripe_client \<Rightarrow> StripeConfig \<Rightarrow> string \<Rightarrow> string \<Rightarrow> error + WebhookEvent" where
  "core_verifyWebhook stripe config payload signature =
     (case validateWebhookSecret config True of
        Inl e \<Rightarrow> Inl e
      | Inr u \<Rightarrow>
          (case webhooks_constructEvent stripe payload signature
                  (case webhookSecret config of Some s \<Rightarrow> s | None \<Rightarrow> []) of
             Inr event \<Rightarrow> Inr (to_WebhookEvent event)
           | Inl (StripeSignatureVerificationError m) \<Rightarrow>
               Inl (WebhookError (''Webhook signature verification failed: '' @ m)
                      WEBHOOK_SIGNATURE_INVALID)
           | Inl e \<Rightarrow>
               Inl (WebhookError (''Webhook verification failed: '' @ message_or_unknown e)
                      WEBHOOK_SIGNATURE_INVALID)))"

section \<open>The webhook handler (src/next/handlers/webhook.ts)\<close>

definition latest_session :: "StripeSession \<Rightarrow> CheckoutSession" where
  "latest_session session =
     \<lparr> cs_id = ss_id session,
       cs_url = Some (case ss_url session of Some u \<Rightarrow> u | None \<Rightarrow> []),
       cs_status = (case ss_status session of Some s \<Rightarrow> s | None \<Rightarrow> ''open''),
       cs_customerId = customer_id_of (ss_customer session),
       cs_metadata = ss_metadata session,
       cs_createdAt = Some (ss_created session * 1000) \<rparr>"

definition fetchLatestCheckoutSession ::
  "'u stripe_client \<Rightarrow> string \<Rightarrow> (('c, 'u) world, CheckoutSession) prog" where
  "fetchLatestCheckoutSession stripe sessionId =
     bind (upstream (SessionsRetrieve sessionId) (checkout_sessions_retrieve stripe sessionId))
       (\<lambda>session. ret (latest_session session))"

definition latest_item :: "StripeItem \<Rightarrow> SubscriptionItem" where
  "latest_item item =
     \<lparr> item_id = si_id item,
       item_priceId = si_price_id item,
       item_quantity = (case si_quantity item of Some q \<Rightarrow> q | None \<Rightarrow> 1) \<rparr>"

definition latest_subscription :: "StripeSubscription \<Rightarrow> Subscription" where
  "latest_subscription subscription =
     \<lparr> sub_id = ssub_id subscription,
       sub_customerId =
         (case customer_id_of (ssub_customer subscription) of Some c \<Rightarrow> c | None \<Rightarrow> []),
       sub_status = ssub_status subscription,
       sub_currentPeriodEnd = ssub_current_period_end subscription * 1000,
       sub_currentPeriodStart = ssub_current_period_start subscription * 1000,
       sub_cancelAtPeriodEnd = ssub_cancel_at_period_end subscription,
       sub_items = map latest_item (ssub_items subscription),
       sub_metadata = ssub_metadata subscription,
       sub_createdAt = Some (ssub_created subscription * 1000) \<rparr>"

definition fetchLatestSubscription ::
  "'u stripe_client \<Rightarrow> string \<Rightarrow> (('c, 'u) world, Subscription) prog" where
  "fetchLatestSubscription stripe subscriptionId =
     bind (upstream (SubscriptionsRetrieve subscriptionId)
             (subscriptions_retrieve stripe subscriptionId))
       (\<lambda>subscription. ret (latest_subscription subscription))"

definition latest_customer :: "StripeCustomer \<Rightarrow> Customer" where
  "latest_customer customer =
     \<lparr> cus_id = sc_id customer,
       cus_email = Some (case sc_email customer of Some e \<Rightarrow> e | None \<Rightarrow> []),
       cus_name = sc_name customer,
       cus_metadata = sc_metadata customer,
       cus_createdAt = Some (sc_created customer * 1000) \<rparr>"

definition fetchLatestCustomer ::
  "'u stripe_client \<Rightarrow> string \<Rightarrow> (('c, 'u) world, Customer) prog" where
  "fetchLatestCustomer stripe customerId =
     bind (upstream (CustomersRetrieve customerId) (customers_retrieve stripe customerId))
       (\<lambda>customer.
          if sc_deleted customer then
            throw (PaymentError (''Customer '' @ customerId @ '' has been deleted'')
                     CUSTOMER_NOT_FOUND 404)
          else ret (latest_customer customer))"

text \<open>
  A callback is an optional function from its argument to the outcome of its promise.
  \<^verbatim>\<open>SyncAdapter\<close>, \<^verbatim>\<open>WebhookEventHandlers\<close> and \<^verbatim>\<open>CreateWebhookHandlerOptions\<close>; of
  the provider, the handler uses \<^verbatim>\<open>verifyWebhook\<close> only.
\<close>

type_synonym 'a callback = "('a \<Rightarrow> error option) option"

record SyncAdapter =
  sync_onCustomerCreated :: "Customer callback"
  sync_onSubscriptionUpdated :: "Subscription callback"
  sync_onSubscriptionCanceled :: "Subscription callback"

record WebhookEventHandlers =
  onCheckoutComplete :: "CheckoutSession callback"
  onSubscriptionCreated :: "Subscription callback"
  onSubscriptionUpdated :: "Subscription callback"
  onSubscriptionCanceled :: "Subscription callback"

record 'c CreateWebhookHandlerOptions =
  provider_verifyWebhook :: "string \<Rightarrow> string \<Rightarrow> error + WebhookEvent"
  cache :: "('c, entity) KVAdapter"
  sync :: "SyncAdapter option"
  handlers :: "WebhookEventHandlers option"

text \<open>\<^verbatim>\<open>sync?.onX\<close> and \<^verbatim>\<open>handlers?.onX\<close>\<close>

definition optional_member :: "'r option \<Rightarrow> ('r \<Rightarrow> 'a callback) \<Rightarrow> 'a callback" where
  "optional_member obj member = (case obj of None \<Rightarrow> None | Some r \<Rightarrow> member r)"

text \<open>\<^verbatim>\<open>if (sync?.onX) await sync.onX(arg)\<close> and the same for a user handler.\<close>

definition call_sync ::
  "string \<Rightarrow> 'a callback \<Rightarrow> ('a \<Rightarrow> entity) \<Rightarrow> 'a \<Rightarrow> (('c, 'u) world, unit) prog" where
  "call_sync name cb as_entity arg =
     (case cb of None \<Rightarrow> ret () | Some f \<Rightarrow> call_back (SyncCalled name (as_entity arg)) (f arg))"

definition call_handler ::
  "string \<Rightarrow> 'a callback \<Rightarrow> ('a \<Rightarrow> entity) \<Rightarrow> 'a \<Rightarrow> (('c, 'u) world, unit) prog" where
  "call_handler name cb as_entity arg =
     (case cb of None \<Rightarrow> ret () | Some f \<Rightarrow> call_back (HandlerCalled name (as_entity arg)) (f arg))"

text \<open>The request as the handler reads it, and the response it builds.\<close>

record NextRequest =
  req_method :: string
  req_body :: string
  req_stripe_signature :: "string option"

record NextResponse =
  res_status :: nat
  res_body :: jsval

text \<open>What the handler takes from its surroundings: the environment and the client constructor.\<close>

record 'u runtime =
  rt_env :: process_env
  rt_Stripe :: "'u Stripe"

text \<open>Lines 235 to 271: the branch of \<^verbatim>\<open>checkout.session.completed\<close>.\<close>

definition cache_customer ::
  "('c, entity) KVAdapter \<Rightarrow> Customer \<Rightarrow> (('c, 'u) world, unit) prog" where
  "cache_customer kv customer =
     bind (cache_set kv (''customer:'' @ cus_id customer) (CustomerEntity customer) (Some 86400))
       (\<lambda>_.
     bind (case truthy (cus_email customer) of
             None \<Rightarrow> ret ()
           | Some email \<Rightarrow>
               cache_set kv (''customer:email:'' @ email) (CustomerEntity customer) (Some 86400))
       (\<lambda>_.
     (case metadata_userId (cus_metadata customer) of
        None \<Rightarrow> ret ()
      | Some userId \<Rightarrow>
          cache_set kv (''customer:userId:'' @ userId) (IdString (cus_id customer)) (Some 86400))))"

text \<open>Lines 243 to 260: the customer of the session is fetched and cached.\<close>

definition checkout_cache_customer ::
  "'c CreateWebhookHandlerOptions \<Rightarrow> 'u stripe_client \<Rightarrow> CheckoutSession
     \<Rightarrow> (('c, 'u) world, unit) prog" where
  "checkout_cache_customer options stripe latestData =
     (case truthy (cs_customerId latestData) of
        None \<Rightarrow> ret ()
      | Some customerId \<Rightarrow>
          bind (fetchLatestCustomer stripe customerId) (cache_customer (cache options)))"

text \<open>Lines 263 to 266: the customer is fetched again for the sync adapter.\<close>

definition checkout_sync ::
  "'c CreateWebhookHandlerOptions \<Rightarrow> 'u stripe_client \<Rightarrow> CheckoutSession
     \<Rightarrow> (('c, 'u) world, unit) prog" where
  "checkout_sync options stripe latestData =
     (case (optional_member (sync options) sync_onCustomerCreated,
            truthy (cs_customerId latestData)) of
        (Some f, Some customerId) \<Rightarrow>
          bind (fetchLatestCustomer stripe customerId)
            (call_sync ''onCustomerCreated'' (Some f) CustomerEntity)
      | _ \<Rightarrow> ret ())"

definition on_checkout_completed ::
  "'c CreateWebhookHandlerOptions \<Rightarrow> 'u stripe_client \<Rightarrow> WebhookEvent
     \<Rightarrow> (('c, 'u) world, unit) prog" where
  "on_checkout_completed options stripe event =
     bind (fetchLatestCheckoutSession stripe (obj_id (ev_data event))) (\<lambda>latestData.
     bind (cache_set (cache options) (''checkout:'' @ cs_id latestData)
             (SessionEntity latestData) (Some 3600)) (\<lambda>_.
     bind (checkout_cache_customer options stripe latestData) (\<lambda>_.
     bind (checkout_sync options stripe latestData) (\<lambda>_.
     call_handler ''onCheckoutComplete'' (optional_member (handlers options) onCheckoutComplete)
       SessionEntity latestData))))"

text \<open>
  Lines 272 to 317: \<^verbatim>\<open>customer.subscription.created\<close> and \<^verbatim>\<open>.updated\<close>, which
  differ in the user handler only.
\<close>

definition on_subscription_changed ::
  "'c CreateWebhookHandlerOptions \<Rightarrow> 'u stripe_client \<Rightarrow> WebhookEvent
     \<Rightarrow> string \<Rightarrow> Subscription callback \<Rightarrow> (('c, 'u) world, unit) prog" where
  "on_subscription_changed options stripe event name handler =
     bind (fetchLatestSubscription stripe (obj_id (ev_data event))) (\<lambda>latestData.
     bind (cache_set (cache options) (''subscription:'' @ sub_id latestData)
             (SubscriptionEntity latestData) (Some 3600)) (\<lambda>_.
     bind (cache_set (cache options) (''subscription:customer:'' @ sub_customerId latestData)
             (IdString (sub_id latestData)) (Some 3600)) (\<lambda>_.
     bind (call_sync ''onSubscriptionUpdated''
             (optional_member (sync options) sync_onSubscriptionUpdated)
             SubscriptionEntity latestData) (\<lambda>_.
     call_handler name handler SubscriptionEntity latestData))))"

text \<open>Lines 318 to 336: \<^verbatim>\<open>customer.subscription.deleted\<close> and \<^verbatim>\<open>.canceled\<close>.\<close>

definition on_subscription_canceled ::
  "'c CreateWebhookHandlerOptions \<Rightarrow> 'u stripe_client \<Rightarrow> WebhookEvent
     \<Rightarrow> (('c, 'u) world, unit) prog" where
  "on_subscription_canceled options stripe event =
     bind (fetchLatestSubscription stripe (obj_id (ev_data event))) (\<lambda>latestData.
     bind (cache_set (cache options) (''subscription:'' @ sub_id latestData)
             (SubscriptionEntity latestData) (Some 86400)) (\<lambda>_.
     bind (call_sync ''onSubscriptionCanceled''
             (optional_member (sync options) sync_onSubscriptionCanceled)
             SubscriptionEntity latestData) (\<lambda>_.
     call_handler ''onSubscriptionCanceled''
       (optional_member (handlers options) onSubscriptionCanceled)
       SubscriptionEntity latestData)))"

text \<open>Lines 225 to 340: what the handler does with a verified event.\<close>

definition process_event ::
  "'u runtime \<Rightarrow> 'c CreateWebhookHandlerOptions \<Rightarrow> WebhookEvent
     \<Rightarrow> (('c, 'u) world, unit) prog" where
  "process_event rt options event =
     (case loadStripeConfig (rt_env rt) None of
        Inl e \<Rightarrow> throw e
      | Inr config \<Rightarrow>
          (let stripe = createStripeClient (rt_Stripe rt) (secretKey config);
               eventType = ev_type event
           in if eventType = ''checkout.session.completed'' then
                on_checkout_completed options stripe event
              else if eventType = ''customer.subscription.created'' then
                on_subscription_changed options stripe event ''onSubscriptionCreated''
                  (optional_member (handlers options) onSubscriptionCreated)
              else if eventType = ''customer.subscription.updated'' then
                on_subscription_changed options stripe event ''onSubscriptionUpdated''
                  (optional_member (handlers options) onSubscriptionUpdated)
              else if eventType = ''customer.subscription.deleted''
                    \<or> eventType = ''customer.subscription.canceled'' then
                on_subscription_canceled options stripe event
              else
                (\<lambda>w. (Inr (),
                  record_effect (ConsoleLog (''Unhandled webhook event type: '' @ eventType)) w))))"

text \<open>The outer catch clause, lines 345 to 367.\<close>

definition error_response :: "error \<Rightarrow> NextResponse" where
  "error_response e =
     (case e of
        WebhookError m code \<Rightarrow>
          \<lparr> res_status = 401, res_body = JObj [(''error'', JStr code), (''message'', JStr m)] \<rparr>
      | _ \<Rightarrow>
          \<lparr> res_status = 200,
            res_body = JObj [(''received'', JBool True), (''error'', JStr ''Handler error logged'')] \<rparr>)"

definition outer_catch :: "error \<Rightarrow> ('c, 'u) world \<Rightarrow> NextResponse \<times> ('c, 'u) world" where
  "outer_catch e w =
     (error_response e, record_effect (ConsoleError ''Webhook handler error:'' (Some e)) w)"

text \<open>The handler that \<^verbatim>\<open>createWebhookHandler(options)\<close> returns.\<close>

definition createWebhookHandler ::
  "'u runtime \<Rightarrow> 'c CreateWebhookHandlerOptions \<Rightarrow> NextRequest
     \<Rightarrow> ('c, 'u) world \<Rightarrow> NextResponse \<times> ('c, 'u) world" where
  "createWebhookHandler rt options request w =
     (if req_method request \<noteq> ''POST'' then
        (\<lparr> res_status = 405, res_body = JObj [(''error'', JStr ''Method not allowed'')] \<rparr>, w)
      else
        (case truthy (req_stripe_signature request) of
           None \<Rightarrow>
             (\<lparr> res_status = 401,
                res_body = JObj [(''error'', JStr ''Missing signature''),
                                 (''message'', JStr ''stripe-signature header is required'')] \<rparr>,
              w)
         | Some signature \<Rightarrow>
             (case provider_verifyWebhook options (req_body request) signature of
                Inl e \<Rightarrow>
                  (case e of
                     WebhookError m code \<Rightarrow>
                       (\<lparr> res_status = 401,
                          res_body = JObj [(''error'', JStr code), (''message'', JStr m)] \<rparr>,
                        record_effect
                          (ConsoleError (''Webhook signature verification failed: '' @ m) None)
                          (record_effect (VerifyWebhook (req_body request) signature) w))
                   | _ \<Rightarrow>
                       outer_catch e
                         (record_effect (VerifyWebhook (req_body request) signature) w))
              | Inr event \<Rightarrow>
                  (case process_event rt options event
                          (record_effect (VerifyWebhook (req_body request) signature) w) of
                     (Inl e, w') \<Rightarrow> outer_catch e w'
                   | (Inr u, w') \<Rightarrow>
                       (\<lparr> res_status = 200, res_body = JObj [(''received'', JBool True)] \<rparr>,
                        w')))))"

section \<open>What a run adds to the trace\<close>

text \<open>
  \<open>adds P Q m\<close>: whatever the world, the step \<open>m\<close> extends the trace by effects that
  all satisfy \<open>P\<close>, and a value it returns satisfies \<open>Q\<close>.
\<close>

definition adds :: "(effect \<Rightarrow> bool) \<Rightarrow> ('a \<Rightarrow> bool) \<Rightarrow> (('c, 'u) world, 'a) prog \<Rightarrow> bool" where
  "adds P Q m =
     (\<forall>w r w'. m w = (r, w') \<longrightarrow>
        (\<exists>new. w_trace w' = w_trace w @ new \<and> list_all P new) \<and> (\<forall>a. r = Inr a \<longrightarrow> Q a))"

text \<open>
  An effect that caches or forwards the subscription \<open>s\<close> and nothing else: a cache
  write of \<open>s\<close> or of its id, or a callback called with \<open>s\<close>.
\<close>

fun forwards_subscription :: "Subscription \<Rightarrow> effect \<Rightarrow> bool" where
  "forwards_subscription s (CacheSet key v ttl) = (v = SubscriptionEntity s \<or> v = IdString (sub_id s))"
| "forwards_subscription s (SyncCalled name x) = (x = SubscriptionEntity s)"
| "forwards_subscription s (HandlerCalled name x) = (x = SubscriptionEntity s)"
| "forwards_subscription s _ = False"

text \<open>
  A customer that the Stripe client returned, in some state of the upstream provider,
  for the customer id of the session \<open>s\<close>.
\<close>

definition retrieved_customer :: "'u stripe_client \<Rightarrow> CheckoutSession \<Rightarrow> Customer \<Rightarrow> bool" where
  "retrieved_customer stripe s c =
     (\<exists>customerId u fetched u'.
        truthy (cs_customerId s) = Some customerId
        \<and> customers_retrieve stripe customerId u = (Inr fetched, u')
        \<and> c = latest_customer fetched)"

text \<open>
  An effect of the checkout branch after the session \<open>s\<close> was fetched: a cache write of
  \<open>s\<close>, or of a retrieved customer or of its id; a fetch of the customer of \<open>s\<close>; the sync
  adapter called with a retrieved customer; the user handler called with \<open>s\<close>.
\<close>

fun forwards_session :: "'u stripe_client \<Rightarrow> CheckoutSession \<Rightarrow> effect \<Rightarrow> bool" where
  "forwards_session stripe s (CacheSet key v ttl) =
     (v = SessionEntity s
      \<or> (\<exists>c. retrieved_customer stripe s c \<and> (v = CustomerEntity c \<or> v = IdString (cus_id c))))"
| "forwards_session stripe s (Upstream call) =
     (\<exists>customerId. truthy (cs_customerId s) = Some customerId \<and> call = CustomersRetrieve customerId)"
| "forwards_session stripe s (SyncCalled name x) =
     (\<exists>c. retrieved_customer stripe s c \<and> x = CustomerEntity c)"
| "forwards_session stripe s (HandlerCalled name x) = (x = SessionEntity s)"
| "forwards_session stripe s _ = False"

text \<open>
  An effect that is neither a callback nor a cache delete nor a write to the key:
  a call of the Stripe client, or a cache write to another key.
\<close>

fun leaves_entry :: "string \<Rightarrow> effect \<Rightarrow> bool" where
  "leaves_entry key (Upstream call) = True"
| "leaves_entry key (CacheSet k v ttl) = (k \<noteq> key)"
| "leaves_entry key _ = False"

text \<open>
  An effect that keeps the entry of the key: anything but a cache delete of the key or
  a cache write to it.
\<close>

fun keeps_entry :: "string \<Rightarrow> effect \<Rightarrow> bool" where
  "keeps_entry key (CacheSet k v ttl) = (k \<noteq> key)"
| "keeps_entry key (CacheDelete k) = (k \<noteq> key)"
| "keeps_entry key _ = True"

text \<open>The handled event types.\<close>

definition subscription_event :: "string \<Rightarrow> bool" where
  "subscription_event t =
     (t = ''customer.subscription.created'' \<or> t = ''customer.subscription.updated''
      \<or> t = ''customer.subscription.deleted'' \<or> t = ''customer.subscription.canceled'')"

text \<open>An effect that, if it is a cache write, has the given time-to-live.\<close>

fun writes_with_ttl :: "int \<Rightarrow> effect \<Rightarrow> bool" where
  "writes_with_ttl seconds (CacheSet key v ttl) = (ttl = Some seconds)"
| "writes_with_ttl seconds _ = True"

fun is_HandlerCalled :: "effect \<Rightarrow> bool" where
  "is_HandlerCalled (HandlerCalled name x) = True"
| "is_HandlerCalled _ = False"

fun is_CustomersCreate :: "effect \<Rightarrow> bool" where
  "is_CustomersCreate (Upstream (CustomersCreate params)) = True"
| "is_CustomersCreate _ = False"

section \<open>Test doubles, to run the model on concrete inputs\<close>

text \<open>
  A Stripe client in the manner of the repository's test setup. Its upstream state
  counts the calls made; ids of created objects carry the count. The session
  \<^verbatim>\<open>cs_gone\<close> belongs to the customer \<^verbatim>\<open>cus_gone\<close>, who is deleted upstream.
  \<^verbatim>\<open>constructEvent\<close> accepts one signature, and reads the type and the object id of
  the event from a body of the form \<^verbatim>\<open>type id\<close>; the embedded object always
  claims the status \<^verbatim>\<open>active\<close>.
\<close>

definition demo_session :: "string \<Rightarrow> StripeSession" where
  "demo_session sessionId =
     \<lparr> ss_id = sessionId, ss_url = None, ss_status = Some ''complete'',
       ss_customer = Some (CustomerId (if sessionId = ''cs_gone'' then ''cus_gone'' else ''cus_1'')),
       ss_metadata = None, ss_created = 1700000000 \<rparr>"

definition demo_subscription :: "string \<Rightarrow> StripeSubscription" where
  "demo_subscription subscriptionId =
     \<lparr> ssub_id = subscriptionId, ssub_customer = Some (CustomerId ''cus_1''),
       ssub_status = ''canceled'', ssub_current_period_end = 1702592000,
       ssub_current_period_start = 1700000000, ssub_cancel_at_period_end = False,
       ssub_items = [], ssub_metadata = None, ssub_created = 1700000000 \<rparr>"

definition demo_customer :: "string \<Rightarrow> StripeCustomer" where
  "demo_customer customerId =
     \<lparr> sc_id = customerId, sc_deleted = (customerId = ''cus_gone''),
       sc_email = Some ''test@example.com'', sc_name = None,
       sc_metadata = Some [''userId'' \<mapsto> ''user_123''], sc_created = 1700000000 \<rparr>"

definition demo_event :: "string \<Rightarrow> StripeEvent" where
  "demo_event body =
     \<lparr> se_id = ''evt_123'',
       se_type = takeWhile (\<lambda>c. c \<noteq> CHR '' '') body,
       se_object = \<lparr> obj_id = drop 1 (dropWhile (\<lambda>c. c \<noteq> CHR '' '') body),
                     obj_status = Some ''active'', obj_members = [] \<rparr>,
       se_created = 1700000000 \<rparr>"

definition demo_stripe :: "nat stripe_client" where
  "demo_stripe =
     \<lparr> checkout_sessions_create = (\<lambda>params n.
         (Inr \<lparr> ss_id = ''cs_'' @ string_of_nat n, ss_url = Some ''https://checkout.stripe.com/c/pay'',
                ss_status = Some ''open'', ss_customer = map_option CustomerId (scp_customer params),
                ss_metadata = scp_metadata params, ss_created = 1700000000 \<rparr>, Suc n)),
       checkout_sessions_retrieve = (\<lambda>sessionId n. (Inr (demo_session sessionId), Suc n)),
       subscriptions_retrieve = (\<lambda>subscriptionId n. (Inr (demo_subscription subscriptionId), Suc n)),
       customers_create = (\<lambda>params n.
         (Inr \<lparr> sc_id = ''cus_'' @ string_of_nat n, sc_deleted = False,
                sc_email = Some (ccp_email params), sc_name = ccp_name params,
                sc_metadata = ccp_metadata params, sc_created = 1700000000 \<rparr>, Suc n)),
       customers_retrieve = (\<lambda>customerId n. (Inr (demo_customer customerId), Suc n)),
       webhooks_constructEvent = (\<lambda>payload signature secret.
         if signature = ''t=1,v1=valid'' then Inr (demo_event payload)
         else Inl (StripeSignatureVerificationError ''No signatures found matching the payload'')) \<rparr>"

definition demo_env :: process_env where
  "demo_env = \<lparr> STRIPE_SECRET_KEY = Some ''sk_test_mock_key'',
                 STRIPE_WEBHOOK_SECRET = Some ''whsec_mock_webhook_secret'' \<rparr>"

definition demo_runtime :: "nat runtime" where
  "demo_runtime = \<lparr> rt_env = demo_env, rt_Stripe = (\<lambda>apiKey. demo_stripe) \<rparr>"

definition demo_provider :: "(entity memory, nat) StripeProvider" where
  "demo_provider =
     \<lparr> sp_stripe = demo_stripe, sp_cache = createMemoryAdapter,
       sp_config = \<lparr> secretKey = ''sk_test_mock_key'',
                     webhookSecret = Some ''whsec_mock_webhook_secret'' \<rparr> \<rparr>"

definition demo_options ::
  "SyncAdapter option \<Rightarrow> WebhookEventHandlers option
     \<Rightarrow> (entity memory) CreateWebhookHandlerOptions" where
  "demo_options s h =
     \<lparr> provider_verifyWebhook = verifyWebhook demo_provider,
       cache = createMemoryAdapter, sync = s, handlers = h \<rparr>"

text \<open>An empty cache whose clock advances by a second with every operation.\<close>

definition demo_memory :: "entity memory" where
  "demo_memory = \<lparr> m_storage = Map.empty, m_clock = (\<lambda>n. 1000 * n), m_ops = 0 \<rparr>"

definition demo_world :: "(entity memory, nat) world" where
  "demo_world = \<lparr> w_cache = demo_memory, w_stripe = 0, w_trace = [] \<rparr>"

definition demo_request :: "string \<Rightarrow> string option \<Rightarrow> NextRequest" where
  "demo_request body signature =
     \<lparr> req_method = ''POST'', req_body = body, req_stripe_signature = signature \<rparr>"

text \<open>Callbacks that resolve, and callbacks that reject with a plain \<^verbatim>\<open>Error\<close>.\<close>

definition resolves :: "'a callback" where
  "resolves = Some (\<lambda>x. None)"

definition rejects :: "string \<Rightarrow> 'a callback" where
  "rejects m = Some (\<lambda>x. Some (Error m))"

definition no_sync :: SyncAdapter where
  "no_sync = \<lparr> sync_onCustomerCreated = None, sync_onSubscriptionUpdated = None,
               sync_onSubscriptionCanceled = None \<rparr>"

definition no_handlers :: WebhookEventHandlers where
  "no_handlers = \<lparr> onCheckoutComplete = None, onSubscriptionCreated = None,
                   onSubscriptionUpdated = None, onSubscriptionCanceled = None \<rparr>"

text \<open>
  Two verified events. The object of each claims the status \<^verbatim>\<open>active\<close>; the
  subscription that the client returns is \<^verbatim>\<open>canceled\<close>, the session \<^verbatim>\<open>complete\<close>.
\<close>

definition demo_deleted :: WebhookEvent where
  "demo_deleted =
     \<lparr> ev_id = ''evt_123'', ev_type = ''customer.subscription.deleted'',
       ev_data = \<lparr> obj_id = ''sub_1'', obj_status = Some ''active'', obj_members = [] \<rparr>,
       ev_created = 1700000000000 \<rparr>"

definition demo_completed :: WebhookEvent where
  "demo_completed =
     \<lparr> ev_id = ''evt_123'', ev_type = ''checkout.session.completed'',
       ev_data = \<lparr> obj_id = ''cs_1'', obj_status = Some ''active'', obj_members = [] \<rparr>,
       ev_created = 1700000000000 \<rparr>"

text \<open>A checkout request of the user \<^verbatim>\<open>user_123\<close>, with the given email.\<close>

definition demo_checkout :: "string \<Rightarrow> CheckoutOptions" where
  "demo_checkout email =
     \<lparr> co_priceId = ''price_123'', co_successUrl = ''https://example.com/success'',
       co_cancelUrl = ''https://example.com/cancel'', co_customerEmail = Some email,
       co_customerId = None, co_metadata = Some [''userId'' \<mapsto> ''user_123''],
       co_mode = None, co_quantity = None, co_trialDays = None \<rparr>"

section \<open>Sequencing\<close>

lemma bind_Inr: "m s = (Inr a, s') \<Longrightarrow> bind m f s = f a s'"
  by (simp add: bind_def)

lemma bind_Inl: "m s = (Inl e, s') \<Longrightarrow> bind m f s = (Inl e, s')"
  by (simp add: bind_def)

lemma bind_ret: "bind (ret a) f = f a"
  by (rule ext) (simp add: bind_def ret_def)

lemma bind_throw: "bind (throw e) f = throw e"
  by (rule ext) (simp add: bind_def throw_def)

lemma bind_cases:
  assumes "bind m f s = (r, s'')"
  obtains (threw) e where "m s = (Inl e, s'')" and "r = Inl e"
        | (went) a s' where "m s = (Inr a, s')" and "f a s' = (r, s'')"
proof (cases "m s")
  case (Pair x s')
  show ?thesis
  proof (cases x)
    case (Inl e)
    with Pair assms threw show ?thesis by (simp add: bind_def)
  next
    case (Inr a)
    with Pair assms went show ?thesis by (simp add: bind_def)
  qed
qed

section \<open>Properties of the in-memory adapter\<close>

lemma storage_ok_empty: "storage_ok Map.empty"
  by (simp add: storage_ok_def)

lemma storage_ok_set: "storage_ok st \<Longrightarrow> storage_ok (memory_set st k v ttl now)"
  by (auto simp: storage_ok_def memory_set_def split: option.splits if_splits)

lemma storage_ok_get: "storage_ok st \<Longrightarrow> storage_ok (snd (memory_get st k now))"
  by (auto simp: storage_ok_def memory_get_def split: option.splits if_splits)

lemma storage_ok_delete: "storage_ok st \<Longrightarrow> storage_ok (memory_delete st k)"
  by (auto simp: storage_ok_def memory_delete_def split: if_splits)

lemma storage_ok_sweep: "storage_ok st \<Longrightarrow> storage_ok (memory_sweep st now)"
  by (auto simp: storage_ok_def memory_sweep_def split: option.splits if_splits)

lemma expired_iff_passed:
  assumes "storage_ok st" and "st k = Some e"
  shows "entry_expired e now \<longleftrightarrow> expiry_passed e now"
proof (cases "se_expiresAt e")
  case None
  then show ?thesis by (simp add: entry_expired_def expiry_passed_def)
next
  case (Some t)
  with assms have "0 < t" by (auto simp: storage_ok_def)
  with Some show ?thesis by (auto simp: entry_expired_def expiry_passed_def)
qed

lemma set_no_ttl_entry:
  "no_ttl ttl \<Longrightarrow> memory_set st k v ttl now k = Some \<lparr> se_value = v, se_expiresAt = None \<rparr>"
  by (auto simp: no_ttl_def memory_set_def split: option.splits)

lemma get_permanent:
  "st k = Some \<lparr> se_value = v, se_expiresAt = None \<rparr> \<Longrightarrow> memory_get st k now = (v, st)"
  by (simp add: memory_get_def entry_expired_def)

lemma sweep_permanent:
  "st k = Some \<lparr> se_value = v, se_expiresAt = None \<rparr> \<Longrightarrow> memory_sweep st now k = st k"
  by (simp add: memory_sweep_def entry_expired_def)

lemma get_null_iff:
  assumes "storage_ok st"
  shows "fst (memory_get st k now) = None \<longleftrightarrow>
         (st k = None \<or> (\<exists>e. st k = Some e \<and> (expiry_passed e now \<or> se_value e = None)))"
proof (cases "st k")
  case None
  then show ?thesis by (simp add: memory_get_def)
next
  case (Some e)
  with assms have "entry_expired e now \<longleftrightarrow> expiry_passed e now"
    by (rule expired_iff_passed)
  with Some show ?thesis by (simp add: memory_get_def)
qed

lemma get_expired_removes:
  assumes "storage_ok st" and "st k = Some e" and "expiry_passed e now"
  shows "memory_get st k now = (None, st(k := None))"
proof -
  from assms have "entry_expired e now" by (simp add: expired_iff_passed)
  with assms(2) show ?thesis by (simp add: memory_get_def)
qed

text \<open>
  Claim C7, as amended. In the in-memory adapter, for every storage the adapter can
  reach:
  \<^item> \<^verbatim>\<open>set\<close> with \<^verbatim>\<open>ttlSeconds\<close> omitted, zero or negative stores an entry that
    every later \<^verbatim>\<open>get\<close>, at whatever instant, returns, leaving the storage as it is,
    and that the sweep keeps;
  \<^item> \<^verbatim>\<open>get\<close> returns \<^verbatim>\<open>null\<close> exactly when the key is absent, or the expiry
    instant of its entry has passed, or the value stored under the key is \<^verbatim>\<open>null\<close>
    itself;
  \<^item> \<^verbatim>\<open>get\<close> of an entry whose expiry instant has passed returns \<^verbatim>\<open>null\<close>
    and deletes the entry.
\<close>

theorem memory_adapter_ttl:
  assumes "storage_ok st"
  shows "(no_ttl ttl \<longrightarrow>
            (\<forall>later. memory_get (memory_set st k v ttl now) k later
                       = (v, memory_set st k v ttl now)
                   \<and> memory_sweep (memory_set st k v ttl now) later k
                       = memory_set st k v ttl now k))
       \<and> (fst (memory_get st k' t) = None \<longleftrightarrow>
            (st k' = None
             \<or> (\<exists>e. st k' = Some e \<and> (expiry_passed e t \<or> se_value e = None))))
       \<and> (\<forall>e. st k' = Some e \<and> expiry_passed e t \<longrightarrow>
            memory_get st k' t = (None, st(k' := None)))"
proof (intro conjI impI allI)
  fix later
  assume "no_ttl ttl"
  then have e: "memory_set st k v ttl now k = Some \<lparr> se_value = v, se_expiresAt = None \<rparr>"
    by (rule set_no_ttl_entry)
  from e show "memory_get (memory_set st k v ttl now) k later = (v, memory_set st k v ttl now)"
    by (rule get_permanent)
  from e show "memory_sweep (memory_set st k v ttl now) later k = memory_set st k v ttl now k"
    by (rule sweep_permanent)
next
  from assms show "fst (memory_get st k' t) = None \<longleftrightarrow>
      (st k' = None \<or> (\<exists>e. st k' = Some e \<and> (expiry_passed e t \<or> se_value e = None)))"
    by (rule get_null_iff)
next
  fix e
  assume "st k' = Some e \<and> expiry_passed e t"
  with assms show "memory_get st k' t = (None, st(k' := None))"
    by (simp add: get_expired_removes)
qed

theorem memory_adapter_ttl_witness:
  "storage_ok (memory_set Map.empty ''a'' (Some (1::nat)) (Some 1) 0)
   \<and> no_ttl (Some 0)
   \<and> memory_get (memory_set (memory_set Map.empty ''a'' (Some (1::nat)) (Some 1) 0)
                    ''p'' (Some 7) (Some 0) 5)
         ''p'' 999999
       = (Some 7, memory_set (memory_set Map.empty ''a'' (Some 1) (Some 1) 0) ''p'' (Some 7) (Some 0) 5)
   \<and> (\<exists>e. memory_set Map.empty ''a'' (Some (1::nat)) (Some 1) 0 ''a'' = Some e
           \<and> expiry_passed e 2000)
   \<and> memory_get (memory_set Map.empty ''a'' (Some (1::nat)) (Some 1) 0) ''a'' 2000
       = (None, (memory_set Map.empty ''a'' (Some 1) (Some 1) 0)(''a'' := None))"
proof -
  let ?st = "memory_set Map.empty ''a'' (Some (1::nat)) (Some 1) 0"
  have ok: "storage_ok ?st" by (rule storage_ok_set [OF storage_ok_empty])
  have nt: "no_ttl (Some 0)" by (simp add: no_ttl_def)
  have ex: "\<exists>e. ?st ''a'' = Some e \<and> expiry_passed e 2000"
    by (simp add: memory_set_def expiry_passed_def)
  from memory_adapter_ttl [OF ok, of "Some 0" "''p''" "Some 7" 5 "''a''" 2000] nt ex ok
  show ?thesis by blast
qed

text \<open>
  Claim C7 as stated fails: after \<^verbatim>\<open>set('k', null)\<close>, with no time-to-live, the key
  is present and its entry never expires, and \<^verbatim>\<open>get('k')\<close> returns \<^verbatim>\<open>null\<close>,
  the stored value, and keeps the entry.
\<close>

theorem memory_stored_null_counterexample:
  "memory_set Map.empty ''k'' (None :: string option) None 0 ''k''
     = Some \<lparr> se_value = None, se_expiresAt = None \<rparr>
   \<and> \<not> expiry_passed \<lparr> se_value = (None :: string option), se_expiresAt = None \<rparr> 1
   \<and> memory_get (memory_set Map.empty ''k'' (None :: string option) None 0) ''k'' 1
       = (None, memory_set Map.empty ''k'' None None 0)"
  by (simp add: memory_set_def memory_get_def entry_expired_def expiry_passed_def)

section \<open>Properties of the remote adapter\<close>

lemma upstash_decode_string:
  "upstash_decode rt (JStr s) = (case JSON_parse rt s of Some v \<Rightarrow> v | None \<Rightarrow> JStr s)"
  by (simp add: upstash_decode_def)

lemma upstash_get_stored:
  "redis_get redis key r = (Inr stored, r') \<Longrightarrow>
   upstash_get rt redis key r = (Inr (map_option (upstash_decode rt) stored), r')"
  by (cases stored) (simp_all add: upstash_get_def)

lemma upstash_set_written:
  "redis_set redis key (upstash_serialize rt v) (upstash_ex ttl) r = (Inr u, r') \<Longrightarrow>
   upstash_set rt redis key v ttl r = (Inr (), r')"
  by (simp add: upstash_set_def)

lemma upstash_serialize_nonstring:
  "(\<forall>s. v \<noteq> JStr s) \<Longrightarrow> upstash_serialize rt v = JSON_stringify rt v"
  by (cases v) (simp_all add: upstash_serialize_def)

text \<open>
  Claim C8, as amended. Let the store accept the write of \<^verbatim>\<open>set(key, v, ttl)\<close> and
  return, on the next read of the key, the string that was written. Then \<^verbatim>\<open>set\<close>
  succeeds and \<^verbatim>\<open>get\<close> returns
  \<^item> \<open>v\<close> itself, when \<open>v\<close> is not a string and its JSON text parses back to it;
  \<^item> the string itself, when \<open>v\<close> is a string that is not a JSON text;
  \<^item> the JSON value that the string denotes, not the string, when \<open>v\<close> is a string
    that is a JSON text.
  Whatever the store returns for a key without throwing, \<^verbatim>\<open>get\<close> does not throw.
\<close>

theorem upstash_set_then_get:
  assumes "redis_set redis key (upstash_serialize rt v) (upstash_ex ttl) r = (Inr (), r1)"
      and "redis_get redis key r1 = (Inr (Some (JStr (upstash_serialize rt v))), r2)"
  shows "upstash_set rt redis key v ttl r = (Inr (), r1)
       \<and> (\<exists>got. upstash_get rt redis key r1 = (Inr (Some got), r2)
            \<and> ((\<forall>s. v \<noteq> JStr s) \<and> JSON_parse rt (JSON_stringify rt v) = Some v \<longrightarrow> got = v)
            \<and> (\<forall>s. v = JStr s \<and> JSON_parse rt s = None \<longrightarrow> got = JStr s)
            \<and> (\<forall>s v'. v = JStr s \<and> JSON_parse rt s = Some v' \<longrightarrow> got = v'))
       \<and> (\<forall>stored q q'. redis_get redis key q = (Inr stored, q') \<longrightarrow>
            (\<exists>y. upstash_get rt redis key q = (Inr y, q')))"
proof (intro conjI)
  from assms(1) show "upstash_set rt redis key v ttl r = (Inr (), r1)"
    by (rule upstash_set_written)
next
  let ?got = "upstash_decode rt (JStr (upstash_serialize rt v))"
  have g: "upstash_get rt redis key r1 = (Inr (Some ?got), r2)"
    using upstash_get_stored [OF assms(2)] by simp
  have a: "(\<forall>s. v \<noteq> JStr s) \<and> JSON_parse rt (JSON_stringify rt v) = Some v \<longrightarrow> ?got = v"
    by (simp add: upstash_decode_string upstash_serialize_nonstring)
  have b: "\<forall>s. v = JStr s \<and> JSON_parse rt s = None \<longrightarrow> ?got = JStr s"
    by (simp add: upstash_decode_string upstash_serialize_def)
  have c: "\<forall>s v'. v = JStr s \<and> JSON_parse rt s = Some v' \<longrightarrow> ?got = v'"
    by (simp add: upstash_decode_string upstash_serialize_def)
  from g a b c
  show "\<exists>got. upstash_get rt redis key r1 = (Inr (Some got), r2)
            \<and> ((\<forall>s. v \<noteq> JStr s) \<and> JSON_parse rt (JSON_stringify rt v) = Some v \<longrightarrow> got = v)
            \<and> (\<forall>s. v = JStr s \<and> JSON_parse rt s = None \<longrightarrow> got = JStr s)
            \<and> (\<forall>s v'. v = JStr s \<and> JSON_parse rt s = Some v' \<longrightarrow> got = v')"
    by blast
next
  show "\<forall>stored q q'. redis_get redis key q = (Inr stored, q') \<longrightarrow>
            (\<exists>y. upstash_get rt redis key q = (Inr y, q'))"
    by (auto dest: upstash_get_stored)
qed

lemma plain_redis_set:
  "redis_set plain_redis key s ex r = (Inr (), r(key \<mapsto> (s, ex)))"
  by (simp add: plain_redis_def)

lemma plain_redis_get:
  "redis_get plain_redis key (r(key \<mapsto> (s, ex))) = (Inr (Some (JStr s)), r(key \<mapsto> (s, ex)))"
  by (simp add: plain_redis_def)

lemma parse_subscription_text:
  "parse (stringify (JObj [(''id'', JStr ''sub_1''), (''quantity'', JNum 2)]))
     = Some (JObj [(''id'', JStr ''sub_1''), (''quantity'', JNum 2)])"
  by code_simp

lemma parse_customer_id: "parse ''cus_123'' = None"
  by code_simp

lemma parse_digits_text: "parse ''42'' = Some (JNum 42)"
  by code_simp

text \<open>
  The three cases on the reference runtime and store: an object, the string
  \<^verbatim>\<open>cus_123\<close> and the string \<^verbatim>\<open>42\<close>.
\<close>

theorem upstash_set_then_get_witness:
  "upstash_get reference_runtime plain_redis ''k''
      (Map.empty(''k'' \<mapsto>
         (stringify (JObj [(''id'', JStr ''sub_1''), (''quantity'', JNum 2)]), Some 3600)))
     = (Inr (Some (JObj [(''id'', JStr ''sub_1''), (''quantity'', JNum 2)])),
        Map.empty(''k'' \<mapsto>
          (stringify (JObj [(''id'', JStr ''sub_1''), (''quantity'', JNum 2)]), Some 3600)))
   \<and> upstash_get reference_runtime plain_redis ''k'' (Map.empty(''k'' \<mapsto> (''cus_123'', None)))
     = (Inr (Some (JStr ''cus_123'')), Map.empty(''k'' \<mapsto> (''cus_123'', None)))
   \<and> upstash_get reference_runtime plain_redis ''k'' (Map.empty(''k'' \<mapsto> (''42'', None)))
     = (Inr (Some (JNum 42)), Map.empty(''k'' \<mapsto> (''42'', None)))"
proof -
  let ?rt = reference_runtime
  let ?obj = "JObj [(''id'', JStr ''sub_1''), (''quantity'', JNum 2)]"
  have p: "JSON_parse ?rt = parse" and q: "JSON_stringify ?rt = stringify"
    by (simp_all add: reference_runtime_def)
  have so: "upstash_serialize ?rt ?obj = stringify ?obj"
    by (simp add: upstash_serialize_def q)
  have ss: "\<And>s. upstash_serialize ?rt (JStr s) = s"
    by (simp add: upstash_serialize_def)
  have e1: "upstash_ex (Some 3600) = Some 3600" and e2: "upstash_ex None = None"
    by (simp_all add: upstash_ex_def)
  have 1: "upstash_get ?rt plain_redis ''k'' (Map.empty(''k'' \<mapsto> (stringify ?obj, Some 3600)))
     = (Inr (Some ?obj), Map.empty(''k'' \<mapsto> (stringify ?obj, Some 3600)))"
    using upstash_set_then_get [of plain_redis "''k''" ?rt ?obj "Some 3600" Map.empty,
        unfolded so e1, OF plain_redis_set plain_redis_get]
      parse_subscription_text
    by (auto simp: p q)
  have 2: "upstash_get ?rt plain_redis ''k'' (Map.empty(''k'' \<mapsto> (''cus_123'', None)))
     = (Inr (Some (JStr ''cus_123'')), Map.empty(''k'' \<mapsto> (''cus_123'', None)))"
    using upstash_set_then_get [of plain_redis "''k''" ?rt "JStr ''cus_123''" None Map.empty,
        unfolded ss e2, OF plain_redis_set plain_redis_get]
      parse_customer_id
    by (auto simp: p)
  have 3: "upstash_get ?rt plain_redis ''k'' (Map.empty(''k'' \<mapsto> (''42'', None)))
     = (Inr (Some (JNum 42)), Map.empty(''k'' \<mapsto> (''42'', None)))"
    using upstash_set_then_get [of plain_redis "''k''" ?rt "JStr ''42''" None Map.empty,
        unfolded ss e2, OF plain_redis_set plain_redis_get]
      parse_digits_text
    by (auto simp: p)
  from 1 2 3 show ?thesis by simp
qed

text \<open>
  Claim C8 as stated fails: the string \<^verbatim>\<open>42\<close> is stored verbatim, and \<^verbatim>\<open>get\<close>
  returns the number 42 for it.
\<close>

theorem upstash_string_roundtrip_counterexample:
  "fst (upstash_get reference_runtime plain_redis ''k''
         (snd (upstash_set reference_runtime plain_redis ''k'' (JStr ''42'') None Map.empty)))
     = Inr (Some (JNum 42))
   \<and> fst (upstash_get reference_runtime plain_redis ''k''
         (snd (upstash_set reference_runtime plain_redis ''k'' (JStr ''42'') None Map.empty)))
     \<noteq> Inr (Some (JStr ''42''))"
proof -
  have "fst (upstash_get reference_runtime plain_redis ''k''
         (snd (upstash_set reference_runtime plain_redis ''k'' (JStr ''42'') None Map.empty)))
     = Inr (Some (JNum 42))"
    by (simp add: upstash_get_def upstash_set_def upstash_serialize_def upstash_ex_def
        upstash_decode_def plain_redis_def reference_runtime_def parse_digits_text)
  then show ?thesis by simp
qed

section \<open>Properties of the configuration\<close>

lemma truthy_Some: "truthy s = Some x \<longleftrightarrow> s = Some x \<and> x \<noteq> []"
  by (auto simp: truthy_def split: option.splits if_splits)

lemma truthy_None: "truthy s = None \<longleftrightarrow> s = None \<or> s = Some []"
  by (auto simp: truthy_def split: option.splits if_splits)

text \<open>The secret key that \<^verbatim>\<open>loadStripeConfig\<close> looks at.\<close>

lemma loadStripeConfig_ok:
  assumes "loadStripeConfig env ov = Inr cfg"
  shows "\<exists>key. truthy (nullish (case ov of None \<Rightarrow> None | Some o' \<Rightarrow> ov_secretKey o')
                          (STRIPE_SECRET_KEY env)) = Some key
             \<and> trim key \<noteq> []
             \<and> (startsWith key ''sk_test_'' \<or> startsWith key ''sk_live_'')
             \<and> secretKey cfg = trim key"
  using assms
  by (auto simp: loadStripeConfig_def Let_def split: option.splits if_splits)

lemma loadStripeConfig_error:
  assumes "loadStripeConfig env ov = Inl e"
  shows "\<exists>m. e = ConfigError m"
  using assms
  by (auto simp: loadStripeConfig_def Let_def split: option.splits if_splits)

lemma loadStripeConfig_rejects:
  assumes "\<forall>key. truthy (nullish (case ov of None \<Rightarrow> None | Some o' \<Rightarrow> ov_secretKey o')
                          (STRIPE_SECRET_KEY env)) = Some key
             \<longrightarrow> trim key = [] \<or> (\<not> startsWith key ''sk_test_'' \<and> \<not> startsWith key ''sk_live_'')"
  shows "\<exists>m. loadStripeConfig env ov = Inl (ConfigError m)"
proof (cases "loadStripeConfig env ov")
  case (Inl e)
  then show ?thesis using loadStripeConfig_error by blast
next
  case (Inr cfg)
  from loadStripeConfig_ok [OF this] assms show ?thesis by blast
qed

text \<open>Whether the configuration loads does not depend on the webhook secret.\<close>

lemma loadStripeConfig_ignores_webhookSecret:
  "isl (loadStripeConfig (env\<lparr> STRIPE_WEBHOOK_SECRET := x \<rparr>)
          (Some \<lparr> ov_secretKey = k, ov_webhookSecret = y \<rparr>))
   = isl (loadStripeConfig env (Some \<lparr> ov_secretKey = k, ov_webhookSecret = z \<rparr>))"
  by (auto simp: loadStripeConfig_def Let_def split: option.splits if_splits)

lemma new_StripeProvider_config:
  "new_StripeProvider env S kv ov = Inr p \<Longrightarrow> loadStripeConfig env ov = Inr (sp_config p)"
  by (auto simp: new_StripeProvider_def split: sum.splits)

lemma new_StripeProvider_error:
  "loadStripeConfig env ov = Inl e \<Longrightarrow> new_StripeProvider env S kv ov = Inl e"
  by (simp add: new_StripeProvider_def)

lemma verifyWebhook_unset:
  "truthy (webhookSecret (sp_config p)) = None \<Longrightarrow>
   verifyWebhook p payload signature =
     Inl (WebhookError
            ''Webhook secret is not configured. Set STRIPE_WEBHOOK_SECRET environment variable.''
            WEBHOOK_SIGNATURE_INVALID)"
  by (simp add: verifyWebhook_def)

lemma verifyWebhook_set:
  "truthy (webhookSecret (sp_config p)) = Some secret \<Longrightarrow> signature \<noteq> [] \<Longrightarrow>
   webhooks_constructEvent (sp_stripe p) payload signature secret = Inr event \<Longrightarrow>
   verifyWebhook p payload signature = Inr (to_WebhookEvent event)"
proof -
  assume t: "truthy (webhookSecret (sp_config p)) = Some secret" and s: "signature \<noteq> []"
    and c: "webhooks_constructEvent (sp_stripe p) payload signature secret = Inr event"
  from t have "secret \<noteq> []" by (simp add: truthy_Some)
  with t s c show ?thesis by (simp add: verifyWebhook_def verifyWebhookSignature_def)
qed

lemma core_verifyWebhook_invalid:
  "truthy (webhookSecret cfg) = None \<or>
   (\<exists>secret. truthy (webhookSecret cfg) = Some secret \<and> \<not> startsWith secret ''whsec_'') \<Longrightarrow>
   \<exists>m. core_verifyWebhook stripe cfg payload signature = Inl (ConfigError m)"
  by (auto simp: core_verifyWebhook_def validateWebhookSecret_def)

text \<open>
  Claim C9, as amended. The secret key is validated when the provider is constructed:
  the constructor returns a provider only for a key that is present, not blank and
  starts with \<^verbatim>\<open>sk_test_\<close> or \<^verbatim>\<open>sk_live_\<close>, and throws a \<^verbatim>\<open>ConfigError\<close>
  otherwise. The webhook secret is not validated there: whether construction succeeds
  does not depend on it. It is looked at when a webhook is verified: the provider's
  \<^verbatim>\<open>verifyWebhook\<close> throws a \<^verbatim>\<open>WebhookError\<close> when the secret is absent, and hands
  any other secret, whatever its prefix, to the Stripe client; the \<^verbatim>\<open>verifyWebhook\<close>
  of the core factory throws a \<^verbatim>\<open>ConfigError\<close> when the secret is absent or does not
  start with \<^verbatim>\<open>whsec_\<close>.
\<close>

theorem config_validation:
  fixes S :: "'u Stripe" and kv :: "('c, entity) KVAdapter"
  shows
  "(\<forall>p. new_StripeProvider env S kv ov = Inr p \<longrightarrow>
        (\<exists>key. truthy (nullish (case ov of None \<Rightarrow> None | Some o' \<Rightarrow> ov_secretKey o')
                          (STRIPE_SECRET_KEY env)) = Some key
              \<and> trim key \<noteq> []
              \<and> (startsWith key ''sk_test_'' \<or> startsWith key ''sk_live_'')
              \<and> secretKey (sp_config p) = trim key))
   \<and> ((\<forall>key. truthy (nullish (case ov of None \<Rightarrow> None | Some o' \<Rightarrow> ov_secretKey o')
                          (STRIPE_SECRET_KEY env)) = Some key
             \<longrightarrow> trim key = [] \<or> (\<not> startsWith key ''sk_test_'' \<and> \<not> startsWith key ''sk_live_''))
        \<longrightarrow> (\<exists>m. new_StripeProvider env S kv ov = Inl (ConfigError m)))
   \<and> isl (new_StripeProvider (env\<lparr> STRIPE_WEBHOOK_SECRET := x \<rparr>) S kv
            (Some \<lparr> ov_secretKey = k, ov_webhookSecret = y \<rparr>))
     = isl (new_StripeProvider env S kv (Some \<lparr> ov_secretKey = k, ov_webhookSecret = z \<rparr>))
   \<and> (\<forall>p :: ('c, 'u) StripeProvider. truthy (webhookSecret (sp_config p)) = None \<longrightarrow>
          (\<exists>m. verifyWebhook p payload signature = Inl (WebhookError m WEBHOOK_SIGNATURE_INVALID)))
   \<and> (\<forall>(p :: ('c, 'u) StripeProvider) secret event.
          truthy (webhookSecret (sp_config p)) = Some secret \<and> signature \<noteq> []
          \<and> webhooks_constructEvent (sp_stripe p) payload signature secret = Inr event
          \<longrightarrow> verifyWebhook p payload signature = Inr (to_WebhookEvent event))
   \<and> (\<forall>(stripe :: 'u stripe_client) cfg.
          truthy (webhookSecret cfg) = None
          \<or> (\<exists>secret. truthy (webhookSecret cfg) = Some secret \<and> \<not> startsWith secret ''whsec_'')
          \<longrightarrow> (\<exists>m. core_verifyWebhook stripe cfg payload signature = Inl (ConfigError m)))"
proof (intro conjI allI impI)
  fix p
  assume "new_StripeProvider env S kv ov = Inr p"
  then have "loadStripeConfig env ov = Inr (sp_config p)"
    by (rule new_StripeProvider_config)
  then show "\<exists>key. truthy (nullish (case ov of None \<Rightarrow> None | Some o' \<Rightarrow> ov_secretKey o')
                          (STRIPE_SECRET_KEY env)) = Some key
              \<and> trim key \<noteq> []
              \<and> (startsWith key ''sk_test_'' \<or> startsWith key ''sk_live_'')
              \<and> secretKey (sp_config p) = trim key"
    by (rule loadStripeConfig_ok)
next
  assume "\<forall>key. truthy (nullish (case ov of None \<Rightarrow> None | Some o' \<Rightarrow> ov_secretKey o')
                          (STRIPE_SECRET_KEY env)) = Some key
             \<longrightarrow> trim key = [] \<or> (\<not> startsWith key ''sk_test_'' \<and> \<not> startsWith key ''sk_live_'')"
  then obtain m where "loadStripeConfig env ov = Inl (ConfigError m)"
    using loadStripeConfig_rejects by blast
  then show "\<exists>m. new_StripeProvider env S kv ov = Inl (ConfigError m)"
    by (auto dest: new_StripeProvider_error)
next
  show "isl (new_StripeProvider (env\<lparr> STRIPE_WEBHOOK_SECRET := x \<rparr>) S kv
            (Some \<lparr> ov_secretKey = k, ov_webhookSecret = y \<rparr>))
     = isl (new_StripeProvider env S kv (Some \<lparr> ov_secretKey = k, ov_webhookSecret = z \<rparr>))"
    using loadStripeConfig_ignores_webhookSecret [where env = env and x = x and k = k and y = y and z = z]
    by (auto simp: new_StripeProvider_def split: sum.splits)
next
  fix p :: "('c, 'u) StripeProvider"
  assume "truthy (webhookSecret (sp_config p)) = None"
  then show "\<exists>m. verifyWebhook p payload signature = Inl (WebhookError m WEBHOOK_SIGNATURE_INVALID)"
    by (auto dest: verifyWebhook_unset)
next
  fix p :: "('c, 'u) StripeProvider" and secret event
  assume "truthy (webhookSecret (sp_config p)) = Some secret \<and> signature \<noteq> []
          \<and> webhooks_constructEvent (sp_stripe p) payload signature secret = Inr event"
  then show "verifyWebhook p payload signature = Inr (to_WebhookEvent event)"
    by (auto intro: verifyWebhook_set)
next
  fix stripe :: "'u stripe_client" and cfg :: StripeConfig
  assume "truthy (webhookSecret cfg) = None
          \<or> (\<exists>secret. truthy (webhookSecret cfg) = Some secret \<and> \<not> startsWith secret ''whsec_'')"
  then show "\<exists>m. core_verifyWebhook stripe cfg payload signature = Inl (ConfigError m)"
    by (rule core_verifyWebhook_invalid)
qed

theorem config_validation_witness:
  "new_StripeProvider demo_env (\<lambda>apiKey. demo_stripe) createMemoryAdapter None = Inr demo_provider
   \<and> secretKey (sp_config demo_provider) = trim ''sk_test_mock_key''
   \<and> (\<exists>m. new_StripeProvider \<lparr> STRIPE_SECRET_KEY = Some ''pk_test_mock_key'', STRIPE_WEBHOOK_SECRET = None \<rparr>
             (\<lambda>apiKey. demo_stripe) (createMemoryAdapter :: (entity memory, entity) KVAdapter) None
           = Inl (ConfigError m))
   \<and> (\<exists>m. verifyWebhook (demo_provider\<lparr> sp_config := \<lparr> secretKey = ''sk_test_mock_key'', webhookSecret = None \<rparr> \<rparr>)
             ''customer.subscription.deleted sub_1'' ''t=1,v1=valid''
           = Inl (WebhookError m WEBHOOK_SIGNATURE_INVALID))
   \<and> verifyWebhook demo_provider ''customer.subscription.deleted sub_1'' ''t=1,v1=valid''
       = Inr (to_WebhookEvent (demo_event ''customer.subscription.deleted sub_1''))
   \<and> (\<exists>m. core_verifyWebhook demo_stripe \<lparr> secretKey = ''sk_test_mock_key'', webhookSecret = Some ''not_a_webhook_secret'' \<rparr>
             ''customer.subscription.deleted sub_1'' ''t=1,v1=valid''
           = Inl (ConfigError m))"
proof -
  let ?S = "\<lambda>apiKey::string. demo_stripe"
  let ?kv = "createMemoryAdapter :: (entity memory, entity) KVAdapter"
  let ?body = "''customer.subscription.deleted sub_1''"
  let ?sig = "''t=1,v1=valid''"
  have new: "new_StripeProvider demo_env ?S ?kv None = Inr demo_provider"
    by (simp add: new_StripeProvider_def createStripeClient_def loadStripeConfig_def nullish_def
        truthy_def trim_def is_space_def startsWith_def Let_def demo_env_def demo_provider_def)
  have key: "truthy (nullish (case None :: ConfigOverrides option of None \<Rightarrow> None | Some o' \<Rightarrow> ov_secretKey o')
                 (STRIPE_SECRET_KEY demo_env)) = Some ''sk_test_mock_key''"
    by (simp add: nullish_def truthy_def demo_env_def)
  have 1: "secretKey (sp_config demo_provider) = trim ''sk_test_mock_key''"
    using config_validation [where env = demo_env and S = ?S and kv = ?kv and ov = None] new key
    by auto
  let ?bad = "\<lparr> STRIPE_SECRET_KEY = Some ''pk_test_mock_key'', STRIPE_WEBHOOK_SECRET = None \<rparr>"
  have badkey: "\<forall>key. truthy (nullish (case None :: ConfigOverrides option of None \<Rightarrow> None | Some o' \<Rightarrow> ov_secretKey o')
                 (STRIPE_SECRET_KEY ?bad)) = Some key
             \<longrightarrow> trim key = [] \<or> (\<not> startsWith key ''sk_test_'' \<and> \<not> startsWith key ''sk_live_'')"
    by (simp add: nullish_def truthy_def startsWith_def)
  have 2: "\<exists>m. new_StripeProvider ?bad ?S ?kv None = Inl (ConfigError m)"
    using config_validation [where env = ?bad and S = ?S and kv = ?kv and ov = None] badkey
    by blast
  let ?p = "demo_provider\<lparr> sp_config := \<lparr> secretKey = ''sk_test_mock_key'', webhookSecret = None \<rparr> \<rparr>"
  have unset: "truthy (webhookSecret (sp_config ?p)) = None"
    by (simp add: truthy_def)
  have 3: "\<exists>m. verifyWebhook ?p ?body ?sig = Inl (WebhookError m WEBHOOK_SIGNATURE_INVALID)"
    using config_validation [where S = ?S and kv = ?kv and payload = ?body and signature = ?sig] unset
    by blast
  have set: "truthy (webhookSecret (sp_config demo_provider)) = Some ''whsec_mock_webhook_secret''
      \<and> ?sig \<noteq> []
      \<and> webhooks_constructEvent (sp_stripe demo_provider) ?body ?sig ''whsec_mock_webhook_secret''
          = Inr (demo_event ?body)"
    by (simp add: truthy_def demo_provider_def demo_stripe_def)
  have 4: "verifyWebhook demo_provider ?body ?sig = Inr (to_WebhookEvent (demo_event ?body))"
    using config_validation [where S = ?S and kv = ?kv and payload = ?body and signature = ?sig] set
    by blast
  let ?cfg = "\<lparr> secretKey = ''sk_test_mock_key'', webhookSecret = Some ''not_a_webhook_secret'' \<rparr>"
  have malformed: "\<exists>secret. truthy (webhookSecret ?cfg) = Some secret \<and> \<not> startsWith secret ''whsec_''"
    by (simp add: truthy_def startsWith_def)
  have 5: "\<exists>m. core_verifyWebhook demo_stripe ?cfg ?body ?sig = Inl (ConfigError m)"
    using config_validation [where S = ?S and kv = ?kv and payload = ?body and signature = ?sig] malformed
    by blast
  from new 1 2 3 4 5 show ?thesis by blast
qed

text \<open>
  Claim C9 as stated fails: with a webhook secret that does not start with
  \<^verbatim>\<open>whsec_\<close>, and with none at all, the constructor returns a provider.
\<close>

theorem webhook_secret_not_validated_counterexample:
  "new_StripeProvider
     \<lparr> STRIPE_SECRET_KEY = Some ''sk_test_mock_key'', STRIPE_WEBHOOK_SECRET = Some ''not_a_webhook_secret'' \<rparr>
     (\<lambda>apiKey. demo_stripe) (createMemoryAdapter :: (entity memory, entity) KVAdapter) None
   = Inr \<lparr> sp_stripe = demo_stripe, sp_cache = createMemoryAdapter,
           sp_config = \<lparr> secretKey = ''sk_test_mock_key'', webhookSecret = Some ''not_a_webhook_secret'' \<rparr> \<rparr>
   \<and> new_StripeProvider
     \<lparr> STRIPE_SECRET_KEY = Some ''sk_test_mock_key'', STRIPE_WEBHOOK_SECRET = None \<rparr>
     (\<lambda>apiKey. demo_stripe) (createMemoryAdapter :: (entity memory, entity) KVAdapter) None
   = Inr \<lparr> sp_stripe = demo_stripe, sp_cache = createMemoryAdapter,
           sp_config = \<lparr> secretKey = ''sk_test_mock_key'', webhookSecret = None \<rparr> \<rparr>"
  by (simp add: new_StripeProvider_def createStripeClient_def loadStripeConfig_def nullish_def
      truthy_def trim_def is_space_def startsWith_def Let_def)

section \<open>Steps of the pipeline\<close>

lemma upstream_run:
  "m (w_stripe w) = (r, u') \<Longrightarrow>
   upstream call m w = (r, (record_effect (Upstream call) w)\<lparr> w_stripe := u' \<rparr>)"
  by (simp add: upstream_def)

lemma cache_set_run:
  "kv_set kv key v ttl (w_cache w) = (r, c') \<Longrightarrow>
   cache_set kv key v ttl w = (r, (record_effect (CacheSet key v ttl) w)\<lparr> w_cache := c' \<rparr>)"
  by (simp add: cache_set_def)

lemma cache_get_run:
  "kv_get kv key (w_cache w) = (r, c') \<Longrightarrow>
   cache_get kv key w = (r, (record_effect (CacheGet key) w)\<lparr> w_cache := c' \<rparr>)"
  by (simp add: cache_get_def)

lemma call_handler_rejects:
  "cb = Some f \<Longrightarrow> f x = Some e \<Longrightarrow>
   call_handler name cb as_entity x w = (Inl e, record_effect (HandlerCalled name (as_entity x)) w)"
  by (simp add: call_handler_def call_back_def)

lemma call_handler_resolves:
  "cb = Some f \<Longrightarrow> f x = None \<Longrightarrow>
   call_handler name cb as_entity x w = (Inr (), record_effect (HandlerCalled name (as_entity x)) w)"
  by (simp add: call_handler_def call_back_def)

lemma fetchLatestSubscription_run:
  "subscriptions_retrieve stripe subscriptionId (w_stripe w) = (Inr fetched, u') \<Longrightarrow>
   fetchLatestSubscription stripe subscriptionId w =
     (Inr (latest_subscription fetched),
      (record_effect (Upstream (SubscriptionsRetrieve subscriptionId)) w)\<lparr> w_stripe := u' \<rparr>)"
  by (simp add: fetchLatestSubscription_def bind_def upstream_def ret_def)

lemma fetchLatestSubscription_throws:
  "subscriptions_retrieve stripe subscriptionId (w_stripe w) = (Inl e, u') \<Longrightarrow>
   fetchLatestSubscription stripe subscriptionId w =
     (Inl e, (record_effect (Upstream (SubscriptionsRetrieve subscriptionId)) w)\<lparr> w_stripe := u' \<rparr>)"
  by (simp add: fetchLatestSubscription_def bind_def upstream_def)

lemma fetchLatestCheckoutSession_run:
  "checkout_sessions_retrieve stripe sessionId (w_stripe w) = (Inr fetched, u') \<Longrightarrow>
   fetchLatestCheckoutSession stripe sessionId w =
     (Inr (latest_session fetched),
      (record_effect (Upstream (SessionsRetrieve sessionId)) w)\<lparr> w_stripe := u' \<rparr>)"
  by (simp add: fetchLatestCheckoutSession_def bind_def upstream_def ret_def)

lemma fetchLatestCheckoutSession_throws:
  "checkout_sessions_retrieve stripe sessionId (w_stripe w) = (Inl e, u') \<Longrightarrow>
   fetchLatestCheckoutSession stripe sessionId w =
     (Inl e, (record_effect (Upstream (SessionsRetrieve sessionId)) w)\<lparr> w_stripe := u' \<rparr>)"
  by (simp add: fetchLatestCheckoutSession_def bind_def upstream_def)

lemma fetchLatestCustomer_run:
  "customers_retrieve stripe customerId (w_stripe w) = (Inr fetched, u') \<Longrightarrow>
   fetchLatestCustomer stripe customerId w =
     (if sc_deleted fetched
      then Inl (PaymentError (''Customer '' @ customerId @ '' has been deleted'') CUSTOMER_NOT_FOUND 404)
      else Inr (latest_customer fetched),
      (record_effect (Upstream (CustomersRetrieve customerId)) w)\<lparr> w_stripe := u' \<rparr>)"
  by (simp add: fetchLatestCustomer_def bind_def upstream_def ret_def throw_def)

lemma fetchLatestCustomer_throws:
  "customers_retrieve stripe customerId (w_stripe w) = (Inl e, u') \<Longrightarrow>
   fetchLatestCustomer stripe customerId w =
     (Inl e, (record_effect (Upstream (CustomersRetrieve customerId)) w)\<lparr> w_stripe := u' \<rparr>)"
  by (simp add: fetchLatestCustomer_def bind_def upstream_def)

text \<open>The handler before and after the verification of the signature.\<close>

lemma handler_verified:
  assumes "req_method request = ''POST''"
      and "truthy (req_stripe_signature request) = Some signature"
      and "provider_verifyWebhook options (req_body request) signature = Inr event"
  shows "createWebhookHandler rt options request w =
           (case process_event rt options event
                   (record_effect (VerifyWebhook (req_body request) signature) w) of
              (Inl e, w') \<Rightarrow> outer_catch e w'
            | (Inr u, w') \<Rightarrow>
                (\<lparr> res_status = 200, res_body = JObj [(''received'', JBool True)] \<rparr>, w'))"
  using assms by (simp add: createWebhookHandler_def)

lemma process_event_config:
  assumes "loadStripeConfig (rt_env rt) None = Inr config"
  shows "process_event rt options event =
     (if ev_type event = ''checkout.session.completed'' then
        on_checkout_completed options (rt_Stripe rt (secretKey config)) event
      else if ev_type event = ''customer.subscription.created'' then
        on_subscription_changed options (rt_Stripe rt (secretKey config)) event
          ''onSubscriptionCreated'' (optional_member (handlers options) onSubscriptionCreated)
      else if ev_type event = ''customer.subscription.updated'' then
        on_subscription_changed options (rt_Stripe rt (secretKey config)) event
          ''onSubscriptionUpdated'' (optional_member (handlers options) onSubscriptionUpdated)
      else if ev_type event = ''customer.subscription.deleted''
            \<or> ev_type event = ''customer.subscription.canceled'' then
        on_subscription_canceled options (rt_Stripe rt (secretKey config)) event
      else
        (\<lambda>w. (Inr (),
           record_effect (ConsoleLog (''Unhandled webhook event type: '' @ ev_type event)) w)))"
  using assms by (simp add: process_event_def createStripeClient_def Let_def)

section \<open>The trace logic\<close>

lemma addsD:
  "adds P Q m \<Longrightarrow> m w = (r, w') \<Longrightarrow>
   (\<exists>new. w_trace w' = w_trace w @ new \<and> list_all P new) \<and> (\<forall>a. r = Inr a \<longrightarrow> Q a)"
  unfolding adds_def by blast

lemma adds_ret: "Q a \<Longrightarrow> adds P Q (ret a)"
  by (simp add: adds_def ret_def)

lemma adds_throw: "adds P Q (throw e)"
  by (auto simp: adds_def throw_def)

lemma adds_bind:
  assumes "adds P R m" and "\<And>a. R a \<Longrightarrow> adds P Q (f a)"
  shows "adds P Q (bind m f)"
  unfolding adds_def
proof (intro allI impI)
  fix w r w'
  assume run: "bind m f w = (r, w')"
  from run show "(\<exists>new. w_trace w' = w_trace w @ new \<and> list_all P new) \<and> (\<forall>a. r = Inr a \<longrightarrow> Q a)"
  proof (cases rule: bind_cases)
    case (threw e)
    with addsD [OF assms(1) threw(1)] show ?thesis by simp
  next
    case (went a w1)
    from addsD [OF assms(1) went(1)]
    obtain n1 where n1: "w_trace w1 = w_trace w @ n1" "list_all P n1" and ra: "R a"
      by blast
    from addsD [OF assms(2) [OF ra] went(2)]
    obtain n2 where n2: "w_trace w' = w_trace w1 @ n2" "list_all P n2"
      and q: "\<forall>b. r = Inr b \<longrightarrow> Q b"
      by blast
    from n1 n2 have "w_trace w' = w_trace w @ (n1 @ n2) \<and> list_all P (n1 @ n2)" by simp
    with q show ?thesis by blast
  qed
qed

lemma adds_upstream:
  assumes "P (Upstream call)" and "\<And>u a u'. m u = (Inr a, u') \<Longrightarrow> Q a"
  shows "adds P Q (upstream call m)"
  using assms by (auto simp: adds_def upstream_def record_effect_def split: prod.splits)

lemma adds_cache_set: "P (CacheSet key v ttl) \<Longrightarrow> adds P (\<lambda>_. True) (cache_set kv key v ttl)"
  by (auto simp: adds_def cache_set_def record_effect_def split: prod.splits)

lemma adds_call_back: "P eff \<Longrightarrow> adds P (\<lambda>_. True) (call_back eff outcome)"
  by (auto simp: adds_def call_back_def record_effect_def split: option.splits)

lemma adds_run:
  assumes "adds P Q m" and "m w = (r, w')"
  obtains new where "w_trace w' = w_trace w @ new" and "list_all P new"
  using addsD [OF assms] by blast

section \<open>Runs on the test doubles\<close>

lemmas run_defs = createWebhookHandler_def process_event_def on_checkout_completed_def
  on_subscription_changed_def on_subscription_canceled_def checkout_cache_customer_def
  checkout_sync_def cache_customer_def fetchLatestCheckoutSession_def fetchLatestSubscription_def
  fetchLatestCustomer_def call_sync_def call_handler_def call_back_def optional_member_def
  upstream_def cache_set_def cache_get_def record_effect_def bind_def ret_def throw_def
  outer_catch_def error_response_def truthy_def metadata_userId_def
  customer_id_of_def createStripeClient_def loadStripeConfig_def nullish_def trim_def
  is_space_def startsWith_def verifyWebhook_def verifyWebhookSignature_def to_WebhookEvent_def

lemmas demo_defs = demo_runtime_def demo_options_def demo_world_def demo_request_def
  demo_env_def demo_provider_def demo_stripe_def demo_event_def demo_memory_def resolves_def
  rejects_def no_sync_def no_handlers_def createMemoryAdapter_def Date_now_def memory_set_def
  demo_deleted_def demo_completed_def

lemma demo_config:
  "loadStripeConfig (rt_env demo_runtime) None =
     Inr \<lparr> secretKey = ''sk_test_mock_key'', webhookSecret = Some ''whsec_mock_webhook_secret'' \<rparr>"
  by (simp add: run_defs demo_defs Let_def)

lemma demo_session_customer:
  "truthy (cs_customerId (latest_session (demo_session ''cs_1''))) = Some ''cus_1''"
  by (simp add: latest_session_def demo_session_def customer_id_of_def truthy_def)

lemma adds_call_sync:
  "(\<And>f. cb = Some f \<Longrightarrow> P (SyncCalled name (as_entity x))) \<Longrightarrow>
   adds P (\<lambda>_. True) (call_sync name cb as_entity x)"
  by (cases cb) (simp_all add: call_sync_def adds_ret adds_call_back)

lemma adds_call_handler:
  "(\<And>f. cb = Some f \<Longrightarrow> P (HandlerCalled name (as_entity x))) \<Longrightarrow>
   adds P (\<lambda>_. True) (call_handler name cb as_entity x)"
  by (cases cb) (simp_all add: call_handler_def adds_ret adds_call_back)

lemma adds_seq:
  assumes "adds P (\<lambda>_. True) m" and "\<And>a. adds P Q (f a)"
  shows "adds P Q (bind m f)"
  using assms by (rule adds_bind)

section \<open>Only what was fetched is cached and forwarded\<close>

lemma subscription_changed_adds:
  "adds (forwards_subscription s) (\<lambda>_. True)
     (bind (cache_set kv k1 (SubscriptionEntity s) t1) (\<lambda>_.
      bind (cache_set kv k2 (IdString (sub_id s)) t2) (\<lambda>_.
      bind (call_sync n1 cb1 SubscriptionEntity s) (\<lambda>_.
      call_handler n2 cb2 SubscriptionEntity s))))"
  by (intro adds_seq adds_cache_set adds_call_sync adds_call_handler) simp_all

lemma subscription_canceled_adds:
  "adds (forwards_subscription s) (\<lambda>_. True)
     (bind (cache_set kv k1 (SubscriptionEntity s) t1) (\<lambda>_.
      bind (call_sync n1 cb1 SubscriptionEntity s) (\<lambda>_.
      call_handler n2 cb2 SubscriptionEntity s)))"
  by (intro adds_seq adds_cache_set adds_call_sync adds_call_handler) simp_all

text \<open>A branch that starts with the fetch of the subscription.\<close>

lemma after_subscription_fetch:
  assumes rest: "\<And>s. adds (forwards_subscription s) (\<lambda>_. True) (rest s)"
      and run: "bind (fetchLatestSubscription stripe subscriptionId) rest w = (r, w')"
  shows "\<exists>new. w_trace w' = w_trace w @ Upstream (SubscriptionsRetrieve subscriptionId) # new
           \<and> (case subscriptions_retrieve stripe subscriptionId (w_stripe w) of
                 (Inl e, u) \<Rightarrow> new = []
               | (Inr fetched, u) \<Rightarrow>
                   list_all (forwards_subscription (latest_subscription fetched)) new)"
proof (cases "subscriptions_retrieve stripe subscriptionId (w_stripe w)")
  case (Pair x u)
  show ?thesis
  proof (cases x)
    case (Inl e)
    with Pair have "fetchLatestSubscription stripe subscriptionId w =
        (Inl e, (record_effect (Upstream (SubscriptionsRetrieve subscriptionId)) w)\<lparr> w_stripe := u \<rparr>)"
      by (simp add: fetchLatestSubscription_throws)
    with run
    have "w' = (record_effect (Upstream (SubscriptionsRetrieve subscriptionId)) w)\<lparr> w_stripe := u \<rparr>"
      by (simp add: bind_def)
    with Pair Inl show ?thesis by (simp add: record_effect_def)
  next
    case (Inr fetched)
    let ?w1 = "(record_effect (Upstream (SubscriptionsRetrieve subscriptionId)) w)\<lparr> w_stripe := u \<rparr>"
    from Pair Inr have "fetchLatestSubscription stripe subscriptionId w =
        (Inr (latest_subscription fetched), ?w1)"
      by (simp add: fetchLatestSubscription_run)
    with run have "rest (latest_subscription fetched) ?w1 = (r, w')"
      by (simp add: bind_def)
    from adds_run [OF rest this]
    obtain new where "w_trace w' = w_trace ?w1 @ new"
      and "list_all (forwards_subscription (latest_subscription fetched)) new"
      by blast
    with Pair Inr show ?thesis by (simp add: record_effect_def)
  qed
qed

lemma on_subscription_changed_trace:
  assumes "on_subscription_changed options stripe event name handler w = (r, w')"
  shows "\<exists>new. w_trace w' = w_trace w @ Upstream (SubscriptionsRetrieve (obj_id (ev_data event))) # new
           \<and> (case subscriptions_retrieve stripe (obj_id (ev_data event)) (w_stripe w) of
                 (Inl e, u) \<Rightarrow> new = []
               | (Inr fetched, u) \<Rightarrow>
                   list_all (forwards_subscription (latest_subscription fetched)) new)"
  by (rule after_subscription_fetch [OF subscription_changed_adds])
     (rule assms [unfolded on_subscription_changed_def])

lemma on_subscription_canceled_trace:
  assumes "on_subscription_canceled options stripe event w = (r, w')"
  shows "\<exists>new. w_trace w' = w_trace w @ Upstream (SubscriptionsRetrieve (obj_id (ev_data event))) # new
           \<and> (case subscriptions_retrieve stripe (obj_id (ev_data event)) (w_stripe w) of
                 (Inl e, u) \<Rightarrow> new = []
               | (Inr fetched, u) \<Rightarrow>
                   list_all (forwards_subscription (latest_subscription fetched)) new)"
  by (rule after_subscription_fetch [OF subscription_canceled_adds])
     (rule assms [unfolded on_subscription_canceled_def])

text \<open>The checkout branch.\<close>

lemma fetchLatestCustomer_adds:
  assumes "truthy (cs_customerId s) = Some customerId"
  shows "adds (forwards_session stripe s) (retrieved_customer stripe s)
           (fetchLatestCustomer stripe customerId)"
  unfolding fetchLatestCustomer_def
proof (rule adds_bind [where R = "\<lambda>fetched. \<exists>u u'. customers_retrieve stripe customerId u = (Inr fetched, u')"])
  show "adds (forwards_session stripe s)
          (\<lambda>fetched. \<exists>u u'. customers_retrieve stripe customerId u = (Inr fetched, u'))
          (upstream (CustomersRetrieve customerId) (customers_retrieve stripe customerId))"
    using assms by (intro adds_upstream) auto
next
  fix fetched
  assume "\<exists>u u'. customers_retrieve stripe customerId u = (Inr fetched, u')"
  with assms have "retrieved_customer stripe s (latest_customer fetched)"
    by (auto simp: retrieved_customer_def)
  then show "adds (forwards_session stripe s) (retrieved_customer stripe s)
          (if sc_deleted fetched
           then throw (PaymentError (''Customer '' @ customerId @ '' has been deleted'')
                         CUSTOMER_NOT_FOUND 404)
           else ret (latest_customer fetched))"
    by (simp add: adds_throw adds_ret)
qed

lemma cache_customer_adds:
  assumes "retrieved_customer stripe s c"
  shows "adds (forwards_session stripe s) (\<lambda>_. True) (cache_customer kv c)"
proof -
  have entity: "\<And>key ttl. adds (forwards_session stripe s) (\<lambda>_. True)
                  (cache_set kv key (CustomerEntity c) ttl)"
    using assms by (intro adds_cache_set) auto
  have ident: "\<And>key ttl. adds (forwards_session stripe s) (\<lambda>_. True)
                  (cache_set kv key (IdString (cus_id c)) ttl)"
    using assms by (intro adds_cache_set) auto
  have email: "adds (forwards_session stripe s) (\<lambda>_. True)
          (case truthy (cus_email c) of
             None \<Rightarrow> ret ()
           | Some email \<Rightarrow>
               cache_set kv (''customer:email:'' @ email) (CustomerEntity c) (Some 86400))"
    by (cases "truthy (cus_email c)") (simp_all only: option.case adds_ret entity)
  have userId: "adds (forwards_session stripe s) (\<lambda>_. True)
          (case metadata_userId (cus_metadata c) of
             None \<Rightarrow> ret ()
           | Some userId \<Rightarrow>
               cache_set kv (''customer:userId:'' @ userId) (IdString (cus_id c)) (Some 86400))"
    by (cases "metadata_userId (cus_metadata c)") (simp_all only: option.case adds_ret ident)
  show ?thesis
    unfolding cache_customer_def
    by (intro adds_seq entity email userId)
qed

lemma checkout_cache_customer_adds:
  "adds (forwards_session stripe s) (\<lambda>_. True) (checkout_cache_customer options stripe s)"
proof (cases "truthy (cs_customerId s)")
  case None
  then show ?thesis by (simp add: checkout_cache_customer_def adds_ret)
next
  case (Some customerId)
  have "adds (forwards_session stripe s) (\<lambda>_. True)
          (bind (fetchLatestCustomer stripe customerId) (cache_customer (cache options)))"
    by (rule adds_bind [OF fetchLatestCustomer_adds [OF Some]]) (rule cache_customer_adds)
  with Some show ?thesis by (simp add: checkout_cache_customer_def)
qed

lemma checkout_sync_adds:
  "adds (forwards_session stripe s) (\<lambda>_. True) (checkout_sync options stripe s)"
proof (cases "optional_member (sync options) sync_onCustomerCreated")
  case None
  then show ?thesis by (simp add: checkout_sync_def adds_ret)
next
  case (Some f)
  show ?thesis
  proof (cases "truthy (cs_customerId s)")
    case None
    with Some show ?thesis by (simp add: checkout_sync_def adds_ret)
  next
    case (Some customerId)
    have "adds (forwards_session stripe s) (\<lambda>_. True)
            (bind (fetchLatestCustomer stripe customerId)
               (call_sync ''onCustomerCreated'' (Some f) CustomerEntity))"
      by (rule adds_bind [OF fetchLatestCustomer_adds [OF Some]])
         (rule adds_call_sync, simp)
    with Some \<open>optional_member (sync options) sync_onCustomerCreated = Some f\<close>
    show ?thesis by (simp add: checkout_sync_def)
  qed
qed

lemma checkout_rest_adds:
  "adds (forwards_session stripe s) (\<lambda>_. True)
     (bind (cache_set kv k (SessionEntity s) t) (\<lambda>_.
      bind (checkout_cache_customer options stripe s) (\<lambda>_.
      bind (checkout_sync options stripe s) (\<lambda>_.
      call_handler n cb SessionEntity s))))"
  by (intro adds_seq adds_cache_set checkout_cache_customer_adds
        checkout_sync_adds adds_call_handler) simp_all

lemma on_checkout_completed_trace:
  assumes run: "on_checkout_completed options stripe event w = (r, w')"
  shows "\<exists>new. w_trace w' = w_trace w @ Upstream (SessionsRetrieve (obj_id (ev_data event))) # new
           \<and> (case checkout_sessions_retrieve stripe (obj_id (ev_data event)) (w_stripe w) of
                 (Inl e, u) \<Rightarrow> new = []
               | (Inr fetched, u) \<Rightarrow>
                   list_all (forwards_session stripe (latest_session fetched)) new)"
proof (cases "checkout_sessions_retrieve stripe (obj_id (ev_data event)) (w_stripe w)")
  case (Pair x u)
  let ?id = "obj_id (ev_data event)"
  let ?w1 = "(record_effect (Upstream (SessionsRetrieve ?id)) w)\<lparr> w_stripe := u \<rparr>"
  show ?thesis
  proof (cases x)
    case (Inl e)
    with Pair have "fetchLatestCheckoutSession stripe ?id w = (Inl e, ?w1)"
      by (simp add: fetchLatestCheckoutSession_throws)
    with run have "w' = ?w1"
      by (simp add: on_checkout_completed_def bind_def)
    with Pair Inl show ?thesis by (simp add: record_effect_def)
  next
    case (Inr fetched)
    with Pair have "fetchLatestCheckoutSession stripe ?id w = (Inr (latest_session fetched), ?w1)"
      by (simp add: fetchLatestCheckoutSession_run)
    with run
    have "bind (cache_set (cache options) (''checkout:'' @ cs_id (latest_session fetched))
                  (SessionEntity (latest_session fetched)) (Some 3600)) (\<lambda>_.
          bind (checkout_cache_customer options stripe (latest_session fetched)) (\<lambda>_.
          bind (checkout_sync options stripe (latest_session fetched)) (\<lambda>_.
          call_handler ''onCheckoutComplete''
            (optional_member (handlers options) onCheckoutComplete)
            SessionEntity (latest_session fetched)))) ?w1 = (r, w')"
      by (simp add: on_checkout_completed_def bind_Inr)
    from adds_run [OF checkout_rest_adds this]
    obtain new where "w_trace w' = w_trace ?w1 @ new"
      and "list_all (forwards_session stripe (latest_session fetched)) new"
      by blast
    with Pair Inr show ?thesis by (simp add: record_effect_def)
  qed
qed

lemma process_event_payload:
  assumes t: "ev_type other = ev_type event"
      and i: "obj_id (ev_data other) = obj_id (ev_data event)"
  shows "process_event rt options other = process_event rt options event"
proof -
  have a: "on_checkout_completed options stripe other
             = on_checkout_completed options stripe event" for stripe :: "'b stripe_client"
    by (simp add: on_checkout_completed_def i)
  have b: "on_subscription_changed options stripe other name handler
             = on_subscription_changed options stripe event name handler"
    for stripe :: "'b stripe_client" and name handler
    by (simp add: on_subscription_changed_def i)
  have c: "on_subscription_canceled options stripe other
             = on_subscription_canceled options stripe event" for stripe :: "'b stripe_client"
    by (simp add: on_subscription_canceled_def i)
  show ?thesis
    by (cases "loadStripeConfig (rt_env rt) None") (simp_all add: process_event_def Let_def t a b c)
qed

text \<open>
  Claim C1, as amended. Let the configuration load, and let the handler process a
  verified event.
  \<^item> The outcome depends on the event through its type and the id of its object only:
    an event of the same type and object id, whatever else its object claims, gives
    the same result and the same final world.
  \<^item> For a subscription event, the first effect is the fetch of the subscription
    with the id of the object; when the fetch throws nothing follows, and otherwise
    every later effect is a cache write of the fetched subscription or of its id, or a
    call of the sync adapter or of the user handler with the fetched subscription.
  \<^item> For \<^verbatim>\<open>checkout.session.completed\<close>, the first effect is the fetch of the session
    with the id of the object; when it throws nothing follows, and otherwise every later
    effect is a cache write of the fetched session, a fetch of the customer of that
    session, a cache write of a customer so fetched or of its id, a call of the sync
    adapter with a customer so fetched, or a call of the user handler with the fetched
    session.
\<close>

theorem fresh_entity_only:
  assumes "loadStripeConfig (rt_env rt) None = Inr config"
      and "process_event rt options event w = (r, w')"
  shows "(\<forall>other. ev_type other = ev_type event \<and> obj_id (ev_data other) = obj_id (ev_data event)
            \<longrightarrow> process_event rt options other w = (r, w'))
       \<and> (subscription_event (ev_type event) \<longrightarrow>
            (\<exists>new. w_trace w' = w_trace w @ Upstream (SubscriptionsRetrieve (obj_id (ev_data event))) # new
               \<and> (case subscriptions_retrieve (rt_Stripe rt (secretKey config))
                          (obj_id (ev_data event)) (w_stripe w) of
                     (Inl e, u) \<Rightarrow> new = []
                   | (Inr fetched, u) \<Rightarrow>
                       list_all (forwards_subscription (latest_subscription fetched)) new)))
       \<and> (ev_type event = ''checkout.session.completed'' \<longrightarrow>
            (\<exists>new. w_trace w' = w_trace w @ Upstream (SessionsRetrieve (obj_id (ev_data event))) # new
               \<and> (case checkout_sessions_retrieve (rt_Stripe rt (secretKey config))
                          (obj_id (ev_data event)) (w_stripe w) of
                     (Inl e, u) \<Rightarrow> new = []
                   | (Inr fetched, u) \<Rightarrow>
                       list_all (forwards_session (rt_Stripe rt (secretKey config))
                                  (latest_session fetched)) new)))"
proof (intro conjI allI impI)
  fix other :: WebhookEvent
  assume "ev_type other = ev_type event \<and> obj_id (ev_data other) = obj_id (ev_data event)"
  then have "process_event rt options other = process_event rt options event"
    by (intro process_event_payload) simp_all
  with assms(2) show "process_event rt options other w = (r, w')" by simp
next
  assume "subscription_event (ev_type event)"
  then consider
      (created) "ev_type event = ''customer.subscription.created''"
    | (updated) "ev_type event = ''customer.subscription.updated''"
    | (canceled) "ev_type event = ''customer.subscription.deleted''
                  \<or> ev_type event = ''customer.subscription.canceled''"
    by (auto simp: subscription_event_def)
  then show "\<exists>new. w_trace w' = w_trace w @ Upstream (SubscriptionsRetrieve (obj_id (ev_data event))) # new
               \<and> (case subscriptions_retrieve (rt_Stripe rt (secretKey config))
                          (obj_id (ev_data event)) (w_stripe w) of
                     (Inl e, u) \<Rightarrow> new = []
                   | (Inr fetched, u) \<Rightarrow>
                       list_all (forwards_subscription (latest_subscription fetched)) new)"
  proof cases
    case created
    with assms(2)
    have "on_subscription_changed options (rt_Stripe rt (secretKey config)) event
            ''onSubscriptionCreated'' (optional_member (handlers options) onSubscriptionCreated) w
          = (r, w')"
      by (simp add: process_event_config [OF assms(1)])
    then show ?thesis by (rule on_subscription_changed_trace)
  next
    case updated
    with assms(2)
    have "on_subscription_changed options (rt_Stripe rt (secretKey config)) event
            ''onSubscriptionUpdated'' (optional_member (handlers options) onSubscriptionUpdated) w
          = (r, w')"
      by (simp add: process_event_config [OF assms(1)])
    then show ?thesis by (rule on_subscription_changed_trace)
  next
    case canceled
    with assms(2)
    have "on_subscription_canceled options (rt_Stripe rt (secretKey config)) event w = (r, w')"
      by (auto simp: process_event_config [OF assms(1)])
    then show ?thesis by (rule on_subscription_canceled_trace)
  qed
next
  assume "ev_type event = ''checkout.session.completed''"
  with assms(2)
  have "on_checkout_completed options (rt_Stripe rt (secretKey config)) event w = (r, w')"
    by (simp add: process_event_config [OF assms(1)])
  then show "\<exists>new. w_trace w' = w_trace w @ Upstream (SessionsRetrieve (obj_id (ev_data event))) # new
               \<and> (case checkout_sessions_retrieve (rt_Stripe rt (secretKey config))
                          (obj_id (ev_data event)) (w_stripe w) of
                     (Inl e, u) \<Rightarrow> new = []
                   | (Inr fetched, u) \<Rightarrow>
                       list_all (forwards_session (rt_Stripe rt (secretKey config))
                                  (latest_session fetched)) new)"
    by (rule on_checkout_completed_trace)
qed

theorem fresh_entity_only_witness:
  "loadStripeConfig (rt_env demo_runtime) None =
     Inr \<lparr> secretKey = ''sk_test_mock_key'', webhookSecret = Some ''whsec_mock_webhook_secret'' \<rparr>
   \<and> process_event demo_runtime (demo_options None None)
         (demo_deleted\<lparr> ev_data := \<lparr> obj_id = ''sub_1'', obj_status = Some ''trialing'',
                                      obj_members = [(''plan'', JStr ''gold'')] \<rparr> \<rparr>) demo_world
       = process_event demo_runtime (demo_options None None) demo_deleted demo_world
   \<and> (\<exists>new. w_trace (snd (process_event demo_runtime (demo_options None None) demo_deleted demo_world))
               = Upstream (SubscriptionsRetrieve ''sub_1'') # new
           \<and> list_all (forwards_subscription (latest_subscription (demo_subscription ''sub_1''))) new)
   \<and> (\<exists>new. w_trace (snd (process_event demo_runtime (demo_options None None) demo_completed demo_world))
               = Upstream (SessionsRetrieve ''cs_1'') # new
           \<and> list_all (forwards_session demo_stripe (latest_session (demo_session ''cs_1''))) new)"
proof -
  let ?opts = "demo_options None None"
  let ?other = "demo_deleted\<lparr> ev_data := \<lparr> obj_id = ''sub_1'', obj_status = Some ''trialing'',
                                      obj_members = [(''plan'', JStr ''gold'')] \<rparr> \<rparr>"
  let ?rd = "process_event demo_runtime ?opts demo_deleted demo_world"
  let ?rc = "process_event demo_runtime ?opts demo_completed demo_world"
  have same: "ev_type ?other = ev_type demo_deleted \<and> obj_id (ev_data ?other) = obj_id (ev_data demo_deleted)"
    by (simp add: demo_deleted_def)
  have sub: "subscription_event (ev_type demo_deleted)"
    by (simp add: subscription_event_def demo_deleted_def)
  have fetched: "subscriptions_retrieve (rt_Stripe demo_runtime ''sk_test_mock_key'')
                   (obj_id (ev_data demo_deleted)) (w_stripe demo_world)
                 = (Inr (demo_subscription ''sub_1''), 1)"
    by (simp add: demo_defs)
  have chk: "ev_type demo_completed = ''checkout.session.completed''"
    by (simp add: demo_completed_def)
  have fetched': "checkout_sessions_retrieve (rt_Stripe demo_runtime ''sk_test_mock_key'')
                   (obj_id (ev_data demo_completed)) (w_stripe demo_world)
                 = (Inr (demo_session ''cs_1''), 1)"
    by (simp add: demo_defs)
  have ids: "obj_id (ev_data demo_deleted) = ''sub_1''" "obj_id (ev_data demo_completed) = ''cs_1''"
    "w_trace demo_world = []" "rt_Stripe demo_runtime ''sk_test_mock_key'' = demo_stripe"
    by (simp_all add: demo_defs)
  have pd: "?rd = (fst ?rd, snd ?rd)" and pc: "?rc = (fst ?rc, snd ?rc)"
    by simp_all
  note d = fresh_entity_only [OF demo_config pd]
  note c = fresh_entity_only [OF demo_config pc]
  note d1 = d [THEN conjunct1, rule_format, OF same]
  note d2 = d [THEN conjunct2, THEN conjunct1, rule_format, OF sub]
  note c3 = c [THEN conjunct2, THEN conjunct2, rule_format, OF chk]
  have 1: "process_event demo_runtime ?opts ?other demo_world = ?rd"
    by (simp add: d1)
  from d2 fetched ids
  have 2: "\<exists>new. w_trace (snd ?rd) = Upstream (SubscriptionsRetrieve ''sub_1'') # new
           \<and> list_all (forwards_subscription (latest_subscription (demo_subscription ''sub_1''))) new"
    by simp
  from c3 fetched' ids
  have 3: "\<exists>new. w_trace (snd ?rc) = Upstream (SessionsRetrieve ''cs_1'') # new
           \<and> list_all (forwards_session demo_stripe (latest_session (demo_session ''cs_1''))) new"
    by simp
  from demo_config 1 2 3 show ?thesis by blast
qed

text \<open>
  Claim C1 as stated fails for \<^verbatim>\<open>checkout.session.completed\<close>: what the cache
  receives under the customer keys and what the sync adapter is called with is the
  customer of the session, fetched by the customer id that the fetched session carries,
  and not the entity fetched for the id in the payload.
\<close>

theorem checkout_forwards_customer_counterexample:
  "w_trace (snd (createWebhookHandler demo_runtime
       (demo_options (Some (no_sync\<lparr> sync_onCustomerCreated := resolves \<rparr>)) None)
       (demo_request ''checkout.session.completed cs_1'' (Some ''t=1,v1=valid'')) demo_world))
   = [VerifyWebhook ''checkout.session.completed cs_1'' ''t=1,v1=valid'',
      Upstream (SessionsRetrieve ''cs_1''),
      CacheSet ''checkout:cs_1'' (SessionEntity (latest_session (demo_session ''cs_1''))) (Some 3600),
      Upstream (CustomersRetrieve ''cus_1''),
      CacheSet ''customer:cus_1'' (CustomerEntity (latest_customer (demo_customer ''cus_1''))) (Some 86400),
      CacheSet ''customer:email:test@example.com''
        (CustomerEntity (latest_customer (demo_customer ''cus_1''))) (Some 86400),
      CacheSet ''customer:userId:user_123'' (IdString ''cus_1'') (Some 86400),
      Upstream (CustomersRetrieve ''cus_1''),
      SyncCalled ''onCustomerCreated'' (CustomerEntity (latest_customer (demo_customer ''cus_1'')))]
   \<and> CustomerEntity (latest_customer (demo_customer ''cus_1''))
       \<noteq> SessionEntity (latest_session (demo_session ''cs_1''))"
  by (simp add: run_defs demo_defs Let_def latest_session_def latest_customer_def
      demo_session_def demo_customer_def)

section \<open>Rejection and acknowledgement\<close>

text \<open>
  Claim C2. A POST request without a \<^verbatim>\<open>stripe-signature\<close> header is answered with
  status 401 and the body of the missing signature, and the world is left as it was:
  the cache and the upstream state are unchanged and the trace has no new entry, so
  that neither the provider, nor the Stripe client, nor the cache was called.
\<close>

theorem missing_signature_rejected:
  assumes "req_method request = ''POST''"
      and "req_stripe_signature request = None"
  shows "createWebhookHandler rt options request w =
           (\<lparr> res_status = 401,
              res_body = JObj [(''error'', JStr ''Missing signature''),
                               (''message'', JStr ''stripe-signature header is required'')] \<rparr>,
            w)"
  using assms by (simp add: createWebhookHandler_def truthy_def)

theorem missing_signature_rejected_witness:
  "req_method (demo_request ''checkout.session.completed cs_1'' None) = ''POST''
   \<and> req_stripe_signature (demo_request ''checkout.session.completed cs_1'' None) = None
   \<and> createWebhookHandler demo_runtime (demo_options None None)
         (demo_request ''checkout.session.completed cs_1'' None) demo_world
       = (\<lparr> res_status = 401,
            res_body = JObj [(''error'', JStr ''Missing signature''),
                             (''message'', JStr ''stripe-signature header is required'')] \<rparr>,
          demo_world)"
proof -
  have m: "req_method (demo_request ''checkout.session.completed cs_1'' None) = ''POST''"
    and s: "req_stripe_signature (demo_request ''checkout.session.completed cs_1'' None) = None"
    by (simp_all add: demo_request_def)
  from m s missing_signature_rejected [OF m s, of demo_runtime "demo_options None None" demo_world]
  show ?thesis by simp
qed

lemma outer_catch_other:
  "\<not> is_WebhookError e \<Longrightarrow>
   outer_catch e w =
     (\<lparr> res_status = 200,
        res_body = JObj [(''received'', JBool True), (''error'', JStr ''Handler error logged'')] \<rparr>,
      record_effect (ConsoleError ''Webhook handler error:'' (Some e)) w)"
  by (cases e) (simp_all add: outer_catch_def error_response_def)

lemma outer_catch_WebhookError:
  "outer_catch (WebhookError m code) w =
     (\<lparr> res_status = 401, res_body = JObj [(''error'', JStr code), (''message'', JStr m)] \<rparr>,
      record_effect (ConsoleError ''Webhook handler error:'' (Some (WebhookError m code))) w)"
  by (simp add: outer_catch_def error_response_def)

lemma on_checkout_completed_handler_rejects:
  assumes "fetchLatestCheckoutSession stripe (obj_id (ev_data event)) w0 = (Inr s, w1)"
      and "cache_set (cache options) (''checkout:'' @ cs_id s) (SessionEntity s) (Some 3600) w1
             = (Inr (), w2)"
      and "checkout_cache_customer options stripe s w2 = (Inr (), w3)"
      and "checkout_sync options stripe s w3 = (Inr (), w4)"
      and "optional_member (handlers options) onCheckoutComplete = Some f"
      and "f s = Some e"
  shows "on_checkout_completed options stripe event w0 =
           (Inl e, record_effect (HandlerCalled ''onCheckoutComplete'' (SessionEntity s)) w4)"
  using assms
  by (simp add: on_checkout_completed_def bind_def call_handler_rejects)

text \<open>
  Claim C3, as amended. Let a POST request pass the verification of its signature, and
  let \<open>r\<close> be the outcome of the steps that follow.
  \<^item> When no step throws, the response is 200 with the body \<^verbatim>\<open>{received: true}\<close>.
  \<^item> When a step throws an error that is not a \<^verbatim>\<open>WebhookError\<close>, the error is
    logged and the response is still 200, with the body
    \<^verbatim>\<open>{received: true, error: 'Handler error logged'}\<close>.
  \<^item> In particular, when the steps before the user handler \<^verbatim>\<open>onCheckoutComplete\<close>
    succeed and the handler rejects with \<open>e\<close>, the outcome is the throw of \<open>e\<close>, after
    the handler was called with the fetched session.
\<close>

theorem acknowledged_after_verification:
  assumes "req_method request = ''POST''"
      and "truthy (req_stripe_signature request) = Some signature"
      and "provider_verifyWebhook options (req_body request) signature = Inr event"
      and "process_event rt options event
             (record_effect (VerifyWebhook (req_body request) signature) w) = (r, w')"
  shows "(r = Inr () \<longrightarrow>
            createWebhookHandler rt options request w =
              (\<lparr> res_status = 200, res_body = JObj [(''received'', JBool True)] \<rparr>, w'))
       \<and> (\<forall>e. r = Inl e \<and> \<not> is_WebhookError e \<longrightarrow>
            createWebhookHandler rt options request w =
              (\<lparr> res_status = 200,
                 res_body = JObj [(''received'', JBool True),
                                  (''error'', JStr ''Handler error logged'')] \<rparr>,
               record_effect (ConsoleError ''Webhook handler error:'' (Some e)) w'))
       \<and> (\<forall>config s w1 w2 w3 w4 f e.
            loadStripeConfig (rt_env rt) None = Inr config
            \<and> ev_type event = ''checkout.session.completed''
            \<and> fetchLatestCheckoutSession (rt_Stripe rt (secretKey config)) (obj_id (ev_data event))
                 (record_effect (VerifyWebhook (req_body request) signature) w) = (Inr s, w1)
            \<and> cache_set (cache options) (''checkout:'' @ cs_id s) (SessionEntity s) (Some 3600) w1
                 = (Inr (), w2)
            \<and> checkout_cache_customer options (rt_Stripe rt (secretKey config)) s w2 = (Inr (), w3)
            \<and> checkout_sync options (rt_Stripe rt (secretKey config)) s w3 = (Inr (), w4)
            \<and> optional_member (handlers options) onCheckoutComplete = Some f
            \<and> f s = Some e
            \<longrightarrow> r = Inl e
                \<and> w' = record_effect (HandlerCalled ''onCheckoutComplete'' (SessionEntity s)) w4)"
proof -
  note h = handler_verified [OF assms(1-3), of rt w]
  have 1: "r = Inr () \<longrightarrow>
            createWebhookHandler rt options request w =
              (\<lparr> res_status = 200, res_body = JObj [(''received'', JBool True)] \<rparr>, w')"
    using h assms(4) by simp
  have 2: "\<forall>e. r = Inl e \<and> \<not> is_WebhookError e \<longrightarrow>
            createWebhookHandler rt options request w =
              (\<lparr> res_status = 200,
                 res_body = JObj [(''received'', JBool True),
                                  (''error'', JStr ''Handler error logged'')] \<rparr>,
               record_effect (ConsoleError ''Webhook handler error:'' (Some e)) w')"
    using h assms(4) by (simp add: outer_catch_other)
  have 4: "r = Inl e \<and> w' = record_effect (HandlerCalled ''onCheckoutComplete'' (SessionEntity s)) w4"
    if "loadStripeConfig (rt_env rt) None = Inr config"
      and "ev_type event = ''checkout.session.completed''"
      and "fetchLatestCheckoutSession (rt_Stripe rt (secretKey config)) (obj_id (ev_data event))
             (record_effect (VerifyWebhook (req_body request) signature) w) = (Inr s, w1)"
      and "cache_set (cache options) (''checkout:'' @ cs_id s) (SessionEntity s) (Some 3600) w1
             = (Inr (), w2)"
      and "checkout_cache_customer options (rt_Stripe rt (secretKey config)) s w2 = (Inr (), w3)"
      and "checkout_sync options (rt_Stripe rt (secretKey config)) s w3 = (Inr (), w4)"
      and "optional_member (handlers options) onCheckoutComplete = Some f"
      and "f s = Some e"
    for config s w1 w2 w3 w4 f e
  proof -
    from that(1,2) have "process_event rt options event =
        on_checkout_completed options (rt_Stripe rt (secretKey config)) event"
      by (simp add: process_event_config)
    with on_checkout_completed_handler_rejects [OF that(3-8)] assms(4)
    show ?thesis by simp
  qed
  from 1 2 4 show ?thesis by blast
qed

lemma demo_verify:
  "provider_verifyWebhook (demo_options s h) body ''t=1,v1=valid'' = Inr (to_WebhookEvent (demo_event body))"
  by (simp add: demo_options_def demo_provider_def demo_stripe_def verifyWebhook_def
      verifyWebhookSignature_def truthy_def)

lemma demo_request_valid:
  "req_method (demo_request body (Some ''t=1,v1=valid'')) = ''POST''"
  "truthy (req_stripe_signature (demo_request body (Some ''t=1,v1=valid''))) = Some ''t=1,v1=valid''"
  "req_body (demo_request body signature) = body"
  by (simp_all add: demo_request_def truthy_def)

theorem acknowledged_after_verification_witness:
  "createWebhookHandler demo_runtime
      (demo_options None (Some (no_handlers\<lparr> onCheckoutComplete := rejects ''boom'' \<rparr>)))
      (demo_request ''checkout.session.completed cs_1'' (Some ''t=1,v1=valid'')) demo_world
   = (\<lparr> res_status = 200,
        res_body = JObj [(''received'', JBool True), (''error'', JStr ''Handler error logged'')] \<rparr>,
      record_effect (ConsoleError ''Webhook handler error:'' (Some (Error ''boom'')))
        (snd (process_event demo_runtime
                (demo_options None (Some (no_handlers\<lparr> onCheckoutComplete := rejects ''boom'' \<rparr>)))
                (to_WebhookEvent (demo_event ''checkout.session.completed cs_1''))
                (record_effect (VerifyWebhook ''checkout.session.completed cs_1'' ''t=1,v1=valid'')
                   demo_world))))
   \<and> fst (process_event demo_runtime
             (demo_options None (Some (no_handlers\<lparr> onCheckoutComplete := rejects ''boom'' \<rparr>)))
             (to_WebhookEvent (demo_event ''checkout.session.completed cs_1''))
             (record_effect (VerifyWebhook ''checkout.session.completed cs_1'' ''t=1,v1=valid'')
                demo_world))
     = Inl (Error ''boom'')"
proof -
  let ?body = "''checkout.session.completed cs_1''"
  let ?sig = "''t=1,v1=valid''"
  let ?opts = "demo_options None (Some (no_handlers\<lparr> onCheckoutComplete := rejects ''boom'' \<rparr>))"
  let ?req = "demo_request ?body (Some ?sig)"
  let ?ev = "to_WebhookEvent (demo_event ?body)"
  let ?w0 = "record_effect (VerifyWebhook ?body ?sig) demo_world"
  let ?run = "process_event demo_runtime ?opts ?ev ?w0"
  let ?s = "latest_session (demo_session ''cs_1'')"
  let ?f1 = "fetchLatestCheckoutSession demo_stripe ''cs_1'' ?w0"
  let ?f2 = "cache_set (cache ?opts) (''checkout:'' @ cs_id ?s) (SessionEntity ?s) (Some 3600) (snd ?f1)"
  let ?f3 = "checkout_cache_customer ?opts demo_stripe ?s (snd ?f2)"
  let ?f4 = "checkout_sync ?opts demo_stripe ?s (snd ?f3)"
  have run: "process_event demo_runtime ?opts ?ev
               (record_effect (VerifyWebhook (req_body ?req) ?sig) demo_world) = (fst ?run, snd ?run)"
    by (simp add: demo_request_valid)
  note t = acknowledged_after_verification
             [OF demo_request_valid(1) demo_request_valid(2) _ run,
              unfolded demo_request_valid(3), OF demo_verify]
  have ty: "ev_type ?ev = ''checkout.session.completed''" and oid: "obj_id (ev_data ?ev) = ''cs_1''"
    by (simp_all add: to_WebhookEvent_def demo_event_def)
  have st: "rt_Stripe demo_runtime ''sk_test_mock_key'' = demo_stripe"
    by (simp add: demo_runtime_def)
  have a: "?f1 = (Inr ?s, snd ?f1)"
    by (simp add: run_defs demo_defs)
  have b: "?f2 = (Inr (), snd ?f2)"
    by (simp add: run_defs demo_defs)
  have c: "?f3 = (Inr (), snd ?f3)"
    by (simp add: run_defs demo_defs latest_session_def demo_session_def demo_customer_def
        latest_customer_def)
  have d: "?f4 = (Inr (), snd ?f4)"
    by (simp add: run_defs demo_defs)
  have h: "optional_member (handlers ?opts) onCheckoutComplete = Some (\<lambda>x. Some (Error ''boom''))"
    by (simp add: demo_defs optional_member_def)
  from t [THEN conjunct2, THEN conjunct2, rule_format,
          of _ ?s "snd ?f1" "snd ?f2" "snd ?f3" "snd ?f4" "\<lambda>x. Some (Error ''boom'')" "Error ''boom''"]
    demo_config ty oid st a b c d h
  have r: "fst ?run = Inl (Error ''boom'')"
    by simp
  from t [THEN conjunct2, THEN conjunct1, rule_format, of "Error ''boom''"] r
  show ?thesis by simp
qed

text \<open>
  Claim C3 as stated fails. When the user handler \<^verbatim>\<open>onCheckoutComplete\<close> rejects
  with a plain error, the status is 200 but the body of the response is not
  \<^verbatim>\<open>{received: true}\<close>: it has the member \<^verbatim>\<open>error\<close> as well.
\<close>

theorem handler_failure_response_counterexample:
  "fst (createWebhookHandler demo_runtime
          (demo_options None (Some (no_handlers\<lparr> onCheckoutComplete := rejects ''boom'' \<rparr>)))
          (demo_request ''checkout.session.completed cs_1'' (Some ''t=1,v1=valid'')) demo_world)
     = \<lparr> res_status = 200,
         res_body = JObj [(''received'', JBool True), (''error'', JStr ''Handler error logged'')] \<rparr>
   \<and> fst (createWebhookHandler demo_runtime
          (demo_options None (Some (no_handlers\<lparr> onCheckoutComplete := rejects ''boom'' \<rparr>)))
          (demo_request ''checkout.session.completed cs_1'' (Some ''t=1,v1=valid'')) demo_world)
     \<noteq> \<lparr> res_status = 200, res_body = JObj [(''received'', JBool True)] \<rparr>"
  by (simp add: run_defs demo_defs Let_def latest_session_def latest_customer_def
      demo_session_def demo_customer_def)

text \<open>
  The guard \<^verbatim>\<open>error instanceof WebhookError\<close> of the outer catch clause, at line 351,
  stands under the comment that reserves the error response for failures of the
  verification of the signature. Those never reach it: the inner catch clause has
  answered them. It is reached by a \<^verbatim>\<open>WebhookError\<close> that a later step throws, for
  one a user handler, and the response is then 401.
\<close>

lemma webhook_error_after_verification:
  "fst (createWebhookHandler demo_runtime
          (demo_options None
             (Some (no_handlers\<lparr> onCheckoutComplete :=
                Some (\<lambda>session. Some (WebhookError ''not for me'' ''HANDLER_FAILED'')) \<rparr>)))
          (demo_request ''checkout.session.completed cs_1'' (Some ''t=1,v1=valid'')) demo_world)
     = \<lparr> res_status = 401,
         res_body = JObj [(''error'', JStr ''HANDLER_FAILED''), (''message'', JStr ''not for me'')] \<rparr>"
  by (simp add: run_defs demo_defs Let_def latest_session_def latest_customer_def
      demo_session_def demo_customer_def)

section \<open>A sync adapter that rejects\<close>

text \<open>
  Claim C4 fails on the code. A \<^verbatim>\<open>customer.subscription.created\<close> event, with a sync
  adapter whose \<^verbatim>\<open>onSubscriptionUpdated\<close> rejects and a user handler
  \<^verbatim>\<open>onSubscriptionCreated\<close>: the rejection ends the run. The trace ends with the call
  of the sync adapter and the log of its error; the user handler is never called.
\<close>

theorem sync_failure_skips_handler:
  "createWebhookHandler demo_runtime
      (demo_options (Some (no_sync\<lparr> sync_onSubscriptionUpdated := rejects ''db down'' \<rparr>))
                    (Some (no_handlers\<lparr> onSubscriptionCreated := resolves \<rparr>)))
      (demo_request ''customer.subscription.created sub_1'' (Some ''t=1,v1=valid'')) demo_world
   = (\<lparr> res_status = 200,
        res_body = JObj [(''received'', JBool True), (''error'', JStr ''Handler error logged'')] \<rparr>,
      \<lparr> w_cache =
          \<lparr> m_storage =
              [''subscription:sub_1'' \<mapsto>
                 \<lparr> se_value =
                     Some (SubscriptionEntity (latest_subscription (demo_subscription ''sub_1''))),
                   se_expiresAt = Some 3600000 \<rparr>,
               ''subscription:customer:cus_1'' \<mapsto>
                 \<lparr> se_value = Some (IdString ''sub_1''), se_expiresAt = Some 3601000 \<rparr>],
            m_clock = (\<lambda>n. 1000 * n), m_ops = 2 \<rparr>,
        w_stripe = 1,
        w_trace =
          [VerifyWebhook ''customer.subscription.created sub_1'' ''t=1,v1=valid'',
           Upstream (SubscriptionsRetrieve ''sub_1''),
           CacheSet ''subscription:sub_1''
             (SubscriptionEntity (latest_subscription (demo_subscription ''sub_1''))) (Some 3600),
           CacheSet ''subscription:customer:cus_1'' (IdString ''sub_1'') (Some 3600),
           SyncCalled ''onSubscriptionUpdated''
             (SubscriptionEntity (latest_subscription (demo_subscription ''sub_1''))),
           ConsoleError ''Webhook handler error:'' (Some (Error ''db down''))] \<rparr>)
   \<and> (\<forall>x. HandlerCalled ''onSubscriptionCreated'' x \<notin> set (w_trace (snd
        (createWebhookHandler demo_runtime
           (demo_options (Some (no_sync\<lparr> sync_onSubscriptionUpdated := rejects ''db down'' \<rparr>))
                         (Some (no_handlers\<lparr> onSubscriptionCreated := resolves \<rparr>)))
           (demo_request ''customer.subscription.created sub_1'' (Some ''t=1,v1=valid''))
           demo_world))))"
  by (simp add: run_defs demo_defs Let_def latest_subscription_def demo_subscription_def)

section \<open>The canceled subscription\<close>

lemma world_after:
  "(record_effect eff w)\<lparr> w_stripe := u \<rparr> = \<lparr> w_cache = w_cache w, w_stripe = u, w_trace = w_trace w @ [eff] \<rparr>"
  "(record_effect eff w)\<lparr> w_cache := c \<rparr> = \<lparr> w_cache = c, w_stripe = w_stripe w, w_trace = w_trace w @ [eff] \<rparr>"
  "record_effect eff w = \<lparr> w_cache = w_cache w, w_stripe = w_stripe w, w_trace = w_trace w @ [eff] \<rparr>"
  by (simp_all add: record_effect_def)

lemma bind_step: "m s = (Inr a, s') \<Longrightarrow> f a s' = res \<Longrightarrow> bind m f s = res"
  by (simp add: bind_def)

lemma call_sync_resolves:
  assumes "\<forall>g. cb = Some g \<longrightarrow> g x = None"
  shows "call_sync name cb as_entity x w =
           (Inr (), \<lparr> w_cache = w_cache w, w_stripe = w_stripe w,
                      w_trace = w_trace w @ (case cb of None \<Rightarrow> []
                                              | Some g \<Rightarrow> [SyncCalled name (as_entity x)]) \<rparr>)"
  using assms by (cases cb) (simp_all add: call_sync_def call_back_def ret_def world_after)

lemma latest_subscription_id [simp]: "sub_id (latest_subscription fetched) = ssub_id fetched"
  by (simp add: latest_subscription_def)

lemma latest_session_id [simp]: "cs_id (latest_session fetched) = ss_id fetched"
  by (simp add: latest_session_def)

lemma latest_session_customer [simp]:
  "cs_customerId (latest_session fetched) = customer_id_of (ss_customer fetched)"
  by (simp add: latest_session_def)

lemma on_subscription_canceled_run:
  assumes "subscriptions_retrieve stripe (obj_id (ev_data event)) (w_stripe w) = (Inr fetched, u')"
      and "kv_set (cache options) (''subscription:'' @ ssub_id fetched)
             (SubscriptionEntity (latest_subscription fetched)) (Some 86400) (w_cache w) = (Inr (), c')"
      and "\<forall>g. optional_member (sync options) sync_onSubscriptionCanceled = Some g
             \<longrightarrow> g (latest_subscription fetched) = None"
      and "optional_member (handlers options) onSubscriptionCanceled = Some h"
      and "h (latest_subscription fetched) = None"
  shows "on_subscription_canceled options stripe event w =
     (Inr (),
      \<lparr> w_cache = c', w_stripe = u',
        w_trace = w_trace w @
          [Upstream (SubscriptionsRetrieve (obj_id (ev_data event))),
           CacheSet (''subscription:'' @ ssub_id fetched)
             (SubscriptionEntity (latest_subscription fetched)) (Some 86400)]
          @ (case optional_member (sync options) sync_onSubscriptionCanceled of
               None \<Rightarrow> []
             | Some g \<Rightarrow> [SyncCalled ''onSubscriptionCanceled''
                            (SubscriptionEntity (latest_subscription fetched))])
          @ [HandlerCalled ''onSubscriptionCanceled''
               (SubscriptionEntity (latest_subscription fetched))] \<rparr>)"
proof -
  let ?s = "latest_subscription fetched"
  let ?w1 = "\<lparr> w_cache = w_cache w, w_stripe = u',
               w_trace = w_trace w @ [Upstream (SubscriptionsRetrieve (obj_id (ev_data event)))] \<rparr>"
  let ?w2 = "\<lparr> w_cache = c', w_stripe = u',
               w_trace = w_trace w @ [Upstream (SubscriptionsRetrieve (obj_id (ev_data event))),
                 CacheSet (''subscription:'' @ ssub_id fetched) (SubscriptionEntity ?s) (Some 86400)] \<rparr>"
  have 1: "fetchLatestSubscription stripe (obj_id (ev_data event)) w = (Inr ?s, ?w1)"
    using fetchLatestSubscription_run [OF assms(1)] by (simp add: world_after)
  have 2: "cache_set (cache options) (''subscription:'' @ sub_id ?s) (SubscriptionEntity ?s)
             (Some 86400) ?w1 = (Inr (), ?w2)"
    using assms(2) by (simp add: cache_set_def world_after)
  have 3: "call_sync ''onSubscriptionCanceled''
             (optional_member (sync options) sync_onSubscriptionCanceled) SubscriptionEntity ?s ?w2
           = (Inr (), ?w2\<lparr> w_trace := w_trace ?w2 @
                (case optional_member (sync options) sync_onSubscriptionCanceled of
                   None \<Rightarrow> [] | Some g \<Rightarrow> [SyncCalled ''onSubscriptionCanceled'' (SubscriptionEntity ?s)]) \<rparr>)"
    using call_sync_resolves [OF assms(3), of "''onSubscriptionCanceled''" SubscriptionEntity ?w2]
    by simp
  show ?thesis
    unfolding on_subscription_canceled_def
    apply (rule bind_step, rule 1)
    apply (rule bind_step, rule 2)
    apply (rule bind_step, rule 3)
    apply (simp add: call_handler_resolves [OF assms(4) assms(5)] world_after)
    done
qed

lemma memory_set_ttl:
  "kv_set createMemoryAdapter key v (Some 86400) m =
     (Inr (),
      m\<lparr> m_storage := (m_storage m)(key \<mapsto>
            \<lparr> se_value = Some v, se_expiresAt = Some (int (Date_now m) + 86400 * 1000) \<rparr>),
         m_ops := Suc (m_ops m) \<rparr>)"
  by (simp add: createMemoryAdapter_def memory_set_def)

lemma fetchLatestSubscription_adds:
  "P (Upstream (SubscriptionsRetrieve i)) \<Longrightarrow> adds P (\<lambda>_. True) (fetchLatestSubscription stripe i)"
  unfolding fetchLatestSubscription_def
  by (intro adds_seq adds_upstream adds_ret) simp_all

lemma on_subscription_changed_ttl:
  "adds (writes_with_ttl 3600) (\<lambda>_. True) (on_subscription_changed options stripe event name handler)"
  unfolding on_subscription_changed_def
  by (intro adds_seq fetchLatestSubscription_adds adds_cache_set adds_call_sync adds_call_handler)
     simp_all

lemma on_subscription_canceled_ttl:
  "adds (writes_with_ttl 86400) (\<lambda>_. True) (on_subscription_canceled options stripe event)"
  unfolding on_subscription_canceled_def
  by (intro adds_seq fetchLatestSubscription_adds adds_cache_set adds_call_sync adds_call_handler)
     simp_all

text \<open>
  The canceled branch where no callback rejects. Let a POST request with a valid
  signature carry an event of type \<^verbatim>\<open>customer.subscription.deleted\<close> or
  \<^verbatim>\<open>customer.subscription.canceled\<close> for the subscription id \<open>S\<close>; let the
  configuration load, the Stripe client return the subscription with id \<open>S\<close>, the cache
  accept the write, the callback of the sync adapter, if there is one, resolve, and the
  user handler \<^verbatim>\<open>onSubscriptionCanceled\<close> be configured and resolve. Then the response
  is 200 with the body \<^verbatim>\<open>{received: true}\<close>, and the run consists of: the
  verification, the fetch of \<open>S\<close>, the write of the fetched subscription under
  \<^verbatim>\<open>subscription:S\<close> with a time-to-live of 86400 seconds, the call of the sync adapter
  if there is one, and one call of the user handler with the fetched subscription. In
  the in-memory adapter such a write expires 86400000 milliseconds after the clock
  reading. Every cache write of the canceled branch has the time-to-live 86400, every
  cache write of the created and updated branch has 3600, which is less.
\<close>

lemma subscription_canceled_pipeline:
  assumes "req_method request = ''POST''"
      and "truthy (req_stripe_signature request) = Some signature"
      and "provider_verifyWebhook options (req_body request) signature = Inr event"
      and "ev_type event = ''customer.subscription.deleted''
           \<or> ev_type event = ''customer.subscription.canceled''"
      and "obj_id (ev_data event) = S"
      and "loadStripeConfig (rt_env rt) None = Inr config"
      and "subscriptions_retrieve (rt_Stripe rt (secretKey config)) S (w_stripe w) = (Inr fetched, u')"
      and "ssub_id fetched = S"
      and "kv_set (cache options) (''subscription:'' @ S)
             (SubscriptionEntity (latest_subscription fetched)) (Some 86400) (w_cache w) = (Inr (), c')"
      and "\<forall>g. optional_member (sync options) sync_onSubscriptionCanceled = Some g
             \<longrightarrow> g (latest_subscription fetched) = None"
      and "optional_member (handlers options) onSubscriptionCanceled = Some h"
      and "h (latest_subscription fetched) = None"
  shows "(\<exists>new. createWebhookHandler rt options request w =
                  (\<lparr> res_status = 200, res_body = JObj [(''received'', JBool True)] \<rparr>,
                   \<lparr> w_cache = c', w_stripe = u', w_trace = w_trace w @ new \<rparr>)
            \<and> new = [VerifyWebhook (req_body request) signature,
                      Upstream (SubscriptionsRetrieve S),
                      CacheSet (''subscription:'' @ S)
                        (SubscriptionEntity (latest_subscription fetched)) (Some 86400)]
                     @ (case optional_member (sync options) sync_onSubscriptionCanceled of
                          None \<Rightarrow> []
                        | Some g \<Rightarrow> [SyncCalled ''onSubscriptionCanceled''
                                       (SubscriptionEntity (latest_subscription fetched))])
                     @ [HandlerCalled ''onSubscriptionCanceled''
                          (SubscriptionEntity (latest_subscription fetched))]
            \<and> filter is_HandlerCalled new
                = [HandlerCalled ''onSubscriptionCanceled''
                     (SubscriptionEntity (latest_subscription fetched))])
       \<and> (\<forall>(m :: entity memory) key v.
            kv_set createMemoryAdapter key v (Some 86400) m =
              (Inr (),
               m\<lparr> m_storage := (m_storage m)(key \<mapsto>
                     \<lparr> se_value = Some v, se_expiresAt = Some (int (Date_now m) + 86400 * 1000) \<rparr>),
                  m_ops := Suc (m_ops m) \<rparr>))
       \<and> adds (writes_with_ttl 86400) (\<lambda>_. True)
            (on_subscription_canceled options (rt_Stripe rt (secretKey config)) event)
       \<and> (\<forall>other name handler.
            adds (writes_with_ttl 3600) (\<lambda>_. True)
              (on_subscription_changed options (rt_Stripe rt (secretKey config)) other name handler))
       \<and> (3600 :: int) < 86400"
proof -
  let ?stripe = "rt_Stripe rt (secretKey config)"
  let ?w0 = "record_effect (VerifyWebhook (req_body request) signature) w"
  let ?s = "latest_subscription fetched"
  let ?new = "[VerifyWebhook (req_body request) signature,
               Upstream (SubscriptionsRetrieve S),
               CacheSet (''subscription:'' @ S) (SubscriptionEntity ?s) (Some 86400)]
              @ (case optional_member (sync options) sync_onSubscriptionCanceled of
                   None \<Rightarrow> []
                 | Some g \<Rightarrow> [SyncCalled ''onSubscriptionCanceled'' (SubscriptionEntity ?s)])
              @ [HandlerCalled ''onSubscriptionCanceled'' (SubscriptionEntity ?s)]"
  from assms(4) assms(6)
  have pe: "process_event rt options event = on_subscription_canceled options ?stripe event"
    by (auto simp: process_event_config)
  have f: "subscriptions_retrieve ?stripe (obj_id (ev_data event)) (w_stripe ?w0) = (Inr fetched, u')"
    using assms(5,7) by (simp add: record_effect_def)
  have k: "kv_set (cache options) (''subscription:'' @ ssub_id fetched)
             (SubscriptionEntity ?s) (Some 86400) (w_cache ?w0) = (Inr (), c')"
    using assms(8,9) by (simp add: record_effect_def)
  have run: "createWebhookHandler rt options request w =
               (\<lparr> res_status = 200, res_body = JObj [(''received'', JBool True)] \<rparr>,
                \<lparr> w_cache = c', w_stripe = u', w_trace = w_trace w @ ?new \<rparr>)"
    using handler_verified [OF assms(1-3), of rt w]
      on_subscription_canceled_run [OF f k assms(10-12)] assms(5,8)
    by (simp add: pe record_effect_def)
  have once: "filter is_HandlerCalled ?new = [HandlerCalled ''onSubscriptionCanceled'' (SubscriptionEntity ?s)]"
    by (cases "optional_member (sync options) sync_onSubscriptionCanceled") simp_all
  from run once
  have 1: "\<exists>new. createWebhookHandler rt options request w =
                  (\<lparr> res_status = 200, res_body = JObj [(''received'', JBool True)] \<rparr>,
                   \<lparr> w_cache = c', w_stripe = u', w_trace = w_trace w @ new \<rparr>)
            \<and> new = ?new
            \<and> filter is_HandlerCalled new
                = [HandlerCalled ''onSubscriptionCanceled'' (SubscriptionEntity ?s)]"
    by blast
  have 2: "\<forall>(m :: entity memory) key v.
            kv_set createMemoryAdapter key v (Some 86400) m =
              (Inr (),
               m\<lparr> m_storage := (m_storage m)(key \<mapsto>
                     \<lparr> se_value = Some v, se_expiresAt = Some (int (Date_now m) + 86400 * 1000) \<rparr>),
                  m_ops := Suc (m_ops m) \<rparr>)"
    by (intro allI memory_set_ttl)
  have 3: "adds (writes_with_ttl 86400) (\<lambda>_. True) (on_subscription_canceled options ?stripe event)"
    by (rule on_subscription_canceled_ttl)
  have 4: "\<forall>other name handler.
            adds (writes_with_ttl 3600) (\<lambda>_. True)
              (on_subscription_changed options ?stripe other name handler)"
    by (intro allI on_subscription_changed_ttl)
  have 5: "(3600 :: int) < 86400" by simp
  show ?thesis
    by (intro conjI) (fact 1 2 3 4 5)+
qed

lemma subscription_canceled_run:
  "createWebhookHandler demo_runtime
      (demo_options (Some (no_sync\<lparr> sync_onSubscriptionCanceled := resolves \<rparr>))
                    (Some (no_handlers\<lparr> onSubscriptionCanceled := resolves \<rparr>)))
      (demo_request ''customer.subscription.deleted sub_1'' (Some ''t=1,v1=valid'')) demo_world
   = (\<lparr> res_status = 200, res_body = JObj [(''received'', JBool True)] \<rparr>,
      \<lparr> w_cache =
          \<lparr> m_storage =
              [''subscription:sub_1'' \<mapsto>
                 \<lparr> se_value =
                     Some (SubscriptionEntity (latest_subscription (demo_subscription ''sub_1''))),
                   se_expiresAt = Some 86400000 \<rparr>],
            m_clock = (\<lambda>n. 1000 * n), m_ops = 1 \<rparr>,
        w_stripe = 1,
        w_trace =
          [VerifyWebhook ''customer.subscription.deleted sub_1'' ''t=1,v1=valid'',
           Upstream (SubscriptionsRetrieve ''sub_1''),
           CacheSet ''subscription:sub_1''
             (SubscriptionEntity (latest_subscription (demo_subscription ''sub_1''))) (Some 86400),
           SyncCalled ''onSubscriptionCanceled''
             (SubscriptionEntity (latest_subscription (demo_subscription ''sub_1''))),
           HandlerCalled ''onSubscriptionCanceled''
             (SubscriptionEntity (latest_subscription (demo_subscription ''sub_1'')))] \<rparr>)"
proof -
  let ?body = "''customer.subscription.deleted sub_1''"
  let ?sig = "''t=1,v1=valid''"
  let ?opts = "demo_options (Some (no_sync\<lparr> sync_onSubscriptionCanceled := resolves \<rparr>))
                            (Some (no_handlers\<lparr> onSubscriptionCanceled := resolves \<rparr>))"
  let ?req = "demo_request ?body (Some ?sig)"
  let ?ev = "to_WebhookEvent (demo_event ?body)"
  let ?s = "latest_subscription (demo_subscription ''sub_1'')"
  let ?c = "\<lparr> m_storage = [''subscription:sub_1'' \<mapsto>
                 \<lparr> se_value = Some (SubscriptionEntity ?s), se_expiresAt = Some 86400000 \<rparr>],
              m_clock = (\<lambda>n. 1000 * n), m_ops = 1 \<rparr> :: entity memory"
  have v: "provider_verifyWebhook ?opts (req_body ?req) ?sig = Inr ?ev"
    by (simp add: demo_request_valid demo_options_def demo_provider_def demo_stripe_def
        verifyWebhook_def verifyWebhookSignature_def truthy_def)
  have ty: "ev_type ?ev = ''customer.subscription.deleted''
            \<or> ev_type ?ev = ''customer.subscription.canceled''"
    and oid: "obj_id (ev_data ?ev) = ''sub_1''"
    by (simp_all add: to_WebhookEvent_def demo_event_def)
  have f: "subscriptions_retrieve
             (rt_Stripe demo_runtime
                (secretKey \<lparr> secretKey = ''sk_test_mock_key'',
                              webhookSecret = Some ''whsec_mock_webhook_secret'' \<rparr>))
             ''sub_1'' (w_stripe demo_world) = (Inr (demo_subscription ''sub_1''), 1)"
    by (simp add: demo_defs)
  have i: "ssub_id (demo_subscription ''sub_1'') = ''sub_1''"
    by (simp add: demo_subscription_def)
  have k: "kv_set (cache ?opts) (''subscription:'' @ ''sub_1'') (SubscriptionEntity ?s) (Some 86400)
             (w_cache demo_world) = (Inr (), ?c)"
    by (simp add: demo_defs)
  have sy: "\<forall>g. optional_member (sync ?opts) sync_onSubscriptionCanceled = Some g \<longrightarrow> g ?s = None"
    by (auto simp: demo_defs optional_member_def)
  have h: "optional_member (handlers ?opts) onSubscriptionCanceled = Some (\<lambda>x. None)"
    by (simp add: demo_defs optional_member_def)
  have sc: "optional_member (sync ?opts) sync_onSubscriptionCanceled = Some (\<lambda>x. None)"
    by (simp add: demo_defs optional_member_def)
  have tr: "w_trace demo_world = []" by (simp add: demo_world_def)
  from subscription_canceled_pipeline
         [OF demo_request_valid(1) demo_request_valid(2) v ty oid demo_config f i k sy h refl,
          THEN conjunct1]
  show ?thesis
    by (simp add: demo_request_valid(3) sc tr)
qed

text \<open>
  Claim C6 fails on the code. A \<^verbatim>\<open>customer.subscription.deleted\<close> event for the
  subscription \<^verbatim>\<open>sub_1\<close>, with a valid signature, a sync adapter whose
  \<^verbatim>\<open>onSubscriptionCanceled\<close> rejects and a user handler \<^verbatim>\<open>onSubscriptionCanceled\<close>:
  the subscription is fetched and written under \<^verbatim>\<open>subscription:sub_1\<close> with a
  time-to-live of 86400 seconds and the sync adapter is called with it, but the
  rejection ends the run. The user handler is not called, and the body of the response
  is not \<^verbatim>\<open>{received: true}\<close>.
\<close>

theorem canceled_sync_failure_skips_handler:
  "createWebhookHandler demo_runtime
      (demo_options (Some (no_sync\<lparr> sync_onSubscriptionCanceled := rejects ''db down'' \<rparr>))
                    (Some (no_handlers\<lparr> onSubscriptionCanceled := resolves \<rparr>)))
      (demo_request ''customer.subscription.deleted sub_1'' (Some ''t=1,v1=valid'')) demo_world
   = (\<lparr> res_status = 200,
        res_body = JObj [(''received'', JBool True), (''error'', JStr ''Handler error logged'')] \<rparr>,
      \<lparr> w_cache =
          \<lparr> m_storage =
              [''subscription:sub_1'' \<mapsto>
                 \<lparr> se_value =
                     Some (SubscriptionEntity (latest_subscription (demo_subscription ''sub_1''))),
                   se_expiresAt = Some 86400000 \<rparr>],
            m_clock = (\<lambda>n. 1000 * n), m_ops = 1 \<rparr>,
        w_stripe = 1,
        w_trace =
          [VerifyWebhook ''customer.subscription.deleted sub_1'' ''t=1,v1=valid'',
           Upstream (SubscriptionsRetrieve ''sub_1''),
           CacheSet ''subscription:sub_1''
             (SubscriptionEntity (latest_subscription (demo_subscription ''sub_1''))) (Some 86400),
           SyncCalled ''onSubscriptionCanceled''
             (SubscriptionEntity (latest_subscription (demo_subscription ''sub_1''))),
           ConsoleError ''Webhook handler error:'' (Some (Error ''db down''))] \<rparr>)
   \<and> filter is_HandlerCalled (w_trace (snd
        (createWebhookHandler demo_runtime
           (demo_options (Some (no_sync\<lparr> sync_onSubscriptionCanceled := rejects ''db down'' \<rparr>))
                         (Some (no_handlers\<lparr> onSubscriptionCanceled := resolves \<rparr>)))
           (demo_request ''customer.subscription.deleted sub_1'' (Some ''t=1,v1=valid''))
           demo_world))) = []"
  by (simp add: run_defs demo_defs Let_def latest_subscription_def demo_subscription_def)

section \<open>A failure after the session was cached\<close>

lemma fetchLatestCustomer_leaves:
  "adds (leaves_entry key) (\<lambda>_. True) (fetchLatestCustomer stripe customerId)"
  unfolding fetchLatestCustomer_def
proof (rule adds_seq)
  show "adds (leaves_entry key) (\<lambda>_. True)
          (upstream (CustomersRetrieve customerId) (customers_retrieve stripe customerId))"
    by (intro adds_upstream) simp_all
next
  fix customer
  show "adds (leaves_entry key) (\<lambda>_. True)
          (if sc_deleted customer
           then throw (PaymentError (''Customer '' @ customerId @ '' has been deleted'')
                         CUSTOMER_NOT_FOUND 404)
           else ret (latest_customer customer))"
    by (simp add: adds_throw adds_ret)
qed

lemma cache_customer_leaves:
  "adds (leaves_entry (''checkout:'' @ x)) (\<lambda>_. True) (cache_customer kv c)"
proof -
  have email: "adds (leaves_entry (''checkout:'' @ x)) (\<lambda>_. True)
          (case truthy (cus_email c) of
             None \<Rightarrow> ret ()
           | Some email \<Rightarrow>
               cache_set kv (''customer:email:'' @ email) (CustomerEntity c) (Some 86400))"
    by (cases "truthy (cus_email c)") (auto intro: adds_ret adds_cache_set)
  have userId: "adds (leaves_entry (''checkout:'' @ x)) (\<lambda>_. True)
          (case metadata_userId (cus_metadata c) of
             None \<Rightarrow> ret ()
           | Some userId \<Rightarrow>
               cache_set kv (''customer:userId:'' @ userId) (IdString (cus_id c)) (Some 86400))"
    by (cases "metadata_userId (cus_metadata c)") (auto intro: adds_ret adds_cache_set)
  have first: "adds (leaves_entry (''checkout:'' @ x)) (\<lambda>_. True)
          (cache_set kv (''customer:'' @ cus_id c) (CustomerEntity c) (Some 86400))"
    by (intro adds_cache_set) simp
  show ?thesis
    unfolding cache_customer_def by (intro adds_seq first email userId)
qed

lemma checkout_cache_customer_leaves:
  "adds (leaves_entry (''checkout:'' @ x)) (\<lambda>_. True) (checkout_cache_customer options stripe s)"
proof (cases "truthy (cs_customerId s)")
  case None
  then show ?thesis by (simp add: checkout_cache_customer_def adds_ret)
next
  case (Some customerId)
  have "adds (leaves_entry (''checkout:'' @ x)) (\<lambda>_. True)
          (bind (fetchLatestCustomer stripe customerId) (cache_customer (cache options)))"
    by (intro adds_seq fetchLatestCustomer_leaves cache_customer_leaves)
  with Some show ?thesis by (simp add: checkout_cache_customer_def)
qed

lemma bind_stop: "m s = (Inl e, s') \<Longrightarrow> bind m f s = (Inl e, s')"
  by (simp add: bind_def)

text \<open>The checkout branch up to the write of the session.\<close>

lemma checkout_written:
  assumes "checkout_sessions_retrieve stripe (obj_id (ev_data event)) (w_stripe w0) = (Inr fetched, u1)"
      and "kv_set (cache options) (''checkout:'' @ ss_id fetched)
             (SessionEntity (latest_session fetched)) (Some 3600) (w_cache w0) = (Inr (), c1)"
  shows "on_checkout_completed options stripe event w0 =
           bind (checkout_cache_customer options stripe (latest_session fetched)) (\<lambda>_.
           bind (checkout_sync options stripe (latest_session fetched)) (\<lambda>_.
           call_handler ''onCheckoutComplete''
             (optional_member (handlers options) onCheckoutComplete)
             SessionEntity (latest_session fetched)))
             \<lparr> w_cache = c1, w_stripe = u1,
               w_trace = w_trace w0 @
                 [Upstream (SessionsRetrieve (obj_id (ev_data event))),
                  CacheSet (''checkout:'' @ ss_id fetched)
                    (SessionEntity (latest_session fetched)) (Some 3600)] \<rparr>"
proof -
  let ?s = "latest_session fetched"
  let ?w1 = "\<lparr> w_cache = w_cache w0, w_stripe = u1,
               w_trace = w_trace w0 @ [Upstream (SessionsRetrieve (obj_id (ev_data event)))] \<rparr>"
  have 1: "fetchLatestCheckoutSession stripe (obj_id (ev_data event)) w0 = (Inr ?s, ?w1)"
    using fetchLatestCheckoutSession_run [OF assms(1)] by (simp add: world_after)
  have 2: "cache_set (cache options) (''checkout:'' @ cs_id ?s) (SessionEntity ?s) (Some 3600) ?w1
           = (Inr (), \<lparr> w_cache = c1, w_stripe = u1,
                         w_trace = w_trace w0 @
                           [Upstream (SessionsRetrieve (obj_id (ev_data event))),
                            CacheSet (''checkout:'' @ ss_id fetched) (SessionEntity ?s) (Some 3600)] \<rparr>)"
    using assms(2) by (simp add: cache_set_def world_after)
  show ?thesis
    unfolding on_checkout_completed_def
    apply (rule bind_step, rule 1)
    apply (rule bind_step, rule 2)
    apply (rule refl)
    done
qed

lemma memory_set_other_key:
  "k \<noteq> key \<Longrightarrow>
   m_storage (snd (kv_set createMemoryAdapter k v ttl m)) key = m_storage m key"
  by (simp add: createMemoryAdapter_def memory_set_def)

lemma adds_weaken:
  assumes "adds P Q m" and "\<And>eff. P eff \<Longrightarrow> P' eff"
  shows "adds P' Q m"
  unfolding adds_def
proof (intro allI impI)
  fix w r w'
  assume "m w = (r, w')"
  from addsD [OF assms(1) this]
  obtain new where n: "w_trace w' = w_trace w @ new" "list_all P new"
    and q: "\<forall>a. r = Inr a \<longrightarrow> Q a"
    by blast
  from n(2) assms(2) have "list_all P' new" by (induction new) simp_all
  with n(1) q show "(\<exists>new. w_trace w' = w_trace w @ new \<and> list_all P' new)
                    \<and> (\<forall>a. r = Inr a \<longrightarrow> Q a)"
    by blast
qed

lemma leaves_keeps: "leaves_entry key eff \<Longrightarrow> keeps_entry key eff"
  by (cases eff) simp_all

lemma checkout_sync_keeps:
  "adds (keeps_entry key) (\<lambda>_. True) (checkout_sync options stripe s)"
proof (cases "optional_member (sync options) sync_onCustomerCreated")
  case None
  then show ?thesis by (simp add: checkout_sync_def adds_ret)
next
  case (Some f)
  show ?thesis
  proof (cases "truthy (cs_customerId s)")
    case None
    with Some show ?thesis by (simp add: checkout_sync_def adds_ret)
  next
    case (Some customerId)
    have a: "adds (keeps_entry key) (\<lambda>_. True) (fetchLatestCustomer stripe customerId)"
      by (rule adds_weaken [OF fetchLatestCustomer_leaves leaves_keeps])
    have b: "adds (keeps_entry key) (\<lambda>_. True)
               (call_sync ''onCustomerCreated'' (Some f) CustomerEntity c)" for c
      by (rule adds_call_sync) simp
    have "adds (keeps_entry key) (\<lambda>_. True)
            (bind (fetchLatestCustomer stripe customerId)
               (call_sync ''onCustomerCreated'' (Some f) CustomerEntity))"
      by (rule adds_seq [OF a b])
    with Some \<open>optional_member (sync options) sync_onCustomerCreated = Some f\<close>
    show ?thesis by (simp add: checkout_sync_def)
  qed
qed

text \<open>The checkout branch after the write of the session.\<close>

lemma checkout_rest_keeps:
  "adds (keeps_entry (''checkout:'' @ x)) (\<lambda>_. True)
     (bind (checkout_cache_customer options stripe s) (\<lambda>_.
      bind (checkout_sync options stripe s) (\<lambda>_.
      call_handler ''onCheckoutComplete''
        (optional_member (handlers options) onCheckoutComplete) SessionEntity s)))"
proof -
  have a: "adds (keeps_entry (''checkout:'' @ x)) (\<lambda>_. True)
             (checkout_cache_customer options stripe s)"
    by (rule adds_weaken [OF checkout_cache_customer_leaves leaves_keeps])
  have c: "adds (keeps_entry (''checkout:'' @ x)) (\<lambda>_. True)
             (call_handler ''onCheckoutComplete''
                (optional_member (handlers options) onCheckoutComplete) SessionEntity s)"
    by (rule adds_call_handler) simp
  show ?thesis
    by (intro adds_seq a checkout_sync_keeps c)
qed

lemma checkout_sync_rejects:
  assumes "optional_member (sync options) sync_onCustomerCreated = Some f"
      and "truthy (cs_customerId s) = Some customerId"
      and "fetchLatestCustomer stripe customerId w3 = (Inr c, w4)"
      and "f c = Some e"
  shows "checkout_sync options stripe s w3 =
           (Inl e, record_effect (SyncCalled ''onCustomerCreated'' (CustomerEntity c)) w4)"
  using assms by (simp add: checkout_sync_def bind_def call_sync_def call_back_def)

text \<open>
  Claim C10, as amended. Let a POST request with a valid signature carry a
  \<^verbatim>\<open>checkout.session.completed\<close> event, let the configuration load, the Stripe client
  return the session and the cache accept its write under \<^verbatim>\<open>checkout:<id>\<close>; call
  \<open>written\<close> the world at that point, and let an error that is not a
  \<^verbatim>\<open>WebhookError\<close> be thrown after it.
  \<^item> Wherever the error is thrown, it is logged, the response is 200 with the body
    \<^verbatim>\<open>{received: true, error: 'Handler error logged'}\<close>, and no effect after the
    write is a cache delete of \<^verbatim>\<open>checkout:<id>\<close> or a cache write to it.
  \<^item> When it is thrown before a callback is reached, that is while the customer of the
    session is fetched and cached (lines 243 to 260) or by the second fetch of the
    customer, for the sync adapter (line 264), the effects after the write are calls of
    the Stripe client and cache writes to other keys only: neither the sync adapter nor
    the user handler was called.
  \<^item> When it is the fetch of the customer that fails, because the client throws or
    because the customer is deleted upstream, the final cache is the cache as the write
    left it.
  \<^item> When it is the rejection of \<^verbatim>\<open>sync.onCustomerCreated\<close>, the sync adapter was
    called, with the customer fetched for it.
  \<^item> When it is the rejection of the user handler \<^verbatim>\<open>onCheckoutComplete\<close>, the handler
    was called with the fetched session, after the sync adapter if there is one.
  \<^item> In the in-memory adapter a write to another key leaves the entry of a key as it is.
\<close>

theorem checkout_failure_after_write:
  assumes "req_method request = ''POST''"
      and "truthy (req_stripe_signature request) = Some signature"
      and "provider_verifyWebhook options (req_body request) signature = Inr event"
      and "ev_type event = ''checkout.session.completed''"
      and "loadStripeConfig (rt_env rt) None = Inr config"
      and "stripe = rt_Stripe rt (secretKey config)"
      and "checkout_sessions_retrieve stripe (obj_id (ev_data event)) (w_stripe w) = (Inr fetched, u1)"
      and "kv_set (cache options) (''checkout:'' @ ss_id fetched)
             (SessionEntity (latest_session fetched)) (Some 3600) (w_cache w) = (Inr (), c1)"
      and "written = \<lparr> w_cache = c1, w_stripe = u1,
                       w_trace = w_trace w @
                         [VerifyWebhook (req_body request) signature,
                          Upstream (SessionsRetrieve (obj_id (ev_data event))),
                          CacheSet (''checkout:'' @ ss_id fetched)
                            (SessionEntity (latest_session fetched)) (Some 3600)] \<rparr>"
  shows "(\<forall>e w'.
            process_event rt options event
              (record_effect (VerifyWebhook (req_body request) signature) w) = (Inl e, w')
            \<and> \<not> is_WebhookError e \<longrightarrow>
            createWebhookHandler rt options request w =
              (\<lparr> res_status = 200,
                 res_body = JObj [(''received'', JBool True),
                                  (''error'', JStr ''Handler error logged'')] \<rparr>,
               record_effect (ConsoleError ''Webhook handler error:'' (Some e)) w')
            \<and> (\<exists>new. w_trace w' = w_trace written @ new
                   \<and> list_all (keeps_entry (''checkout:'' @ ss_id fetched)) new))
       \<and> (\<forall>e w3.
            checkout_cache_customer options stripe (latest_session fetched) written = (Inl e, w3)
            \<and> \<not> is_WebhookError e \<longrightarrow>
            createWebhookHandler rt options request w =
              (\<lparr> res_status = 200,
                 res_body = JObj [(''received'', JBool True),
                                  (''error'', JStr ''Handler error logged'')] \<rparr>,
               record_effect (ConsoleError ''Webhook handler error:'' (Some e)) w3)
            \<and> (\<exists>new. w_trace w3 = w_trace written @ new
                   \<and> list_all (leaves_entry (''checkout:'' @ ss_id fetched)) new))
       \<and> (\<forall>e w3 f customerId w4.
            checkout_cache_customer options stripe (latest_session fetched) written = (Inr (), w3)
            \<and> optional_member (sync options) sync_onCustomerCreated = Some f
            \<and> truthy (customer_id_of (ss_customer fetched)) = Some customerId
            \<and> fetchLatestCustomer stripe customerId w3 = (Inl e, w4)
            \<and> \<not> is_WebhookError e \<longrightarrow>
            createWebhookHandler rt options request w =
              (\<lparr> res_status = 200,
                 res_body = JObj [(''received'', JBool True),
                                  (''error'', JStr ''Handler error logged'')] \<rparr>,
               record_effect (ConsoleError ''Webhook handler error:'' (Some e)) w4)
            \<and> (\<exists>new. w_trace w4 = w_trace written @ new
                   \<and> list_all (leaves_entry (''checkout:'' @ ss_id fetched)) new))
       \<and> (\<forall>customerId gone u2.
            truthy (customer_id_of (ss_customer fetched)) = Some customerId
            \<and> customers_retrieve stripe customerId u1 = (Inr gone, u2)
            \<and> sc_deleted gone \<longrightarrow>
            createWebhookHandler rt options request w =
              (\<lparr> res_status = 200,
                 res_body = JObj [(''received'', JBool True),
                                  (''error'', JStr ''Handler error logged'')] \<rparr>,
               \<lparr> w_cache = c1, w_stripe = u2,
                 w_trace = w_trace written @
                   [Upstream (CustomersRetrieve customerId),
                    ConsoleError ''Webhook handler error:''
                      (Some (PaymentError (''Customer '' @ customerId @ '' has been deleted'')
                               CUSTOMER_NOT_FOUND 404))] \<rparr>))
       \<and> (\<forall>customerId e u2.
            truthy (customer_id_of (ss_customer fetched)) = Some customerId
            \<and> customers_retrieve stripe customerId u1 = (Inl e, u2)
            \<and> \<not> is_WebhookError e \<longrightarrow>
            createWebhookHandler rt options request w =
              (\<lparr> res_status = 200,
                 res_body = JObj [(''received'', JBool True),
                                  (''error'', JStr ''Handler error logged'')] \<rparr>,
               \<lparr> w_cache = c1, w_stripe = u2,
                 w_trace = w_trace written @
                   [Upstream (CustomersRetrieve customerId),
                    ConsoleError ''Webhook handler error:'' (Some e)] \<rparr>))
       \<and> (\<forall>e w3 f customerId c w4.
            checkout_cache_customer options stripe (latest_session fetched) written = (Inr (), w3)
            \<and> optional_member (sync options) sync_onCustomerCreated = Some f
            \<and> truthy (customer_id_of (ss_customer fetched)) = Some customerId
            \<and> fetchLatestCustomer stripe customerId w3 = (Inr c, w4)
            \<and> f c = Some e
            \<and> \<not> is_WebhookError e \<longrightarrow>
            fst (createWebhookHandler rt options request w) =
              \<lparr> res_status = 200,
                res_body = JObj [(''received'', JBool True),
                                 (''error'', JStr ''Handler error logged'')] \<rparr>
            \<and> SyncCalled ''onCustomerCreated'' (CustomerEntity c)
                 \<in> set (w_trace (snd (createWebhookHandler rt options request w))))
       \<and> (\<forall>e w3 w4 h.
            checkout_cache_customer options stripe (latest_session fetched) written = (Inr (), w3)
            \<and> checkout_sync options stripe (latest_session fetched) w3 = (Inr (), w4)
            \<and> optional_member (handlers options) onCheckoutComplete = Some h
            \<and> h (latest_session fetched) = Some e
            \<and> \<not> is_WebhookError e \<longrightarrow>
            createWebhookHandler rt options request w =
              (\<lparr> res_status = 200,
                 res_body = JObj [(''received'', JBool True),
                                  (''error'', JStr ''Handler error logged'')] \<rparr>,
               record_effect (ConsoleError ''Webhook handler error:'' (Some e))
                 (record_effect
                    (HandlerCalled ''onCheckoutComplete'' (SessionEntity (latest_session fetched)))
                    w4)))
       \<and> (\<forall>(m :: entity memory) k v ttl key.
            k \<noteq> key \<longrightarrow>
            m_storage (snd (kv_set createMemoryAdapter k v ttl m)) key = m_storage m key)"
proof -
  let ?s = "latest_session fetched"
  let ?key = "''checkout:'' @ ss_id fetched"
  let ?w0 = "record_effect (VerifyWebhook (req_body request) signature) w"
  let ?ack = "\<lparr> res_status = 200,
                res_body = JObj [(''received'', JBool True),
                                 (''error'', JStr ''Handler error logged'')] \<rparr>"
  let ?rest = "bind (checkout_cache_customer options stripe ?s) (\<lambda>_.
               bind (checkout_sync options stripe ?s) (\<lambda>_.
               call_handler ''onCheckoutComplete''
                 (optional_member (handlers options) onCheckoutComplete) SessionEntity ?s))"
  have pe: "process_event rt options event = on_checkout_completed options stripe event"
    using assms(4-6) by (simp add: process_event_config)
  have f: "checkout_sessions_retrieve stripe (obj_id (ev_data event)) (w_stripe ?w0) = (Inr fetched, u1)"
    using assms(7) by (simp add: record_effect_def)
  have k: "kv_set (cache options) ?key (SessionEntity ?s) (Some 3600) (w_cache ?w0) = (Inr (), c1)"
    using assms(8) by (simp add: record_effect_def)
  have w: "on_checkout_completed options stripe event ?w0 = ?rest written"
    using checkout_written [OF f k] by (simp add: assms(9) record_effect_def)
  have failing: "createWebhookHandler rt options request w =
                   (?ack, record_effect (ConsoleError ''Webhook handler error:'' (Some e)) w')"
    if "?rest written = (Inl e, w')" and "\<not> is_WebhookError e" for e w'
    using handler_verified [OF assms(1-3), of rt w] that
    by (simp add: pe w outer_catch_other)
  have 0: "createWebhookHandler rt options request w =
             (?ack, record_effect (ConsoleError ''Webhook handler error:'' (Some e)) w')
           \<and> (\<exists>new. w_trace w' = w_trace written @ new \<and> list_all (keeps_entry ?key) new)"
    if "process_event rt options event ?w0 = (Inl e, w') \<and> \<not> is_WebhookError e"
    for e w'
  proof -
    from that have r: "?rest written = (Inl e, w')" by (simp add: pe w)
    with that have "createWebhookHandler rt options request w =
             (?ack, record_effect (ConsoleError ''Webhook handler error:'' (Some e)) w')"
      by (simp add: failing)
    moreover from adds_run [OF checkout_rest_keeps r]
    have "\<exists>new. w_trace w' = w_trace written @ new \<and> list_all (keeps_entry ?key) new"
      by blast
    ultimately show ?thesis by simp
  qed
  have 1: "createWebhookHandler rt options request w =
             (?ack, record_effect (ConsoleError ''Webhook handler error:'' (Some e)) w3)
           \<and> (\<exists>new. w_trace w3 = w_trace written @ new \<and> list_all (leaves_entry ?key) new)"
    if "checkout_cache_customer options stripe ?s written = (Inl e, w3) \<and> \<not> is_WebhookError e"
    for e w3
  proof -
    from that have "?rest written = (Inl e, w3)" by (simp add: bind_stop)
    with that have "createWebhookHandler rt options request w =
             (?ack, record_effect (ConsoleError ''Webhook handler error:'' (Some e)) w3)"
      by (simp add: failing)
    moreover from that adds_run [OF checkout_cache_customer_leaves]
    have "\<exists>new. w_trace w3 = w_trace written @ new \<and> list_all (leaves_entry ?key) new"
      by blast
    ultimately show ?thesis by simp
  qed
  have 2: "createWebhookHandler rt options request w =
             (?ack, record_effect (ConsoleError ''Webhook handler error:'' (Some e)) w4)
           \<and> (\<exists>new. w_trace w4 = w_trace written @ new \<and> list_all (leaves_entry ?key) new)"
    if "checkout_cache_customer options stripe ?s written = (Inr (), w3)
        \<and> optional_member (sync options) sync_onCustomerCreated = Some f
        \<and> truthy (customer_id_of (ss_customer fetched)) = Some customerId
        \<and> fetchLatestCustomer stripe customerId w3 = (Inl e, w4)
        \<and> \<not> is_WebhookError e"
    for e w3 f customerId w4
  proof -
    from that have b: "checkout_cache_customer options stripe ?s written = (Inr (), w3)"
      and c: "fetchLatestCustomer stripe customerId w3 = (Inl e, w4)" by simp_all
    from that have "checkout_sync options stripe ?s w3 = (Inl e, w4)"
      by (simp add: checkout_sync_def bind_stop)
    then have "bind (checkout_sync options stripe ?s) (\<lambda>_.
               call_handler ''onCheckoutComplete''
                 (optional_member (handlers options) onCheckoutComplete) SessionEntity ?s) w3
               = (Inl e, w4)"
      by (rule bind_stop)
    with b have "?rest written = (Inl e, w4)" by (simp add: bind_def)
    with that have "createWebhookHandler rt options request w =
             (?ack, record_effect (ConsoleError ''Webhook handler error:'' (Some e)) w4)"
      by (simp add: failing)
    moreover from adds_run [OF checkout_cache_customer_leaves b]
    obtain n1 where "w_trace w3 = w_trace written @ n1" "list_all (leaves_entry ?key) n1"
      by blast
    moreover from adds_run [OF fetchLatestCustomer_leaves c]
    obtain n2 where "w_trace w4 = w_trace w3 @ n2" "list_all (leaves_entry ?key) n2"
      by blast
    ultimately have "w_trace w4 = w_trace written @ (n1 @ n2) \<and> list_all (leaves_entry ?key) (n1 @ n2)"
      by simp
    with \<open>createWebhookHandler rt options request w =
             (?ack, record_effect (ConsoleError ''Webhook handler error:'' (Some e)) w4)\<close>
    show ?thesis by blast
  qed
  have stage: "checkout_cache_customer options stripe ?s written =
                 bind (fetchLatestCustomer stripe customerId) (cache_customer (cache options)) written"
    if "truthy (customer_id_of (ss_customer fetched)) = Some customerId" for customerId
    using that by (simp add: checkout_cache_customer_def)
  have ws: "w_stripe written = u1" "w_cache written = c1"
    by (simp_all add: assms(9))
  have 3: "createWebhookHandler rt options request w =
              (?ack,
               \<lparr> w_cache = c1, w_stripe = u2,
                 w_trace = w_trace written @
                   [Upstream (CustomersRetrieve customerId),
                    ConsoleError ''Webhook handler error:''
                      (Some (PaymentError (''Customer '' @ customerId @ '' has been deleted'')
                               CUSTOMER_NOT_FOUND 404))] \<rparr>)"
    if "truthy (customer_id_of (ss_customer fetched)) = Some customerId
        \<and> customers_retrieve stripe customerId u1 = (Inr gone, u2)
        \<and> sc_deleted gone"
    for customerId gone u2
  proof -
    let ?e = "PaymentError (''Customer '' @ customerId @ '' has been deleted'') CUSTOMER_NOT_FOUND 404"
    let ?w3 = "(record_effect (Upstream (CustomersRetrieve customerId)) written)\<lparr> w_stripe := u2 \<rparr>"
    from that have "customers_retrieve stripe customerId (w_stripe written) = (Inr gone, u2)"
      by (simp add: ws)
    from fetchLatestCustomer_run [OF this] that
    have "fetchLatestCustomer stripe customerId written = (Inl ?e, ?w3)" by simp
    with that have "checkout_cache_customer options stripe ?s written = (Inl ?e, ?w3)"
      by (simp add: stage bind_stop)
    with 1 [of ?e ?w3] show ?thesis
      by (simp add: record_effect_def ws)
  qed
  have 4: "createWebhookHandler rt options request w =
              (?ack,
               \<lparr> w_cache = c1, w_stripe = u2,
                 w_trace = w_trace written @
                   [Upstream (CustomersRetrieve customerId),
                    ConsoleError ''Webhook handler error:'' (Some e)] \<rparr>)"
    if "truthy (customer_id_of (ss_customer fetched)) = Some customerId
        \<and> customers_retrieve stripe customerId u1 = (Inl e, u2)
        \<and> \<not> is_WebhookError e"
    for customerId e u2
  proof -
    let ?w3 = "(record_effect (Upstream (CustomersRetrieve customerId)) written)\<lparr> w_stripe := u2 \<rparr>"
    from that have "customers_retrieve stripe customerId (w_stripe written) = (Inl e, u2)"
      by (simp add: ws)
    from fetchLatestCustomer_throws [OF this]
    have "fetchLatestCustomer stripe customerId written = (Inl e, ?w3)" .
    with that have "checkout_cache_customer options stripe ?s written = (Inl e, ?w3)"
      by (simp add: stage bind_stop)
    with 1 [of e ?w3] that show ?thesis
      by (simp add: record_effect_def ws)
  qed
  have 5: "fst (createWebhookHandler rt options request w) = ?ack
           \<and> SyncCalled ''onCustomerCreated'' (CustomerEntity c)
                \<in> set (w_trace (snd (createWebhookHandler rt options request w)))"
    if "checkout_cache_customer options stripe ?s written = (Inr (), w3)
        \<and> optional_member (sync options) sync_onCustomerCreated = Some f
        \<and> truthy (customer_id_of (ss_customer fetched)) = Some customerId
        \<and> fetchLatestCustomer stripe customerId w3 = (Inr c, w4)
        \<and> f c = Some e
        \<and> \<not> is_WebhookError e"
    for e w3 f customerId c w4
  proof -
    let ?w5 = "record_effect (SyncCalled ''onCustomerCreated'' (CustomerEntity c)) w4"
    from that have b: "checkout_cache_customer options stripe ?s written = (Inr (), w3)"
      by simp
    from that have p: "optional_member (sync options) sync_onCustomerCreated = Some f"
      "truthy (cs_customerId ?s) = Some customerId"
      "fetchLatestCustomer stripe customerId w3 = (Inr c, w4)"
      "f c = Some e"
      by simp_all
    have "checkout_sync options stripe ?s w3 = (Inl e, ?w5)"
      by (rule checkout_sync_rejects [OF p])
    then have "bind (checkout_sync options stripe ?s) (\<lambda>_.
               call_handler ''onCheckoutComplete''
                 (optional_member (handlers options) onCheckoutComplete) SessionEntity ?s) w3
               = (Inl e, ?w5)"
      by (rule bind_stop)
    with b have "?rest written = (Inl e, ?w5)" by (simp add: bind_def)
    with that have "createWebhookHandler rt options request w =
             (?ack, record_effect (ConsoleError ''Webhook handler error:'' (Some e)) ?w5)"
      by (simp add: failing)
    then show ?thesis by (simp add: record_effect_def)
  qed
  have 6: "createWebhookHandler rt options request w =
             (?ack, record_effect (ConsoleError ''Webhook handler error:'' (Some e))
                      (record_effect (HandlerCalled ''onCheckoutComplete'' (SessionEntity ?s)) w4))"
    if "checkout_cache_customer options stripe ?s written = (Inr (), w3)
        \<and> checkout_sync options stripe ?s w3 = (Inr (), w4)
        \<and> optional_member (handlers options) onCheckoutComplete = Some h
        \<and> h ?s = Some e
        \<and> \<not> is_WebhookError e"
    for e w3 w4 h
  proof -
    from that have "?rest written =
        (Inl e, record_effect (HandlerCalled ''onCheckoutComplete'' (SessionEntity ?s)) w4)"
      by (simp add: bind_def call_handler_rejects)
    with that show ?thesis by (simp add: failing)
  qed
  have 7: "\<forall>(m :: entity memory) k v ttl key.
            k \<noteq> key \<longrightarrow>
            m_storage (snd (kv_set createMemoryAdapter k v ttl m)) key = m_storage m key"
    by (simp add: memory_set_other_key)
  show ?thesis
    apply (intro conjI)
    subgoal using 0 by blast
    subgoal using 1 by blast
    subgoal using 2 by blast
    subgoal using 3 by blast
    subgoal using 4 by blast
    subgoal using 5 by blast
    subgoal using 6 by blast
    subgoal by (rule 7)
    done
qed

theorem checkout_failure_after_write_witness:
  "createWebhookHandler demo_runtime
      (demo_options (Some (no_sync\<lparr> sync_onCustomerCreated := resolves \<rparr>))
                    (Some (no_handlers\<lparr> onCheckoutComplete := resolves \<rparr>)))
      (demo_request ''checkout.session.completed cs_gone'' (Some ''t=1,v1=valid'')) demo_world
   = (\<lparr> res_status = 200,
        res_body = JObj [(''received'', JBool True), (''error'', JStr ''Handler error logged'')] \<rparr>,
      \<lparr> w_cache =
          \<lparr> m_storage =
              [''checkout:cs_gone'' \<mapsto>
                 \<lparr> se_value = Some (SessionEntity (latest_session (demo_session ''cs_gone''))),
                   se_expiresAt = Some 3600000 \<rparr>],
            m_clock = (\<lambda>n. 1000 * n), m_ops = 1 \<rparr>,
        w_stripe = 2,
        w_trace =
          [VerifyWebhook ''checkout.session.completed cs_gone'' ''t=1,v1=valid'',
           Upstream (SessionsRetrieve ''cs_gone''),
           CacheSet ''checkout:cs_gone''
             (SessionEntity (latest_session (demo_session ''cs_gone''))) (Some 3600),
           Upstream (CustomersRetrieve ''cus_gone''),
           ConsoleError ''Webhook handler error:''
             (Some (PaymentError ''Customer cus_gone has been deleted'' CUSTOMER_NOT_FOUND 404))] \<rparr>)"
proof -
  let ?body = "''checkout.session.completed cs_gone''"
  let ?sig = "''t=1,v1=valid''"
  let ?opts = "demo_options (Some (no_sync\<lparr> sync_onCustomerCreated := resolves \<rparr>))
                            (Some (no_handlers\<lparr> onCheckoutComplete := resolves \<rparr>))"
  let ?req = "demo_request ?body (Some ?sig)"
  let ?ev = "to_WebhookEvent (demo_event ?body)"
  let ?s = "latest_session (demo_session ''cs_gone'')"
  let ?c = "\<lparr> m_storage = [''checkout:cs_gone'' \<mapsto>
                 \<lparr> se_value = Some (SessionEntity ?s), se_expiresAt = Some 3600000 \<rparr>],
              m_clock = (\<lambda>n. 1000 * n), m_ops = 1 \<rparr> :: entity memory"
  have v: "provider_verifyWebhook ?opts (req_body ?req) ?sig = Inr ?ev"
    by (simp add: demo_request_valid demo_verify)
  have ty: "ev_type ?ev = ''checkout.session.completed''"
    and oid: "obj_id (ev_data ?ev) = ''cs_gone''"
    by (simp_all add: to_WebhookEvent_def demo_event_def)
  have st: "demo_stripe = rt_Stripe demo_runtime
              (secretKey \<lparr> secretKey = ''sk_test_mock_key'',
                            webhookSecret = Some ''whsec_mock_webhook_secret'' \<rparr>)"
    by (simp add: demo_runtime_def)
  have f: "checkout_sessions_retrieve demo_stripe (obj_id (ev_data ?ev)) (w_stripe demo_world)
             = (Inr (demo_session ''cs_gone''), 1)"
    unfolding oid by (simp add: demo_stripe_def demo_world_def)
  have i: "ss_id (demo_session ''cs_gone'') = ''cs_gone''"
    by (simp add: demo_session_def)
  have k: "kv_set (cache ?opts) (''checkout:'' @ ss_id (demo_session ''cs_gone''))
             (SessionEntity ?s) (Some 3600) (w_cache demo_world) = (Inr (), ?c)"
    by (simp add: i demo_defs)
  have gone: "truthy (customer_id_of (ss_customer (demo_session ''cs_gone''))) = Some ''cus_gone''
      \<and> customers_retrieve demo_stripe ''cus_gone'' 1 = (Inr (demo_customer ''cus_gone''), 2)
      \<and> sc_deleted (demo_customer ''cus_gone'')"
    by (simp add: demo_session_def demo_customer_def demo_stripe_def customer_id_of_def truthy_def)
  have tr: "w_trace demo_world = []" by (simp add: demo_world_def)
  from checkout_failure_after_write
         [OF demo_request_valid(1) demo_request_valid(2) v ty demo_config st f k refl,
          THEN conjunct2, THEN conjunct2, THEN conjunct2, THEN conjunct1, rule_format, OF gone]
  show ?thesis
    by (simp add: demo_request_valid(3) tr i oid)
qed

text \<open>
  Claim C10 as stated fails where the error thrown after the write is the rejection of
  a callback: the callback that rejects has been called. With a user handler
  \<^verbatim>\<open>onCheckoutComplete\<close> that rejects, the handler is called with the fetched session;
  with a sync adapter whose \<^verbatim>\<open>onCustomerCreated\<close> rejects, the sync adapter is
  called with the fetched customer. In both runs the status is 200 and the entry
  \<^verbatim>\<open>checkout:cs_1\<close> stays in the cache.
\<close>

theorem checkout_callback_invoked_counterexample:
  "createWebhookHandler demo_runtime
      (demo_options None (Some (no_handlers\<lparr> onCheckoutComplete := rejects ''boom'' \<rparr>)))
      (demo_request ''checkout.session.completed cs_1'' (Some ''t=1,v1=valid'')) demo_world
   = (\<lparr> res_status = 200,
        res_body = JObj [(''received'', JBool True), (''error'', JStr ''Handler error logged'')] \<rparr>,
      \<lparr> w_cache =
          \<lparr> m_storage =
              [''checkout:cs_1'' \<mapsto>
                 \<lparr> se_value = Some (SessionEntity (latest_session (demo_session ''cs_1''))),
                   se_expiresAt = Some 3600000 \<rparr>,
               ''customer:cus_1'' \<mapsto>
                 \<lparr> se_value = Some (CustomerEntity (latest_customer (demo_customer ''cus_1''))),
                   se_expiresAt = Some 86401000 \<rparr>,
               ''customer:email:test@example.com'' \<mapsto>
                 \<lparr> se_value = Some (CustomerEntity (latest_customer (demo_customer ''cus_1''))),
                   se_expiresAt = Some 86402000 \<rparr>,
               ''customer:userId:user_123'' \<mapsto>
                 \<lparr> se_value = Some (IdString ''cus_1''), se_expiresAt = Some 86403000 \<rparr>],
            m_clock = (\<lambda>n. 1000 * n), m_ops = 4 \<rparr>,
        w_stripe = 2,
        w_trace =
          [VerifyWebhook ''checkout.session.completed cs_1'' ''t=1,v1=valid'',
           Upstream (SessionsRetrieve ''cs_1''),
           CacheSet ''checkout:cs_1''
             (SessionEntity (latest_session (demo_session ''cs_1''))) (Some 3600),
           Upstream (CustomersRetrieve ''cus_1''),
           CacheSet ''customer:cus_1''
             (CustomerEntity (latest_customer (demo_customer ''cus_1''))) (Some 86400),
           CacheSet ''customer:email:test@example.com''
             (CustomerEntity (latest_customer (demo_customer ''cus_1''))) (Some 86400),
           CacheSet ''customer:userId:user_123'' (IdString ''cus_1'') (Some 86400),
           HandlerCalled ''onCheckoutComplete''
             (SessionEntity (latest_session (demo_session ''cs_1''))),
           ConsoleError ''Webhook handler error:'' (Some (Error ''boom''))] \<rparr>)
   \<and> createWebhookHandler demo_runtime
      (demo_options (Some (no_sync\<lparr> sync_onCustomerCreated := rejects ''db down'' \<rparr>)) None)
      (demo_request ''checkout.session.completed cs_1'' (Some ''t=1,v1=valid'')) demo_world
   = (\<lparr> res_status = 200,
        res_body = JObj [(''received'', JBool True), (''error'', JStr ''Handler error logged'')] \<rparr>,
      \<lparr> w_cache =
          \<lparr> m_storage =
              [''checkout:cs_1'' \<mapsto>
                 \<lparr> se_value = Some (SessionEntity (latest_session (demo_session ''cs_1''))),
                   se_expiresAt = Some 3600000 \<rparr>,
               ''customer:cus_1'' \<mapsto>
                 \<lparr> se_value = Some (CustomerEntity (latest_customer (demo_customer ''cus_1''))),
                   se_expiresAt = Some 86401000 \<rparr>,
               ''customer:email:test@example.com'' \<mapsto>
                 \<lparr> se_value = Some (CustomerEntity (latest_customer (demo_customer ''cus_1''))),
                   se_expiresAt = Some 86402000 \<rparr>,
               ''customer:userId:user_123'' \<mapsto>
                 \<lparr> se_value = Some (IdString ''cus_1''), se_expiresAt = Some 86403000 \<rparr>],
            m_clock = (\<lambda>n. 1000 * n), m_ops = 4 \<rparr>,
        w_stripe = 3,
        w_trace =
          [VerifyWebhook ''checkout.session.completed cs_1'' ''t=1,v1=valid'',
           Upstream (SessionsRetrieve ''cs_1''),
           CacheSet ''checkout:cs_1''
             (SessionEntity (latest_session (demo_session ''cs_1''))) (Some 3600),
           Upstream (CustomersRetrieve ''cus_1''),
           CacheSet ''customer:cus_1''
             (CustomerEntity (latest_customer (demo_customer ''cus_1''))) (Some 86400),
           CacheSet ''customer:email:test@example.com''
             (CustomerEntity (latest_customer (demo_customer ''cus_1''))) (Some 86400),
           CacheSet ''customer:userId:user_123'' (IdString ''cus_1'') (Some 86400),
           Upstream (CustomersRetrieve ''cus_1''),
           SyncCalled ''onCustomerCreated''
             (CustomerEntity (latest_customer (demo_customer ''cus_1''))),
           ConsoleError ''Webhook handler error:'' (Some (Error ''db down''))] \<rparr>)"
  by (simp add: run_defs demo_defs Let_def latest_session_def latest_customer_def
      demo_session_def demo_customer_def)

section \<open>Customer-first checkout\<close>

lemma catching_Inr: "m s = (Inr a, s') \<Longrightarrow> catching m h s = (Inr a, s')"
  by (simp add: catching_def)

lemma createCustomer_run:
  assumes "customers_create stripe (customerParams data) u = (Inr c, u')"
  shows "createCustomer stripe data \<lparr> w_cache = m, w_stripe = u, w_trace = tr \<rparr> =
           (Inr (created_customer c),
            \<lparr> w_cache = m, w_stripe = u',
              w_trace = tr @ [Upstream (CustomersCreate (customerParams data))] \<rparr>)"
  using assms
  by (simp add: createCustomer_def catching_def bind_def upstream_def ret_def record_effect_def)

lemma createCheckoutSession_run:
  assumes "checkout_sessions_create stripe (sessionParams options) u = (Inr s, u')"
  shows "createCheckoutSession stripe options \<lparr> w_cache = m, w_stripe = u, w_trace = tr \<rparr> =
           (Inr (created_session s),
            \<lparr> w_cache = m, w_stripe = u',
              w_trace = tr @ [Upstream (SessionsCreate (sessionParams options))] \<rparr>)"
  using assms
  by (simp add: createCheckoutSession_def catching_def bind_def upstream_def ret_def
      record_effect_def)

lemma memory_cache_get:
  "cache_get createMemoryAdapter key \<lparr> w_cache = m, w_stripe = u, w_trace = tr \<rparr> =
     (Inr (fst (memory_get (m_storage m) key (Date_now m))),
      \<lparr> w_cache = m\<lparr> m_storage := snd (memory_get (m_storage m) key (Date_now m)),
                     m_ops := Suc (m_ops m) \<rparr>,
        w_stripe = u, w_trace = tr @ [CacheGet key] \<rparr>)"
  by (simp add: cache_get_def createMemoryAdapter_def record_effect_def)

lemma memory_cache_set:
  "cache_set createMemoryAdapter key v ttl \<lparr> w_cache = m, w_stripe = u, w_trace = tr \<rparr> =
     (Inr (),
      \<lparr> w_cache = m\<lparr> m_storage := memory_set (m_storage m) key (Some v) ttl (Date_now m),
                     m_ops := Suc (m_ops m) \<rparr>,
        w_stripe = u, w_trace = tr @ [CacheSet key v ttl] \<rparr>)"
  by (simp add: cache_set_def createMemoryAdapter_def record_effect_def)

lemma created_customer_id [simp]: "cus_id (created_customer c) = sc_id c"
  by (simp add: created_customer_def)

lemma created_session_id [simp]: "cs_id (created_session s) = ss_id s"
  by (simp add: created_session_def)

lemma createCheckout_body_valid:
  assumes "metadata_userId (co_metadata options) = Some userId"
      and "truthy (co_customerEmail options) = Some customerEmail"
  shows "createCheckout_body this options =
          bind (cache_get (sp_cache this) (''customer:userId:'' @ userId)) (\<lambda>cached.
          bind
            (case cached of
               None \<Rightarrow> createCheckout_newCustomer this userId customerEmail options
             | Some (IdString customerId) \<Rightarrow>
                 if customerId \<noteq> [] then ret customerId
                 else createCheckout_newCustomer this userId customerEmail options
             | Some other \<Rightarrow> throw (Error ''cached customer id is not a string''))
            (\<lambda>customerId.
          bind (createCheckoutSession (sp_stripe this)
                  (options\<lparr> co_customerId := Some customerId,
                            co_metadata := Some (spread_userId userId (co_metadata options)) \<rparr>))
            (\<lambda>session.
          bind (cache_set (sp_cache this) (''checkout:'' @ cs_id session)
                  (SessionEntity session) (Some 3600)) (\<lambda>_.
          ret session))))"
  using assms by (simp add: createCheckout_body_def)

text \<open>The first call: no live mapping for the user, so the customer is created.\<close>

lemma createCheckout_creates:
  assumes cache: "sp_cache this = createMemoryAdapter"
      and user: "metadata_userId (co_metadata options) = Some userId"
      and mail: "truthy (co_customerEmail options) = Some customerEmail"
      and miss: "fst (memory_get (m_storage m) (''customer:userId:'' @ userId) (Date_now m)) = None"
      and cust: "customers_create (sp_stripe this)
                   \<lparr> ccp_email = customerEmail, ccp_name = None,
                     ccp_metadata = Some (spread_userId userId (co_metadata options)) \<rparr> u
                 = (Inr created, u1)"
      and sess: "checkout_sessions_create (sp_stripe this)
                   (sessionParams
                      (options\<lparr> co_customerId := Some (sc_id created),
                                co_metadata := Some (spread_userId userId (co_metadata options)) \<rparr>)) u1
                 = (Inr session, u2)"
  shows "\<exists>m'. createCheckout this options \<lparr> w_cache = m, w_stripe = u, w_trace = tr \<rparr> =
           (Inr (created_session session),
            \<lparr> w_cache = m', w_stripe = u2,
              w_trace = tr @
                [CacheGet (''customer:userId:'' @ userId),
                 Upstream (CustomersCreate
                   \<lparr> ccp_email = customerEmail, ccp_name = None,
                     ccp_metadata = Some (spread_userId userId (co_metadata options)) \<rparr>),
                 CacheSet (''customer:userId:'' @ userId) (IdString (sc_id created)) None,
                 CacheSet (''customer:email:'' @ customerEmail) (IdString (sc_id created)) None,
                 Upstream (SessionsCreate
                   (sessionParams
                      (options\<lparr> co_customerId := Some (sc_id created),
                                co_metadata := Some (spread_userId userId (co_metadata options)) \<rparr>))),
                 CacheSet (''checkout:'' @ ss_id session)
                   (SessionEntity (created_session session)) (Some 3600)] \<rparr>)
         \<and> m_storage m' (''customer:userId:'' @ userId)
             = Some \<lparr> se_value = Some (IdString (sc_id created)), se_expiresAt = None \<rparr>
         \<and> m_storage m' (''customer:email:'' @ customerEmail)
             = Some \<lparr> se_value = Some (IdString (sc_id created)), se_expiresAt = None \<rparr>
         \<and> m_clock m' = m_clock m"
proof -
  let ?data = "\<lparr> cd_email = customerEmail, cd_name = None,
                 cd_metadata = Some (spread_userId userId (co_metadata options)) \<rparr>"
  have p: "customerParams ?data =
             \<lparr> ccp_email = customerEmail, ccp_name = None,
               ccp_metadata = Some (spread_userId userId (co_metadata options)) \<rparr>"
    by (simp add: customerParams_def)
  note c = createCustomer_run [of "sp_stripe this" ?data, unfolded p, OF cust]
  note s = createCheckoutSession_run [OF sess]
  show ?thesis
    by (simp add: createCheckout_def catching_def createCheckout_body_valid [OF user mail]
        cache bind_def memory_cache_get miss [simplified] createCheckout_newCustomer_def c s
        memory_cache_set ret_def memory_set_def)
qed

text \<open>A later call: the mapping is there, so no customer is created.\<close>

lemma createCheckout_reuses:
  assumes cache: "sp_cache this = createMemoryAdapter"
      and user: "metadata_userId (co_metadata options) = Some userId"
      and mail: "truthy (co_customerEmail options) = Some customerEmail"
      and hit: "m_storage m (''customer:userId:'' @ userId)
                  = Some \<lparr> se_value = Some (IdString customerId), se_expiresAt = None \<rparr>"
      and nonempty: "customerId \<noteq> []"
      and sess: "checkout_sessions_create (sp_stripe this)
                   (sessionParams
                      (options\<lparr> co_customerId := Some customerId,
                                co_metadata := Some (spread_userId userId (co_metadata options)) \<rparr>)) u
                 = (Inr session, u')"
  shows "\<exists>m'. createCheckout this options \<lparr> w_cache = m, w_stripe = u, w_trace = tr \<rparr> =
           (Inr (created_session session),
            \<lparr> w_cache = m', w_stripe = u',
              w_trace = tr @
                [CacheGet (''customer:userId:'' @ userId),
                 Upstream (SessionsCreate
                   (sessionParams
                      (options\<lparr> co_customerId := Some customerId,
                                co_metadata := Some (spread_userId userId (co_metadata options)) \<rparr>))),
                 CacheSet (''checkout:'' @ ss_id session)
                   (SessionEntity (created_session session)) (Some 3600)] \<rparr>)
         \<and> m_storage m' (''customer:userId:'' @ userId)
             = Some \<lparr> se_value = Some (IdString customerId), se_expiresAt = None \<rparr>"
proof -
  note s = createCheckoutSession_run [OF sess]
  from hit have g: "memory_get (m_storage m) (''customer:userId:'' @ userId) (Date_now m)
                    = (Some (IdString customerId), m_storage m)"
    by (rule get_permanent)
  show ?thesis
    by (simp add: createCheckout_def catching_def createCheckout_body_valid [OF user mail]
        cache bind_def memory_cache_get g [simplified] nonempty s memory_cache_set ret_def
        memory_set_def hit [simplified])
qed

text \<open>
  Claim C5. Let the provider use the in-memory cache, let two \<^verbatim>\<open>createCheckout\<close> calls
  follow each other with the same \<^verbatim>\<open>userId\<close> in their metadata and any emails, let
  the cache hold no live mapping for the user before the first call, and let the
  upstream calls succeed, the created customer having a non-empty id. Then both calls
  return their sessions, and over the two calls
  \<^item> the customer is created upstream exactly once, by the first call;
  \<^item> the first call writes the id of the customer under \<^verbatim>\<open>customer:userId:<userId>\<close>
    and under \<^verbatim>\<open>customer:email:<email>\<close> with no time-to-live, and the entries it leaves
    have no expiry instant;
  \<^item> the second call reads \<^verbatim>\<open>customer:userId:<userId>\<close> and creates its session for
    the customer id found there: both sessions are created for the same customer, and
    carry its id whenever the provider returns a session with the customer it was
    created for.
\<close>

theorem customer_first_dedup:
  assumes "sp_cache this = createMemoryAdapter"
      and "metadata_userId (co_metadata first) = Some userId"
      and "metadata_userId (co_metadata second) = Some userId"
      and "truthy (co_customerEmail first) = Some email1"
      and "truthy (co_customerEmail second) = Some email2"
      and "fst (memory_get (m_storage (w_cache w)) (''customer:userId:'' @ userId)
                 (Date_now (w_cache w))) = None"
      and "customers_create (sp_stripe this)
             \<lparr> ccp_email = email1, ccp_name = None,
               ccp_metadata = Some (spread_userId userId (co_metadata first)) \<rparr> (w_stripe w)
           = (Inr created, u1)"
      and "sc_id created \<noteq> []"
      and "params1 = sessionParams
             (first\<lparr> co_customerId := Some (sc_id created),
                     co_metadata := Some (spread_userId userId (co_metadata first)) \<rparr>)"
      and "params2 = sessionParams
             (second\<lparr> co_customerId := Some (sc_id created),
                      co_metadata := Some (spread_userId userId (co_metadata second)) \<rparr>)"
      and "checkout_sessions_create (sp_stripe this) params1 u1 = (Inr session1, u2)"
      and "checkout_sessions_create (sp_stripe this) params2 u2 = (Inr session2, u3)"
  shows "(\<exists>w1 w2 new.
            createCheckout this first w = (Inr (created_session session1), w1)
          \<and> createCheckout this second w1 = (Inr (created_session session2), w2)
          \<and> w_trace w2 = w_trace w @ new
          \<and> new =
              [CacheGet (''customer:userId:'' @ userId),
               Upstream (CustomersCreate
                 \<lparr> ccp_email = email1, ccp_name = None,
                   ccp_metadata = Some (spread_userId userId (co_metadata first)) \<rparr>),
               CacheSet (''customer:userId:'' @ userId) (IdString (sc_id created)) None,
               CacheSet (''customer:email:'' @ email1) (IdString (sc_id created)) None,
               Upstream (SessionsCreate params1),
               CacheSet (''checkout:'' @ ss_id session1)
                 (SessionEntity (created_session session1)) (Some 3600),
               CacheGet (''customer:userId:'' @ userId),
               Upstream (SessionsCreate params2),
               CacheSet (''checkout:'' @ ss_id session2)
                 (SessionEntity (created_session session2)) (Some 3600)]
          \<and> filter is_CustomersCreate new =
              [Upstream (CustomersCreate
                 \<lparr> ccp_email = email1, ccp_name = None,
                   ccp_metadata = Some (spread_userId userId (co_metadata first)) \<rparr>)]
          \<and> m_storage (w_cache w1) (''customer:userId:'' @ userId)
              = Some \<lparr> se_value = Some (IdString (sc_id created)), se_expiresAt = None \<rparr>
          \<and> m_storage (w_cache w1) (''customer:email:'' @ email1)
              = Some \<lparr> se_value = Some (IdString (sc_id created)), se_expiresAt = None \<rparr>
          \<and> m_storage (w_cache w2) (''customer:userId:'' @ userId)
              = Some \<lparr> se_value = Some (IdString (sc_id created)), se_expiresAt = None \<rparr>)
       \<and> scp_customer params1 = Some (sc_id created)
       \<and> scp_customer params2 = Some (sc_id created)
       \<and> (customer_id_of (ss_customer session1) = scp_customer params1
            \<and> customer_id_of (ss_customer session2) = scp_customer params2
            \<longrightarrow> cs_customerId (created_session session1) = Some (sc_id created)
              \<and> cs_customerId (created_session session2) = Some (sc_id created))"
proof -
  obtain m u tr where w: "w = \<lparr> w_cache = m, w_stripe = u, w_trace = tr \<rparr>"
    by (cases w) simp
  let ?ku = "''customer:userId:'' @ userId"
  let ?entry = "\<lparr> se_value = Some (IdString (sc_id created)), se_expiresAt = None \<rparr>"
  from assms(6) have miss: "fst (memory_get (m_storage m) ?ku (Date_now m)) = None"
    by (simp add: w)
  from assms(7) have cust: "customers_create (sp_stripe this)
             \<lparr> ccp_email = email1, ccp_name = None,
               ccp_metadata = Some (spread_userId userId (co_metadata first)) \<rparr> u
           = (Inr created, u1)"
    by (simp add: w)
  from createCheckout_creates
         [OF assms(1) assms(2) assms(4) miss cust assms(11) [unfolded assms(9)], of tr]
  obtain m1 where
    first: "createCheckout this first \<lparr> w_cache = m, w_stripe = u, w_trace = tr \<rparr> =
           (Inr (created_session session1),
            \<lparr> w_cache = m1, w_stripe = u2,
              w_trace = tr @
                [CacheGet ?ku,
                 Upstream (CustomersCreate
                   \<lparr> ccp_email = email1, ccp_name = None,
                     ccp_metadata = Some (spread_userId userId (co_metadata first)) \<rparr>),
                 CacheSet ?ku (IdString (sc_id created)) None,
                 CacheSet (''customer:email:'' @ email1) (IdString (sc_id created)) None,
                 Upstream (SessionsCreate params1),
                 CacheSet (''checkout:'' @ ss_id session1)
                   (SessionEntity (created_session session1)) (Some 3600)] \<rparr>)"
    and ku1: "m_storage m1 ?ku = Some ?entry"
    and ke1: "m_storage m1 (''customer:email:'' @ email1) = Some ?entry"
    unfolding assms(9) by blast
  let ?tr1 = "tr @
                [CacheGet ?ku,
                 Upstream (CustomersCreate
                   \<lparr> ccp_email = email1, ccp_name = None,
                     ccp_metadata = Some (spread_userId userId (co_metadata first)) \<rparr>),
                 CacheSet ?ku (IdString (sc_id created)) None,
                 CacheSet (''customer:email:'' @ email1) (IdString (sc_id created)) None,
                 Upstream (SessionsCreate params1),
                 CacheSet (''checkout:'' @ ss_id session1)
                   (SessionEntity (created_session session1)) (Some 3600)]"
  from createCheckout_reuses
         [OF assms(1) assms(3) assms(5) ku1 assms(8) assms(12) [unfolded assms(10)], of ?tr1]
  obtain m2 where
    second: "createCheckout this second \<lparr> w_cache = m1, w_stripe = u2, w_trace = ?tr1 \<rparr> =
           (Inr (created_session session2),
            \<lparr> w_cache = m2, w_stripe = u3,
              w_trace = ?tr1 @
                [CacheGet ?ku,
                 Upstream (SessionsCreate params2),
                 CacheSet (''checkout:'' @ ss_id session2)
                   (SessionEntity (created_session session2)) (Some 3600)] \<rparr>)"
    and ku2: "m_storage m2 ?ku = Some ?entry"
    unfolding assms(10) by blast
  let ?new = "[CacheGet ?ku,
               Upstream (CustomersCreate
                 \<lparr> ccp_email = email1, ccp_name = None,
                   ccp_metadata = Some (spread_userId userId (co_metadata first)) \<rparr>),
               CacheSet ?ku (IdString (sc_id created)) None,
               CacheSet (''customer:email:'' @ email1) (IdString (sc_id created)) None,
               Upstream (SessionsCreate params1),
               CacheSet (''checkout:'' @ ss_id session1)
                 (SessionEntity (created_session session1)) (Some 3600),
               CacheGet ?ku,
               Upstream (SessionsCreate params2),
               CacheSet (''checkout:'' @ ss_id session2)
                 (SessionEntity (created_session session2)) (Some 3600)]"
  let ?w1 = "\<lparr> w_cache = m1, w_stripe = u2, w_trace = ?tr1 \<rparr>"
  let ?w2 = "\<lparr> w_cache = m2, w_stripe = u3, w_trace = tr @ ?new \<rparr>"
  have a: "createCheckout this first w = (Inr (created_session session1), ?w1)"
    using first by (simp add: w)
  have b: "createCheckout this second ?w1 = (Inr (created_session session2), ?w2)"
    using second by simp
  have c: "w_trace ?w2 = w_trace w @ ?new" by (simp add: w)
  have d: "filter is_CustomersCreate ?new =
              [Upstream (CustomersCreate
                 \<lparr> ccp_email = email1, ccp_name = None,
                   ccp_metadata = Some (spread_userId userId (co_metadata first)) \<rparr>)]"
    by simp
  have e: "m_storage (w_cache ?w1) ?ku = Some ?entry"
    "m_storage (w_cache ?w1) (''customer:email:'' @ email1) = Some ?entry"
    "m_storage (w_cache ?w2) ?ku = Some ?entry"
    using ku1 ke1 ku2 by simp_all
  have 1: "\<exists>w1 w2 new.
            createCheckout this first w = (Inr (created_session session1), w1)
          \<and> createCheckout this second w1 = (Inr (created_session session2), w2)
          \<and> w_trace w2 = w_trace w @ new
          \<and> new = ?new
          \<and> filter is_CustomersCreate new =
              [Upstream (CustomersCreate
                 \<lparr> ccp_email = email1, ccp_name = None,
                   ccp_metadata = Some (spread_userId userId (co_metadata first)) \<rparr>)]
          \<and> m_storage (w_cache w1) ?ku = Some ?entry
          \<and> m_storage (w_cache w1) (''customer:email:'' @ email1) = Some ?entry
          \<and> m_storage (w_cache w2) ?ku = Some ?entry"
    using a b c d e by blast
  have 2: "scp_customer params1 = Some (sc_id created)" "scp_customer params2 = Some (sc_id created)"
    using assms(8) by (simp_all add: assms(9,10) sessionParams_def truthy_def)
  have 3: "customer_id_of (ss_customer session1) = scp_customer params1
            \<and> customer_id_of (ss_customer session2) = scp_customer params2
            \<longrightarrow> cs_customerId (created_session session1) = Some (sc_id created)
              \<and> cs_customerId (created_session session2) = Some (sc_id created)"
    using 2 by (simp add: created_session_def)
  show ?thesis
    by (intro conjI) (fact 1 2 3)+
qed

lemma string_of_nat_digit: "n < 10 \<Longrightarrow> string_of_nat n = [digit_char n]"
  by (subst string_of_nat.simps) simp

theorem customer_first_dedup_witness:
  "\<exists>w1 w2 s1 s2.
      createCheckout demo_provider (demo_checkout ''a@example.com'') demo_world = (Inr s1, w1)
    \<and> createCheckout demo_provider (demo_checkout ''b@example.com'') w1 = (Inr s2, w2)
    \<and> filter is_CustomersCreate (w_trace w2) =
         [Upstream (CustomersCreate
            \<lparr> ccp_email = ''a@example.com'', ccp_name = None,
              ccp_metadata = Some (spread_userId ''user_123''
                                     (Some [''userId'' \<mapsto> ''user_123''])) \<rparr>)]
    \<and> m_storage (w_cache w1) ''customer:userId:user_123''
         = Some \<lparr> se_value = Some (IdString ''cus_0''), se_expiresAt = None \<rparr>
    \<and> m_storage (w_cache w1) ''customer:email:a@example.com''
         = Some \<lparr> se_value = Some (IdString ''cus_0''), se_expiresAt = None \<rparr>
    \<and> cs_customerId s1 = Some ''cus_0''
    \<and> cs_customerId s2 = Some ''cus_0''"
proof -
  let ?first = "demo_checkout ''a@example.com''"
  let ?second = "demo_checkout ''b@example.com''"
  let ?md = "Some [''userId'' \<mapsto> ''user_123'']"
  let ?created = "\<lparr> sc_id = ''cus_0'', sc_deleted = False, sc_email = Some ''a@example.com'',
                    sc_name = None, sc_metadata = Some (spread_userId ''user_123'' ?md),
                    sc_created = 1700000000 \<rparr>"
  let ?p1 = "sessionParams (?first\<lparr> co_customerId := Some (sc_id ?created),
                                   co_metadata := Some (spread_userId ''user_123'' (co_metadata ?first)) \<rparr>)"
  let ?p2 = "sessionParams (?second\<lparr> co_customerId := Some (sc_id ?created),
                                    co_metadata := Some (spread_userId ''user_123'' (co_metadata ?second)) \<rparr>)"
  let ?s1 = "\<lparr> ss_id = ''cs_1'', ss_url = Some ''https://checkout.stripe.com/c/pay'',
               ss_status = Some ''open'', ss_customer = map_option CustomerId (scp_customer ?p1),
               ss_metadata = scp_metadata ?p1, ss_created = 1700000000 \<rparr>"
  let ?s2 = "\<lparr> ss_id = ''cs_2'', ss_url = Some ''https://checkout.stripe.com/c/pay'',
               ss_status = Some ''open'', ss_customer = map_option CustomerId (scp_customer ?p2),
               ss_metadata = scp_metadata ?p2, ss_created = 1700000000 \<rparr>"
  have h1: "sp_cache demo_provider = createMemoryAdapter"
    by (simp add: demo_provider_def)
  have h2: "metadata_userId (co_metadata ?first) = Some ''user_123''"
    and h3: "metadata_userId (co_metadata ?second) = Some ''user_123''"
    and h4: "truthy (co_customerEmail ?first) = Some ''a@example.com''"
    and h5: "truthy (co_customerEmail ?second) = Some ''b@example.com''"
    by (simp_all add: demo_checkout_def metadata_userId_def truthy_def)
  have h6: "fst (memory_get (m_storage (w_cache demo_world)) (''customer:userId:'' @ ''user_123'')
                   (Date_now (w_cache demo_world))) = None"
    by (simp add: demo_world_def demo_memory_def memory_get_def)
  have md: "co_metadata ?first = ?md" "co_metadata ?second = ?md"
    by (simp_all add: demo_checkout_def)
  have h7: "customers_create (sp_stripe demo_provider)
             \<lparr> ccp_email = ''a@example.com'', ccp_name = None,
               ccp_metadata = Some (spread_userId ''user_123'' (co_metadata ?first)) \<rparr>
             (w_stripe demo_world) = (Inr ?created, 1)"
    by (simp add: md demo_provider_def demo_stripe_def demo_world_def string_of_nat_digit
        digit_char_def)
  have h8: "sc_id ?created \<noteq> []" by simp
  have h11: "checkout_sessions_create (sp_stripe demo_provider) ?p1 1 = (Inr ?s1, 2)"
    by (simp add: demo_provider_def demo_stripe_def string_of_nat_digit digit_char_def)
  have h12: "checkout_sessions_create (sp_stripe demo_provider) ?p2 2 = (Inr ?s2, 3)"
    by (simp add: demo_provider_def demo_stripe_def string_of_nat_digit digit_char_def)
  note t = customer_first_dedup [OF h1 h2 h3 h4 h5 h6 h7 h8 refl refl h11 h12]
  have echo: "customer_id_of (ss_customer ?s1) = scp_customer ?p1
              \<and> customer_id_of (ss_customer ?s2) = scp_customer ?p2"
    by (simp add: customer_id_of_def sessionParams_def truthy_def)
  from t [THEN conjunct2, THEN conjunct2, THEN conjunct2, rule_format, OF echo]
  have ids: "cs_customerId (created_session ?s1) = Some ''cus_0''"
    "cs_customerId (created_session ?s2) = Some ''cus_0''"
    by simp_all
  from t [THEN conjunct1]
  obtain w1 w2 new where
        a: "createCheckout demo_provider ?first demo_world = (Inr (created_session ?s1), w1)"
    and b: "createCheckout demo_provider ?second w1 = (Inr (created_session ?s2), w2)"
    and c: "w_trace w2 = w_trace demo_world @ new"
    and d: "filter is_CustomersCreate new =
              [Upstream (CustomersCreate
                 \<lparr> ccp_email = ''a@example.com'', ccp_name = None,
                   ccp_metadata = Some (spread_userId ''user_123'' (co_metadata ?first)) \<rparr>)]"
    and e: "m_storage (w_cache w1) (''customer:userId:'' @ ''user_123'')
              = Some \<lparr> se_value = Some (IdString (sc_id ?created)), se_expiresAt = None \<rparr>"
           "m_storage (w_cache w1) (''customer:email:'' @ ''a@example.com'')
              = Some \<lparr> se_value = Some (IdString (sc_id ?created)), se_expiresAt = None \<rparr>"
    by blast
  from c d have d': "filter is_CustomersCreate (w_trace w2) =
         [Upstream (CustomersCreate
            \<lparr> ccp_email = ''a@example.com'', ccp_name = None,
              ccp_metadata = Some (spread_userId ''user_123'' ?md) \<rparr>)]"
    by (simp add: md demo_world_def)
  from e have e': "m_storage (w_cache w1) ''customer:userId:user_123''
         = Some \<lparr> se_value = Some (IdString ''cus_0''), se_expiresAt = None \<rparr>"
    "m_storage (w_cache w1) ''customer:email:a@example.com''
         = Some \<lparr> se_value = Some (IdString ''cus_0''), se_expiresAt = None \<rparr>"
    by simp_all
  from a b d' e' ids show ?thesis by blast
qed

end
